theory Spec2Isabelle
  imports Main
begin

section \<open>The currency pair synchronisation manager (engine/sync\_manager.go)\<close>

subsection \<open>Time, errors and the wait group\<close>

text \<open>
  A \<open>time.Time\<close> is a number of nanoseconds; the zero time is \<open>0\<close>. \<open>time.Since\<close>
  is the difference between a reading of the clock and a time, and a
  \<open>time.Duration\<close> is a number of nanoseconds (the bounds of Go's 64-bit durations,
  some 292 years, are left out). Go's \<open>int\<close> counters (\<open>NumErrors\<close>,
  \<open>createdCounter\<close>, \<open>removedCounter\<close>) and the counter of a wait group are
  integers.
\<close>

type_synonym time = int

type_synonym duration = int

definition time_IsZero :: "time \<Rightarrow> bool" where
  "time_IsZero t = (t = 0)"

definition time_Since :: "time \<Rightarrow> time \<Rightarrow> duration" where
  "time_Since now t = now - t"

text \<open>
  The sentinel errors of the package (lines 39 to 42) and of the packages it imports.
  An error value is either the sentinel itself or a fresh value made by
  \<open>fmt.Errorf("... %w", sentinel)\<close>: the two are different values under Go's
  \<open>==\<close>, and \<open>errors.Is\<close> finds the sentinel in both.
\<close>

datatype sentinel =
    ErrNilSubsystem
  | ErrSubSystemNotStarted
  | ErrSubSystemAlreadyStarted
  | ErrNilPointer
  | errNilExchangeManager
  | errNilConfig
  | ErrCurrencyCodeEmpty
  | ErrFiatDisplayCurrencyIsNotFiat
  | errNoSyncItemsEnabled
  | errUnknownSyncItem
  | errSyncPairNotFound
  | errCouldNotSyncNewData
  | External string

datatype error = Plain sentinel | Wrapped sentinel

fun errors_Is :: "error \<Rightarrow> sentinel \<Rightarrow> bool" where
  "errors_Is (Plain s) t = (s = t)"
| "errors_Is (Wrapped s) t = (s = t)"

text \<open>
  What stops a goroutine without a return: a \<open>sync.WaitGroup\<close> whose counter would
  go below zero, and a method called through a nil pointer.
\<close>

datatype panic = NegativeWaitGroupCounter | NilPointerDereference

definition WaitGroup_Add :: "int \<Rightarrow> int \<Rightarrow> panic + int" where
  "WaitGroup_Add delta n = (if n + delta < 0 then Inl NegativeWaitGroupCounter else Inr (n + delta))"

definition WaitGroup_Done :: "int \<Rightarrow> panic + int" where
  "WaitGroup_Done n = WaitGroup_Add (- 1) n"

subsection \<open>The data model\<close>

text \<open>
  Modelled from the spec: the declarations of \<open>syncBase\<close>, \<open>currencyPairSyncAgent\<close>,
  \<open>SyncManagerConfig\<close> and \<open>syncManager\<close> are not in sync\_manager.go. The fields are
  the ones the source reads and writes, with the types section 3 of the specification
  gives them. The type \<open>'p\<close> is \<open>currency.Pair\<close> up to \<open>Pair.Equal\<close> (the pair
  component of a unit's key), and \<open>'a\<close> is \<open>asset.Item\<close>. A
  \<open>currency.Code\<close> is seen through its two predicates.

  The package variables \<open>createdCounter\<close> and \<open>removedCounter\<close> (lines 31 and
  32) belong to the process and not to a manager. The state of the manager carries them,
  with the values this manager sees and writes; what another manager of the same
  process does to them is outside the model.
\<close>

record syncBase =
  IsUsingWebsocket :: bool
  IsUsingREST :: bool
  IsProcessing :: bool
  LastUpdated :: time
  HaveData :: bool
  NumErrors :: int

record ('p, 'a) currencyPairSyncAgent =
  Created :: time
  Exchange :: string
  AssetType :: 'a
  Pair' :: 'p
  Ticker :: syncBase
  Orderbook :: syncBase
  Trade :: syncBase

record currency_Code =
  IsEmpty :: bool
  IsFiatCurrency :: bool

record SyncManagerConfig =
  SynchronizeTicker :: bool
  SynchronizeOrderbook :: bool
  SynchronizeTrades :: bool
  SynchronizeContinuously :: bool
  TimeoutREST :: duration
  TimeoutWebsocket :: duration
  NumWorkers :: int
  FiatDisplayCurrency :: currency_Code
  PairFormatDisplay :: "string option"
  Verbose :: bool

record ('p, 'a) syncManager =
  initSyncCompleted :: int
  initSyncStarted :: int
  started :: int
  initSyncStartTime :: time
  currencyPairs :: "('p, 'a) currencyPairSyncAgent list"
  tickerBatchLastRequested :: "string \<rightharpoonup> time"
  websocketRoutineManagerEnabled :: bool
  websocketRPCEnabled :: bool
  initSyncWG :: int
  inService :: int
  config :: SyncManagerConfig
  createdCounter :: int
  removedCounter :: int

definition syncBase0 :: syncBase where
  "syncBase0 = \<lparr>IsUsingWebsocket = False, IsUsingREST = False, IsProcessing = False,
     LastUpdated = 0, HaveData = False, NumErrors = 0\<rparr>"

definition SyncItemTicker :: int where "SyncItemTicker = 0"

definition SyncItemOrderbook :: int where "SyncItemOrderbook = 1"

definition SyncItemTrade :: int where "SyncItemTrade = 2"

subsection \<open>The registry: get, exists, add, isProcessing, setProcessing\<close>

text \<open>
  The test of lines 257 to 259, which every scan of the registry repeats.
\<close>

definition sameKey :: "string \<Rightarrow> 'p \<Rightarrow> 'a \<Rightarrow> ('p, 'a) currencyPairSyncAgent \<Rightarrow> bool" where
  "sameKey exchangeName p a u = (Exchange u = exchangeName \<and> Pair' u = p \<and> AssetType u = a)"

text \<open>
  \<open>for x := range m.currencyPairs\<close> leaving at the first unit with the key: the index
  \<open>x\<close> of that unit, counted from \<open>x0\<close>.
\<close>

fun scan :: "string \<Rightarrow> 'p \<Rightarrow> 'a \<Rightarrow> nat \<Rightarrow> ('p, 'a) currencyPairSyncAgent list \<Rightarrow> nat option" where
  "scan exchangeName p a x0 [] = None"
| "scan exchangeName p a x0 (u # us) =
     (if sameKey exchangeName p a u then Some x0 else scan exchangeName p a (Suc x0) us)"

text \<open>
  \<open>get\<close> returns a pointer into the slice, \<open>&m.currencyPairs[x]\<close>: the index.
\<close>

definition get :: "('p, 'a) syncManager \<Rightarrow> string \<Rightarrow> 'p \<Rightarrow> 'a \<Rightarrow> nat option \<times> error option" where
  "get m exchangeName p a =
     (case scan exchangeName p a 0 (currencyPairs m) of
        Some x \<Rightarrow> (Some x, None)
      | None \<Rightarrow> (None, Some (Wrapped errSyncPairNotFound)))"

definition exists :: "('p, 'a) syncManager \<Rightarrow> string \<Rightarrow> 'p \<Rightarrow> 'a \<Rightarrow> bool" where
  "exists m exchangeName p a =
     (case scan exchangeName p a 0 (currencyPairs m) of Some x \<Rightarrow> True | None \<Rightarrow> False)"

text \<open>
  \<open>add\<close> (lines 281 to 326): one more unit on the barrier for each stream the
  configuration enables, as long as the initial synchronisation has not completed; the
  unit is stamped and appended. The stamped unit is returned with the state, since the
  caller keeps its pointer \<open>c\<close>.
\<close>

definition add_stream :: "bool \<Rightarrow> ('p, 'a) syncManager \<Rightarrow> ('p, 'a) syncManager" where
  "add_stream enabled m =
     (if enabled \<and> initSyncCompleted m \<noteq> 1
      then m\<lparr>initSyncWG := initSyncWG m + 1, createdCounter := createdCounter m + 1\<rparr>
      else m)"

definition add :: "time \<Rightarrow> ('p, 'a) currencyPairSyncAgent \<Rightarrow> ('p, 'a) syncManager
    \<Rightarrow> ('p, 'a) currencyPairSyncAgent \<times> ('p, 'a) syncManager" where
  "add now c m =
     (let m1 = add_stream (SynchronizeTicker (config m)) m;
          m2 = add_stream (SynchronizeOrderbook (config m1)) m1;
          m3 = add_stream (SynchronizeTrades (config m2)) m2;
          c' = c\<lparr>Created := now\<rparr>
      in (c', m3\<lparr>currencyPairs := currencyPairs m3 @ [c']\<rparr>))"

fun isProcessing_loop :: "string \<Rightarrow> 'p \<Rightarrow> 'a \<Rightarrow> int \<Rightarrow> ('p, 'a) currencyPairSyncAgent list \<Rightarrow> bool" where
  "isProcessing_loop exchangeName p a syncType [] = False"
| "isProcessing_loop exchangeName p a syncType (u # us) =
     (if sameKey exchangeName p a u then
        (if syncType = SyncItemTicker then IsProcessing (Ticker u)
         else if syncType = SyncItemOrderbook then IsProcessing (Orderbook u)
         else if syncType = SyncItemTrade then IsProcessing (Trade u)
         else isProcessing_loop exchangeName p a syncType us)
      else isProcessing_loop exchangeName p a syncType us)"

definition isProcessing :: "('p, 'a) syncManager \<Rightarrow> string \<Rightarrow> 'p \<Rightarrow> 'a \<Rightarrow> int \<Rightarrow> bool" where
  "isProcessing m exchangeName p a syncType =
     isProcessing_loop exchangeName p a syncType (currencyPairs m)"

text \<open>
  \<open>setProcessing\<close> (lines 350 to 368) has no \<open>return\<close> in its loop: it writes the flag
  of every unit with the key.
\<close>

definition setProcessing_unit :: "int \<Rightarrow> bool \<Rightarrow> ('p, 'a) currencyPairSyncAgent
    \<Rightarrow> ('p, 'a) currencyPairSyncAgent" where
  "setProcessing_unit syncType processing u =
     (if syncType = SyncItemTicker then u\<lparr>Ticker := (Ticker u)\<lparr>IsProcessing := processing\<rparr>\<rparr>
      else if syncType = SyncItemOrderbook then u\<lparr>Orderbook := (Orderbook u)\<lparr>IsProcessing := processing\<rparr>\<rparr>
      else if syncType = SyncItemTrade then u\<lparr>Trade := (Trade u)\<lparr>IsProcessing := processing\<rparr>\<rparr>
      else u)"

definition setProcessing :: "string \<Rightarrow> 'p \<Rightarrow> 'a \<Rightarrow> int \<Rightarrow> bool \<Rightarrow> ('p, 'a) syncManager
    \<Rightarrow> ('p, 'a) syncManager" where
  "setProcessing exchangeName p a syncType processing m =
     m\<lparr>currencyPairs :=
         map (\<lambda>u. if sameKey exchangeName p a u then setProcessing_unit syncType processing u else u)
           (currencyPairs m)\<rparr>"

subsection \<open>Update\<close>

text \<open>
  The body of one \<open>case\<close> of lines 408 to 461, on the stream \<open>b\<close> the case names:
  the stream after lines 410 to 415.
\<close>

definition finalise :: "error option \<Rightarrow> time \<Rightarrow> syncBase \<Rightarrow> syncBase" where
  "finalise err now b =
     b\<lparr>LastUpdated := now,
       NumErrors := (if err \<noteq> None then NumErrors b + 1 else NumErrors b),
       HaveData := True,
       IsProcessing := False\<rparr>"

text \<open>
  Lines 416 to 425: the first datum of a stream, while the initial synchronisation has
  not completed, counts one removal and releases one unit of the barrier.
\<close>

definition release :: "bool \<Rightarrow> ('p, 'a) syncManager
    \<Rightarrow> panic + (error option \<times> ('p, 'a) syncManager option)" where
  "release origHadData m =
     (if initSyncCompleted m \<noteq> 1 \<and> \<not> origHadData then
        (let m1 = m\<lparr>removedCounter := removedCounter m + 1\<rparr>
         in case WaitGroup_Done (initSyncWG m1) of
              Inl pn \<Rightarrow> Inl pn
            | Inr n \<Rightarrow> Inr (None, Some (m1\<lparr>initSyncWG := n\<rparr>)))
      else Inr (None, Some m))"

text \<open>
  \<open>Update\<close> (lines 371 to 466). The receiver is a pointer: \<open>None\<close> is nil. The result
  is the panic, or the returned error with the state the call leaves. \<open>now\<close> is what
  \<open>time.Now()\<close> returns inside the call.
\<close>

definition Update :: "string \<Rightarrow> 'p \<Rightarrow> 'a \<Rightarrow> int \<Rightarrow> error option \<Rightarrow> time
    \<Rightarrow> ('p, 'a) syncManager option \<Rightarrow> panic + (error option \<times> ('p, 'a) syncManager option)" where
  "Update exchangeName p a syncType err now mp =
     (case mp of
        None \<Rightarrow> Inr (Some (Wrapped ErrNilSubsystem), None)
      | Some m \<Rightarrow>
          if started m = 0 then Inr (Some (Wrapped ErrSubSystemNotStarted), Some m)
          else if initSyncStarted m \<noteq> 1 then Inr (None, Some m)
          else if syncType = SyncItemOrderbook \<and> \<not> SynchronizeOrderbook (config m) then Inr (None, Some m)
          else if syncType = SyncItemTicker \<and> \<not> SynchronizeTicker (config m) then Inr (None, Some m)
          else if syncType = SyncItemTrade \<and> \<not> SynchronizeTrades (config m) then Inr (None, Some m)
          else if syncType \<noteq> SyncItemOrderbook \<and> syncType \<noteq> SyncItemTicker \<and> syncType \<noteq> SyncItemTrade
            then Inr (Some (Wrapped errUnknownSyncItem), Some m)
          else
            (case scan exchangeName p a 0 (currencyPairs m) of
               None \<Rightarrow> Inr (Some (Wrapped errCouldNotSyncNewData), Some m)
             | Some x \<Rightarrow>
                 (let u = currencyPairs m ! x in
                  if syncType = SyncItemTicker then
                    release (HaveData (Ticker u))
                      (m\<lparr>currencyPairs := (currencyPairs m)[x := u\<lparr>Ticker := finalise err now (Ticker u)\<rparr>]\<rparr>)
                  else if syncType = SyncItemOrderbook then
                    release (HaveData (Orderbook u))
                      (m\<lparr>currencyPairs := (currencyPairs m)[x := u\<lparr>Orderbook := finalise err now (Orderbook u)\<rparr>]\<rparr>)
                  else
                    release (HaveData (Trade u))
                      (m\<lparr>currencyPairs := (currencyPairs m)[x := u\<lparr>Trade := finalise err now (Trade u)\<rparr>]\<rparr>))))"

subsection \<open>The exchanges\<close>

text \<open>
  Modelled from the spec: the interfaces \<open>iExchangeManager\<close> and
  \<open>exchange.IBotExchange\<close> and the type \<open>stream.Websocket\<close> are not in
  sync\_manager.go. An exchange is the record of what its methods answer (section 6 of
  the specification lists them); a method that returns a pointer and an error answers a
  pair, the pointer \<open>None\<close> when nil, and for the fetches only whether the result is
  nil is kept. \<open>IsConnected\<close> reads the websocket, so it cannot be called through a
  nil pointer.
\<close>

record websocket =
  IsConnected :: bool

record ('p, 'a) exchange =
  GetName :: string
  SupportsWebsocket :: bool
  SupportsREST :: bool
  IsWebsocketEnabled :: bool
  SupportsRESTTickerBatchUpdates :: bool
  GetWebsocket :: "websocket option \<times> error option"
  GetAssetTypes :: "bool \<Rightarrow> 'a list"
  IsAssetEnabled :: "'a \<Rightarrow> error option"
  IsAssetWebsocketSupported :: "'a \<Rightarrow> bool"
  GetEnabledPairs :: "'a \<Rightarrow> 'p list \<times> error option"
  UpdateOrderbook :: "'p \<Rightarrow> 'a \<Rightarrow> bool \<times> error option"
  UpdateTicker :: "'p \<Rightarrow> 'a \<Rightarrow> bool \<times> error option"
  UpdateTickers :: "'a \<Rightarrow> error option"
  FetchTicker :: "'p \<Rightarrow> 'a \<Rightarrow> bool \<times> error option"

record ('p, 'a) iExchangeManager =
  GetExchanges :: "('p, 'a) exchange list \<times> error option"

text \<open>
  The clock: \<open>clk n\<close> is what the clock shows at the \<open>n\<close>-th place where the code
  may read it (\<open>time.Now\<close>, \<open>time.Since\<close>); the functions below carry the position.
\<close>

type_synonym clock = "nat \<Rightarrow> time"

subsection \<open>setupSyncManager and Stop\<close>

definition DefaultSyncerWorkers :: int where "DefaultSyncerWorkers = 15"

definition DefaultSyncerTimeoutREST :: duration where "DefaultSyncerTimeoutREST = 15 * 1000000000"

definition DefaultSyncerTimeoutWebsocket :: duration where "DefaultSyncerTimeoutWebsocket = 60 * 1000000000"

text \<open>
  Modelled from the spec: \<open>config.RemoteControlConfig\<close> is not in sync\_manager.go;
  the source reads its \<open>WebsocketRPC.Enabled\<close>.
\<close>

record RemoteControlConfig =
  WebsocketRPC_Enabled :: bool

text \<open>
  \<open>setupSyncManager\<close> (lines 46 to 104). The three pointers are options; of the
  exchange manager only whether it is nil is used here. The defaults are written into
  the caller's configuration before it is copied into the manager. The function does not
  write the package variables: \<open>created\<close> and \<open>removed\<close> are the values they have
  when it is called.
\<close>

definition setupSyncManager :: "SyncManagerConfig option \<Rightarrow> ('p, 'a) iExchangeManager option
    \<Rightarrow> RemoteControlConfig option \<Rightarrow> bool \<Rightarrow> int \<Rightarrow> int
    \<Rightarrow> ('p, 'a) syncManager option \<times> error option" where
  "setupSyncManager cp exchangeManager remoteConfig wsRoutineManagerEnabled created removed =
     (case cp of
        None \<Rightarrow> (None, Some (Wrapped ErrNilPointer))
      | Some c \<Rightarrow>
          if \<not> SynchronizeOrderbook c \<and> \<not> SynchronizeTicker c \<and> \<not> SynchronizeTrades c
            then (None, Some (Plain errNoSyncItemsEnabled))
          else if exchangeManager = None then (None, Some (Plain errNilExchangeManager))
          else
            (case remoteConfig of
               None \<Rightarrow> (None, Some (Plain errNilConfig))
             | Some rc \<Rightarrow>
                 (let c1 = (if NumWorkers c \<le> 0 then c\<lparr>NumWorkers := DefaultSyncerWorkers\<rparr> else c);
                      c2 = (if TimeoutREST c1 \<le> 0 then c1\<lparr>TimeoutREST := DefaultSyncerTimeoutREST\<rparr> else c1);
                      c3 = (if TimeoutWebsocket c2 \<le> 0
                            then c2\<lparr>TimeoutWebsocket := DefaultSyncerTimeoutWebsocket\<rparr> else c2)
                  in if IsEmpty (FiatDisplayCurrency c3) then (None, Some (Wrapped ErrCurrencyCodeEmpty))
                     else if \<not> IsFiatCurrency (FiatDisplayCurrency c3)
                       then (None, Some (Wrapped ErrFiatDisplayCurrencyIsNotFiat))
                     else if PairFormatDisplay c3 = None then (None, Some (Wrapped ErrNilPointer))
                     else
                       (Some \<lparr>initSyncCompleted = 0, initSyncStarted = 0, started = 0,
                              initSyncStartTime = 0, currencyPairs = [],
                              tickerBatchLastRequested = Map.empty,
                              websocketRoutineManagerEnabled = wsRoutineManagerEnabled,
                              websocketRPCEnabled = WebsocketRPC_Enabled rc,
                              initSyncWG = 0, inService = 1, config = c3,
                              createdCounter = created, removedCounter = removed\<rparr>,
                        None))))"

text \<open>\<open>Stop\<close> (lines 240 to 250).\<close>

definition Stop :: "('p, 'a) syncManager option \<Rightarrow> panic + (error option \<times> ('p, 'a) syncManager option)" where
  "Stop mp =
     (case mp of
        None \<Rightarrow> Inr (Some (Wrapped ErrNilSubsystem), None)
      | Some m \<Rightarrow>
          if started m \<noteq> 1 then Inr (Some (Wrapped ErrSubSystemNotStarted), Some m)
          else
            (let m1 = m\<lparr>started := 0\<rparr>
             in case WaitGroup_Add 1 (inService m1) of
                  Inl pn \<Rightarrow> Inl pn
                | Inr k \<Rightarrow> Inr (None, Some (m1\<lparr>inService := k\<rparr>))))"

subsection \<open>Start and the monitor\<close>

text \<open>
  The unit built at lines 178 to 195 of \<open>Start\<close>, and again at lines 525 to 546 of
  \<open>worker\<close>: the streams the configuration enables get the transports, the others
  stay zero.
\<close>

definition newAgent :: "SyncManagerConfig \<Rightarrow> string \<Rightarrow> 'a \<Rightarrow> 'p \<Rightarrow> bool \<Rightarrow> bool \<Rightarrow> bool
    \<Rightarrow> ('p, 'a) currencyPairSyncAgent" where
  "newAgent cfg exchangeName a p usingREST usingWebsocket wsAssetSupported =
     (let sBase = syncBase0\<lparr>IsUsingREST := usingREST \<or> \<not> wsAssetSupported,
                            IsUsingWebsocket := usingWebsocket \<and> wsAssetSupported\<rparr>
      in \<lparr>Created = 0, Exchange = exchangeName, AssetType = a, Pair' = p,
          Ticker = (if SynchronizeTicker cfg then sBase else syncBase0),
          Orderbook = (if SynchronizeOrderbook cfg then sBase else syncBase0),
          Trade = (if SynchronizeTrades cfg then sBase else syncBase0)\<rparr>)"

text \<open>The loop over the enabled pairs of one asset type (lines 173 to 198).\<close>

fun Start_pairs :: "clock \<Rightarrow> string \<Rightarrow> 'a \<Rightarrow> bool \<Rightarrow> bool \<Rightarrow> bool \<Rightarrow> 'p list
    \<Rightarrow> nat \<times> ('p, 'a) syncManager \<Rightarrow> nat \<times> ('p, 'a) syncManager" where
  "Start_pairs clk exchangeName a usingREST usingWebsocket wsAssetSupported [] (n, m) = (n, m)"
| "Start_pairs clk exchangeName a usingREST usingWebsocket wsAssetSupported (p # ps) (n, m) =
     (if exists m exchangeName p a
      then Start_pairs clk exchangeName a usingREST usingWebsocket wsAssetSupported ps (n, m)
      else Start_pairs clk exchangeName a usingREST usingWebsocket wsAssetSupported ps
             (Suc n, snd (add (clk n)
                (newAgent (config m) exchangeName a p usingREST usingWebsocket wsAssetSupported) m)))"

text \<open>The loop over the asset types of one exchange (lines 149 to 199).\<close>

fun Start_assets :: "clock \<Rightarrow> ('p, 'a) exchange \<Rightarrow> bool \<Rightarrow> bool \<Rightarrow> 'a list
    \<Rightarrow> nat \<times> ('p, 'a) syncManager \<Rightarrow> nat \<times> ('p, 'a) syncManager" where
  "Start_assets clk e usingREST usingWebsocket [] nm = nm"
| "Start_assets clk e usingREST usingWebsocket (a # as) nm =
     (if IsAssetEnabled e a \<noteq> None then Start_assets clk e usingREST usingWebsocket as nm
      else
        (case GetEnabledPairs e a of
           (enabledPairs, Some err) \<Rightarrow> Start_assets clk e usingREST usingWebsocket as nm
         | (enabledPairs, None) \<Rightarrow>
             Start_assets clk e usingREST usingWebsocket as
               (Start_pairs clk (GetName e) a usingREST usingWebsocket
                  (IsAssetWebsocketSupported e a) enabledPairs nm)))"

text \<open>The loop over the exchanges (lines 126 to 200).\<close>

fun Start_exchanges :: "clock \<Rightarrow> ('p, 'a) exchange list
    \<Rightarrow> nat \<times> ('p, 'a) syncManager \<Rightarrow> nat \<times> ('p, 'a) syncManager" where
  "Start_exchanges clk [] nm = nm"
| "Start_exchanges clk (e # es) (n, m) =
     (if \<not> SupportsREST e \<and> \<not> SupportsWebsocket e then Start_exchanges clk es (n, m)
      else
        (let usingWebsocket = (websocketRoutineManagerEnabled m \<and> SupportsWebsocket e \<and> IsWebsocketEnabled e);
             usingREST = (\<not> usingWebsocket \<and> SupportsREST e)
         in Start_exchanges clk es
              (Start_assets clk e usingREST usingWebsocket (GetAssetTypes e False) (n, m))))"

text \<open>The goroutines \<open>Start\<close> launches: the monitor of lines 209 to 226, and the workers.\<close>

datatype goroutine = MonitorRoutine | WorkerRoutine

text \<open>
  Lines 113 to 207: the compare-and-swap of \<open>started\<close>, the two wait groups, the
  enumeration, and the arming of the barrier.
\<close>

definition Start_enumerate :: "clock \<Rightarrow> ('p, 'a) iExchangeManager \<Rightarrow> nat \<Rightarrow> ('p, 'a) syncManager option
    \<Rightarrow> panic + (error option \<times> ('p, 'a) syncManager option \<times> nat)" where
  "Start_enumerate clk em n mp =
     (case mp of
        None \<Rightarrow> Inr (Some (Wrapped ErrNilSubsystem), None, n)
      | Some m \<Rightarrow>
          if started m \<noteq> 0 then Inr (Some (Plain ErrSubSystemAlreadyStarted), Some m, n)
          else
            (case WaitGroup_Add 1 (initSyncWG m) of
               Inl pn \<Rightarrow> Inl pn
             | Inr wg \<Rightarrow>
                 (case WaitGroup_Done (inService m) of
                    Inl pn \<Rightarrow> Inl pn
                  | Inr ins \<Rightarrow>
                      (let m1 = m\<lparr>started := 1, initSyncWG := wg, inService := ins\<rparr>
                       in case GetExchanges em of
                            (exchanges, Some err) \<Rightarrow> Inr (Some err, Some m1, n)
                          | (exchanges, None) \<Rightarrow>
                              (case Start_exchanges clk exchanges (n, m1) of
                                 (n2, m2) \<Rightarrow>
                                   if initSyncStarted m2 = 0
                                   then Inr (None, Some (m2\<lparr>initSyncStarted := 1, initSyncStartTime := clk n2\<rparr>), Suc n2)
                                   else Inr (None, Some m2, n2))))))"

text \<open>
  Lines 209 to 236: the monitor is launched; no worker is launched when the initial
  synchronisation has completed and the manager does not synchronise continuously.
\<close>

definition Start_spawn :: "('p, 'a) syncManager
    \<Rightarrow> panic + (error option \<times> ('p, 'a) syncManager option \<times> goroutine list)" where
  "Start_spawn m =
     (if initSyncCompleted m = 1 \<and> \<not> SynchronizeContinuously (config m)
      then Inr (None, Some m, [MonitorRoutine])
      else
        (case WaitGroup_Done (initSyncWG m) of
           Inl pn \<Rightarrow> Inl pn
         | Inr wg \<Rightarrow>
             Inr (None, Some (m\<lparr>initSyncWG := wg\<rparr>),
                  MonitorRoutine # replicate (nat (NumWorkers (config m))) WorkerRoutine)))"

text \<open>\<open>Start\<close> (lines 112 to 237), the two parts in sequence.\<close>

definition Start :: "clock \<Rightarrow> ('p, 'a) iExchangeManager \<Rightarrow> nat \<Rightarrow> ('p, 'a) syncManager option
    \<Rightarrow> panic + (error option \<times> ('p, 'a) syncManager option \<times> nat \<times> goroutine list)" where
  "Start clk em n mp =
     (case Start_enumerate clk em n mp of
        Inl pn \<Rightarrow> Inl pn
      | Inr (Some err, mp1, n1) \<Rightarrow> Inr (Some err, mp1, n1, [])
      | Inr (None, None, n1) \<Rightarrow> Inr (None, None, n1, [])
      | Inr (None, Some m1, n1) \<Rightarrow>
          (case Start_spawn m1 of
             Inl pn \<Rightarrow> Inl pn
           | Inr (err, mp2, gs) \<Rightarrow> Inr (err, mp2, n1, gs)))"

text \<open>
  The monitor (lines 210 to 225) once \<open>initSyncWG.Wait()\<close> has returned, which needs
  the counter at zero: \<open>None\<close> while it waits.
\<close>

definition monitor :: "('p, 'a) syncManager \<Rightarrow> panic + ('p, 'a) syncManager option" where
  "monitor m =
     (if initSyncWG m \<noteq> 0 then Inr None
      else if initSyncCompleted m \<noteq> 0 then Inr (Some m)
      else
        (let m1 = m\<lparr>initSyncCompleted := 1\<rparr>
         in if \<not> SynchronizeContinuously (config m1) then
              (case Stop (Some m1) of
                 Inl pn \<Rightarrow> Inl pn
               | Inr (err, mp) \<Rightarrow> Inr mp)
            else Inr (Some m1)))"

subsection \<open>The worker\<close>

text \<open>
  The pointer \<open>c\<close> of the worker: the address of a unit of the registry, as \<open>get\<close>
  returns it, or the unit the worker has just built, of which \<open>add\<close> appended a copy.
  \<open>get\<close> only returns indices below the length of the registry, and the registry
  never shrinks.
\<close>

datatype ('p, 'a) agentPtr = InRegistry nat | Fresh "('p, 'a) currencyPairSyncAgent"

text \<open>The requests a worker sends to an exchange, in the order it sends them.\<close>

datatype ('p, 'a) call =
    CallUpdateOrderbook string 'p 'a
  | CallUpdateTicker string 'p 'a
  | CallUpdateTickers string 'a
  | CallFetchTicker string 'p 'a

text \<open>
  What one worker goroutine holds: the manager's state, the position of the clock, the
  requests sent, the pointer \<open>c\<close> of the pair at hand, and \<open>switchedToRest\<close>.
\<close>

record ('p, 'a) workerState =
  mgr :: "('p, 'a) syncManager"
  ticks :: nat
  calls :: "('p, 'a) call list"
  c :: "('p, 'a) agentPtr"
  switchedToRest :: bool

definition deref :: "('p, 'a) workerState \<Rightarrow> ('p, 'a) currencyPairSyncAgent" where
  "deref s = (case c s of InRegistry x \<Rightarrow> currencyPairs (mgr s) ! x | Fresh u \<Rightarrow> u)"

text \<open>A write through \<open>c\<close>: into the registry, or into the worker's own unit.\<close>

definition assign :: "(('p, 'a) currencyPairSyncAgent \<Rightarrow> ('p, 'a) currencyPairSyncAgent)
    \<Rightarrow> ('p, 'a) workerState \<Rightarrow> ('p, 'a) workerState" where
  "assign f s =
     (case c s of
        InRegistry x \<Rightarrow>
          s\<lparr>mgr := (mgr s)\<lparr>currencyPairs := (currencyPairs (mgr s))[x := f (currencyPairs (mgr s) ! x)]\<rparr>\<rparr>
      | Fresh u \<Rightarrow> s\<lparr>c := Fresh (f u)\<rparr>)"

datatype flow = Next | Continue | Return

text \<open>
  Lines 484 to 504: the transports of the exchange for this pass, \<open>usingREST\<close> and
  \<open>usingWebsocket\<close>. After an error of \<open>GetWebsocket\<close> the code goes on to line 497.
\<close>

definition worker_transport :: "('p, 'a) exchange \<Rightarrow> panic + (bool \<times> bool)" where
  "worker_transport e =
     (if SupportsWebsocket e \<and> IsWebsocketEnabled e then
        (case GetWebsocket e of
           (ws, err) \<Rightarrow>
             (let usingREST = (err \<noteq> None)
              in case ws of
                   None \<Rightarrow> Inl NilPointerDereference
                 | Some w \<Rightarrow> if IsConnected w then Inr (usingREST, True) else Inr (True, False)))
      else if SupportsREST e then Inr (True, False)
      else Inr (False, False))"

text \<open>
  The test of lines 563 to 565 (and 607 to 609), with the clock read in the order the
  operands are evaluated: the stream is due, and the position of the clock afterwards.
\<close>

definition stream_due :: "clock \<Rightarrow> nat \<Rightarrow> SyncManagerConfig \<Rightarrow> syncBase \<Rightarrow> bool \<times> nat" where
  "stream_due clk n cfg b =
     (if time_IsZero (LastUpdated b) then (True, n)
      else if time_Since (clk n) (LastUpdated b) > TimeoutREST cfg \<and> IsUsingREST b then (True, Suc n)
      else (time_Since (clk (Suc n)) (LastUpdated b) > TimeoutWebsocket cfg \<and> IsUsingWebsocket b,
            Suc (Suc n)))"

text \<open>
  \<open>PrintOrderbookSummary\<close> (lines 824 to 888) and \<open>PrintTickerSummary\<close> (lines 744
  to 808) write to the log; they read the result when there is no error.
\<close>

definition PrintOrderbookSummary :: "('p, 'a) syncManager \<Rightarrow> bool \<Rightarrow> error option \<Rightarrow> panic + unit" where
  "PrintOrderbookSummary m result err =
     (if started m = 0 then Inr ()
      else if err \<noteq> None then Inr ()
      else if \<not> result then Inl NilPointerDereference
      else Inr ())"

definition PrintTickerSummary :: "('p, 'a) syncManager \<Rightarrow> bool \<Rightarrow> error option \<Rightarrow> panic + unit" where
  "PrintTickerSummary m result err =
     (if started m = 0 then Inr ()
      else if err \<noteq> None then Inr ()
      else if \<not> result then Inl NilPointerDereference
      else Inr ())"

text \<open>
  The report of lines 596 to 599, 674 to 677 and 689 to 692: \<open>Update\<close> with the key
  read through \<open>c\<close>; the error it returns is logged.
\<close>

definition report :: "clock \<Rightarrow> int \<Rightarrow> error option \<Rightarrow> ('p, 'a) workerState \<Rightarrow> panic + ('p, 'a) workerState" where
  "report clk syncType err s =
     (let u = deref s
      in case Update (Exchange u) (Pair' u) (AssetType u) syncType err (clk (ticks s)) (Some (mgr s)) of
           Inl pn \<Rightarrow> Inl pn
         | Inr (updateErr, None) \<Rightarrow> Inr (s\<lparr>ticks := Suc (ticks s)\<rparr>)
         | Inr (updateErr, Some m') \<Rightarrow> Inr (s\<lparr>mgr := m', ticks := Suc (ticks s)\<rparr>))"

definition markProcessing :: "int \<Rightarrow> bool \<Rightarrow> ('p, 'a) workerState \<Rightarrow> ('p, 'a) workerState" where
  "markProcessing syncType processing s =
     (let u = deref s
      in s\<lparr>mgr := setProcessing (Exchange u) (Pair' u) (AssetType u) syncType processing (mgr s)\<rparr>)"

text \<open>Lines 571 to 582: the orderbook stream leaves the websocket for REST.\<close>

definition demote_orderbook :: "('p, 'a) workerState \<Rightarrow> ('p, 'a) workerState" where
  "demote_orderbook s =
     (let s1 = markProcessing SyncItemOrderbook True s;
          s2 = assign (\<lambda>v. v\<lparr>Orderbook := (Orderbook v)\<lparr>IsUsingWebsocket := False\<rparr>\<rparr>) s1;
          s3 = assign (\<lambda>v. v\<lparr>Orderbook := (Orderbook v)\<lparr>IsUsingREST := True\<rparr>\<rparr>) s2;
          s4 = s3\<lparr>switchedToRest := True\<rparr>
      in markProcessing SyncItemOrderbook False s4)"

text \<open>
  Lines 586 to 599: the REST request for the orderbook and its report. The relay of
  lines 591 to 595 (and 669 to 673 for the ticker) sends the result to the websocket
  clients and logs; it writes nothing of the manager.
\<close>

definition fetch_orderbook :: "clock \<Rightarrow> ('p, 'a) exchange \<Rightarrow> ('p, 'a) workerState
    \<Rightarrow> panic + ('p, 'a) workerState" where
  "fetch_orderbook clk e s =
     (let s1 = markProcessing SyncItemOrderbook True s;
          u = deref s1
      in case UpdateOrderbook e (Pair' u) (AssetType u) of
           (result, err) \<Rightarrow>
             (let s2 = s1\<lparr>calls := calls s1 @ [CallUpdateOrderbook (GetName e) (Pair' u) (AssetType u)]\<rparr>
              in case PrintOrderbookSummary (mgr s2) result err of
                   Inl pn \<Rightarrow> Inl pn
                 | Inr _ \<Rightarrow> report clk SyncItemOrderbook err s2))"

text \<open>Lines 561 to 604: the orderbook stream of the pair at hand.\<close>

definition worker_orderbook :: "clock \<Rightarrow> ('p, 'a) exchange \<Rightarrow> ('p, 'a) workerState
    \<Rightarrow> panic + (flow \<times> ('p, 'a) workerState)" where
  "worker_orderbook clk e s =
     (if \<not> SynchronizeOrderbook (config (mgr s)) then Inr (Next, s)
      else if isProcessing (mgr s) (GetName e) (Pair' (deref s)) (AssetType (deref s)) SyncItemOrderbook
        then Inr (Next, s)
      else
        (case stream_due clk (ticks s) (config (mgr s)) (Orderbook (deref s)) of
           (due, n) \<Rightarrow>
             if \<not> due then Inr (Next, s\<lparr>ticks := n\<rparr>)
             else if IsUsingWebsocket (Orderbook (deref s)) then
               (if time_Since (clk n) (Created (deref s)) < TimeoutWebsocket (config (mgr s))
                then Inr (Continue, s\<lparr>ticks := Suc n\<rparr>)
                else
                  (case fetch_orderbook clk e
                          (if SupportsREST e then demote_orderbook (s\<lparr>ticks := Suc n\<rparr>)
                           else s\<lparr>ticks := Suc n\<rparr>) of
                     Inl pn \<Rightarrow> Inl pn
                   | Inr s' \<Rightarrow> Inr (Next, s')))
             else
               (case fetch_orderbook clk e (s\<lparr>ticks := n\<rparr>) of
                  Inl pn \<Rightarrow> Inl pn
                | Inr s' \<Rightarrow> Inr (Next, s'))))"

text \<open>Lines 616 to 627: the ticker stream leaves the websocket for REST.\<close>

definition demote_ticker :: "('p, 'a) workerState \<Rightarrow> ('p, 'a) workerState" where
  "demote_ticker s =
     (let s1 = markProcessing SyncItemTicker True s;
          s2 = assign (\<lambda>v. v\<lparr>Ticker := (Ticker v)\<lparr>IsUsingWebsocket := False\<rparr>\<rparr>) s1;
          s3 = assign (\<lambda>v. v\<lparr>Ticker := (Ticker v)\<lparr>IsUsingREST := True\<rparr>\<rparr>) s2;
          s4 = s3\<lparr>switchedToRest := True\<rparr>
      in markProcessing SyncItemTicker False s4)"

text \<open>
  The batched ticker request, in the three parts the registry lock makes of it. Lines
  637 to 642, under the lock: the time of the last batch of the exchange, the zero time
  when the map has none (the map then gets the zero time).
\<close>

definition tickerBatch_read :: "string \<Rightarrow> ('p, 'a) syncManager \<Rightarrow> time \<times> ('p, 'a) syncManager" where
  "tickerBatch_read exchangeName m =
     (case tickerBatchLastRequested m exchangeName of
        Some batchLastDone \<Rightarrow> (batchLastDone, m)
      | None \<Rightarrow> (0, m\<lparr>tickerBatchLastRequested := (tickerBatchLastRequested m)(exchangeName \<mapsto> 0)\<rparr>))"

text \<open>Line 644, outside the lock: a new batch is wanted.\<close>

definition tickerBatch_stale :: "clock \<Rightarrow> nat \<Rightarrow> SyncManagerConfig \<Rightarrow> time \<Rightarrow> bool \<times> nat" where
  "tickerBatch_stale clk n cfg batchLastDone =
     (if time_IsZero batchLastDone then (True, n)
      else (time_Since (clk n) batchLastDone > TimeoutREST cfg, Suc n))"

text \<open>
  Lines 645 to 654, under the lock again: \<open>UpdateTickers\<close>, then \<open>FetchTicker\<close> if it
  succeeded, and the time of the batch is recorded. The result and the error come back
  with the state.
\<close>

definition tickerBatch_request :: "clock \<Rightarrow> ('p, 'a) exchange \<Rightarrow> ('p, 'a) currencyPairSyncAgent
    \<Rightarrow> ('p, 'a) workerState \<Rightarrow> (bool \<times> error option) \<times> ('p, 'a) workerState" where
  "tickerBatch_request clk e u s =
     (let s1 = s\<lparr>calls := calls s @ [CallUpdateTickers (GetName e) (AssetType u)]\<rparr>;
          (r, s2) =
            (case UpdateTickers e (AssetType u) of
               Some err \<Rightarrow> ((False, Some err), s1)
             | None \<Rightarrow>
                 (FetchTicker e (Pair' u) (AssetType u),
                  s1\<lparr>calls := calls s1 @ [CallFetchTicker (GetName e) (Pair' u) (AssetType u)]\<rparr>))
      in (r, s2\<lparr>mgr := (mgr s2)\<lparr>tickerBatchLastRequested :=
                    (tickerBatchLastRequested (mgr s2))(GetName e \<mapsto> clk (ticks s2))\<rparr>,
                ticks := Suc (ticks s2)\<rparr>))"

text \<open>Lines 636 to 667: the ticker of the pair at hand, by batch or alone.\<close>

definition request_ticker :: "clock \<Rightarrow> ('p, 'a) exchange \<Rightarrow> ('p, 'a) workerState
    \<Rightarrow> (bool \<times> error option) \<times> ('p, 'a) workerState" where
  "request_ticker clk e s =
     (let u = deref s in
      if SupportsRESTTickerBatchUpdates e then
        (case tickerBatch_read (GetName e) (mgr s) of
           (batchLastDone, m1) \<Rightarrow>
             (case tickerBatch_stale clk (ticks s) (config m1) batchLastDone of
                (stale, n) \<Rightarrow>
                  if stale then tickerBatch_request clk e u (s\<lparr>mgr := m1, ticks := n\<rparr>)
                  else (FetchTicker e (Pair' u) (AssetType u),
                        s\<lparr>mgr := m1, ticks := n,
                          calls := calls s @ [CallFetchTicker (GetName e) (Pair' u) (AssetType u)]\<rparr>)))
      else (UpdateTicker e (Pair' u) (AssetType u),
            s\<lparr>calls := calls s @ [CallUpdateTicker (GetName e) (Pair' u) (AssetType u)]\<rparr>))"

text \<open>Lines 631 to 678: the REST request for the ticker and its report.\<close>

definition fetch_ticker :: "clock \<Rightarrow> ('p, 'a) exchange \<Rightarrow> ('p, 'a) workerState
    \<Rightarrow> panic + ('p, 'a) workerState" where
  "fetch_ticker clk e s =
     (if \<not> IsUsingREST (Ticker (deref s)) then Inr s
      else
        (case request_ticker clk e (markProcessing SyncItemTicker True s) of
           ((result, err), s2) \<Rightarrow>
             (case PrintTickerSummary (mgr s2) result err of
                Inl pn \<Rightarrow> Inl pn
              | Inr _ \<Rightarrow> report clk SyncItemTicker err s2)))"

text \<open>Lines 605 to 683: the ticker stream of the pair at hand.\<close>

definition worker_ticker :: "clock \<Rightarrow> ('p, 'a) exchange \<Rightarrow> ('p, 'a) workerState
    \<Rightarrow> panic + (flow \<times> ('p, 'a) workerState)" where
  "worker_ticker clk e s =
     (if \<not> SynchronizeTicker (config (mgr s)) then Inr (Next, s)
      else if isProcessing (mgr s) (GetName e) (Pair' (deref s)) (AssetType (deref s)) SyncItemTicker
        then Inr (Next, s)
      else
        (case stream_due clk (ticks s) (config (mgr s)) (Ticker (deref s)) of
           (due, n) \<Rightarrow>
             if \<not> due then Inr (Next, s\<lparr>ticks := n\<rparr>)
             else if IsUsingWebsocket (Ticker (deref s)) then
               (if time_Since (clk n) (Created (deref s)) < TimeoutWebsocket (config (mgr s))
                then Inr (Continue, s\<lparr>ticks := Suc n\<rparr>)
                else
                  (case fetch_ticker clk e
                          (if SupportsREST e then demote_ticker (s\<lparr>ticks := Suc n\<rparr>)
                           else s\<lparr>ticks := Suc n\<rparr>) of
                     Inl pn \<Rightarrow> Inl pn
                   | Inr s' \<Rightarrow> Inr (Next, s')))
             else
               (case fetch_ticker clk e (s\<lparr>ticks := n\<rparr>) of
                  Inl pn \<Rightarrow> Inl pn
                | Inr s' \<Rightarrow> Inr (Next, s'))))"

text \<open>Lines 685 to 695: the trade stream of the pair at hand.\<close>

definition worker_trade :: "clock \<Rightarrow> ('p, 'a) exchange \<Rightarrow> ('p, 'a) workerState
    \<Rightarrow> panic + (flow \<times> ('p, 'a) workerState)" where
  "worker_trade clk e s =
     (if \<not> SynchronizeTrades (config (mgr s)) then Inr (Next, s)
      else if isProcessing (mgr s) (GetName e) (Pair' (deref s)) (AssetType (deref s)) SyncItemTrade
        then Inr (Next, s)
      else if time_IsZero (LastUpdated (Trade (deref s))) then
        (case report clk SyncItemTrade None (markProcessing SyncItemTrade True s) of
           Inl pn \<Rightarrow> Inl pn
         | Inr s' \<Rightarrow> Inr (Next, s'))
      else if time_Since (clk (ticks s)) (LastUpdated (Trade (deref s))) > TimeoutREST (config (mgr s)) then
        (case report clk SyncItemTrade None (markProcessing SyncItemTrade True (s\<lparr>ticks := Suc (ticks s)\<rparr>)) of
           Inl pn \<Rightarrow> Inl pn
         | Inr s' \<Rightarrow> Inr (Next, s'))
      else Inr (Next, s\<lparr>ticks := Suc (ticks s)\<rparr>))"

text \<open>
  Lines 522 to 553: the unit of the pair. The error of \<open>get\<close> is compared with
  \<open>errSyncPairNotFound\<close> by \<open>==\<close>; only then is a unit built and added.
\<close>

definition worker_lookup :: "clock \<Rightarrow> ('p, 'a) exchange \<Rightarrow> bool \<Rightarrow> bool \<Rightarrow> 'a \<Rightarrow> 'p
    \<Rightarrow> ('p, 'a) workerState \<Rightarrow> panic + (flow \<times> ('p, 'a) workerState)" where
  "worker_lookup clk e usingREST usingWebsocket a p s =
     (case get (mgr s) (GetName e) p a of
        (cp, Some err) \<Rightarrow>
          if err = Plain errSyncPairNotFound then
            (case add (clk (ticks s))
                    (newAgent (config (mgr s)) (GetName e) a p usingREST usingWebsocket
                       (IsAssetWebsocketSupported e a)) (mgr s) of
               (u, m') \<Rightarrow> Inr (Next, s\<lparr>mgr := m', ticks := Suc (ticks s), c := Fresh u\<rparr>))
          else Inr (Continue, s)
      | (Some x, None) \<Rightarrow> Inr (Next, s\<lparr>c := InRegistry x\<rparr>)
      | (None, None) \<Rightarrow> Inl NilPointerDereference)"

text \<open>Lines 518 to 695: one pair.\<close>

definition worker_pair :: "clock \<Rightarrow> ('p, 'a) exchange \<Rightarrow> bool \<Rightarrow> bool \<Rightarrow> 'a \<Rightarrow> 'p
    \<Rightarrow> ('p, 'a) workerState \<Rightarrow> panic + (flow \<times> ('p, 'a) workerState)" where
  "worker_pair clk e usingREST usingWebsocket a p s =
     (if started (mgr s) = 0 then Inr (Return, s)
      else
        (case worker_lookup clk e usingREST usingWebsocket a p s of
           Inl pn \<Rightarrow> Inl pn
         | Inr (Continue, s1) \<Rightarrow> Inr (Next, s1)
         | Inr (Return, s1) \<Rightarrow> Inr (Return, s1)
         | Inr (Next, s1) \<Rightarrow>
             (let s2 = (if switchedToRest s1 \<and> usingWebsocket then s1\<lparr>switchedToRest := False\<rparr> else s1)
              in case worker_orderbook clk e s2 of
                   Inl pn \<Rightarrow> Inl pn
                 | Inr (Continue, s3) \<Rightarrow> Inr (Next, s3)
                 | Inr (Return, s3) \<Rightarrow> Inr (Return, s3)
                 | Inr (Next, s3) \<Rightarrow>
                     (case worker_ticker clk e s3 of
                        Inl pn \<Rightarrow> Inl pn
                      | Inr (Continue, s4) \<Rightarrow> Inr (Next, s4)
                      | Inr (Return, s4) \<Rightarrow> Inr (Return, s4)
                      | Inr (Next, s4) \<Rightarrow> worker_trade clk e s4))))"

text \<open>The loop over the enabled pairs of one asset type (lines 517 to 696).\<close>

fun worker_pairs :: "clock \<Rightarrow> ('p, 'a) exchange \<Rightarrow> bool \<Rightarrow> bool \<Rightarrow> 'a \<Rightarrow> 'p list
    \<Rightarrow> ('p, 'a) workerState \<Rightarrow> panic + (flow \<times> ('p, 'a) workerState)" where
  "worker_pairs clk e usingREST usingWebsocket a [] s = Inr (Next, s)"
| "worker_pairs clk e usingREST usingWebsocket a (p # ps) s =
     (case worker_pair clk e usingREST usingWebsocket a p s of
        Inl pn \<Rightarrow> Inl pn
      | Inr (Return, s') \<Rightarrow> Inr (Return, s')
      | Inr (_, s') \<Rightarrow> worker_pairs clk e usingREST usingWebsocket a ps s')"

text \<open>The loop over the asset types of one exchange (lines 507 to 697).\<close>

fun worker_assets :: "clock \<Rightarrow> ('p, 'a) exchange \<Rightarrow> bool \<Rightarrow> bool \<Rightarrow> 'a list
    \<Rightarrow> ('p, 'a) workerState \<Rightarrow> panic + (flow \<times> ('p, 'a) workerState)" where
  "worker_assets clk e usingREST usingWebsocket [] s = Inr (Next, s)"
| "worker_assets clk e usingREST usingWebsocket (a # as) s =
     (case GetEnabledPairs e a of
        (enabledPairs, Some err) \<Rightarrow> worker_assets clk e usingREST usingWebsocket as s
      | (enabledPairs, None) \<Rightarrow>
          (case worker_pairs clk e usingREST usingWebsocket a enabledPairs s of
             Inl pn \<Rightarrow> Inl pn
           | Inr (Return, s') \<Rightarrow> Inr (Return, s')
           | Inr (_, s') \<Rightarrow> worker_assets clk e usingREST usingWebsocket as s'))"

text \<open>
  The loop over the exchanges (lines 480 to 698); \<open>switchedToRest\<close> is declared anew
  for each exchange.
\<close>

fun worker_exchanges :: "clock \<Rightarrow> ('p, 'a) exchange list
    \<Rightarrow> ('p, 'a) workerState \<Rightarrow> panic + (flow \<times> ('p, 'a) workerState)" where
  "worker_exchanges clk [] s = Inr (Next, s)"
| "worker_exchanges clk (e # es) s =
     (case worker_transport e of
        Inl pn \<Rightarrow> Inl pn
      | Inr (usingREST, usingWebsocket) \<Rightarrow>
          (case worker_assets clk e usingREST usingWebsocket (GetAssetTypes e True)
                  (s\<lparr>switchedToRest := False\<rparr>) of
             Inl pn \<Rightarrow> Inl pn
           | Inr (Return, s') \<Rightarrow> Inr (Return, s')
           | Inr (_, s') \<Rightarrow> worker_exchanges clk es s'))"

text \<open>
  \<open>worker\<close> (lines 468 to 700): passes over the exchanges as long as the manager is
  started. An error of \<open>GetExchanges\<close> is logged and the list it returned is walked.
  The loop ends only when \<open>started\<close> is found at zero: \<open>None\<close> is a worker that
  runs for ever.
\<close>

partial_function (option) worker :: "clock \<Rightarrow> ('p, 'a) iExchangeManager \<Rightarrow> ('p, 'a) workerState
    \<Rightarrow> (panic + ('p, 'a) workerState) option" where
  "worker clk em s =
     (if started (mgr s) = 0 then Some (Inr s)
      else
        (case worker_exchanges clk (fst (GetExchanges em)) s of
           Inl pn \<Rightarrow> Some (Inl pn)
         | Inr (Return, s') \<Rightarrow> Some (Inr s')
         | Inr (_, s') \<Rightarrow> worker clk em s'))"

section \<open>Notions for the statements\<close>

text \<open>The stream of a unit that a stream kind names.\<close>

definition streamOf :: "int \<Rightarrow> ('p, 'a) currencyPairSyncAgent \<Rightarrow> syncBase" where
  "streamOf syncType u =
     (if syncType = SyncItemTicker then Ticker u
      else if syncType = SyncItemOrderbook then Orderbook u
      else Trade u)"

definition knownItem :: "int \<Rightarrow> bool" where
  "knownItem syncType = (syncType = SyncItemTicker \<or> syncType = SyncItemOrderbook \<or> syncType = SyncItemTrade)"

definition enabledItem :: "SyncManagerConfig \<Rightarrow> int \<Rightarrow> bool" where
  "enabledItem cfg syncType =
     ((syncType = SyncItemTicker \<and> SynchronizeTicker cfg)
      \<or> (syncType = SyncItemOrderbook \<and> SynchronizeOrderbook cfg)
      \<or> (syncType = SyncItemTrade \<and> SynchronizeTrades cfg))"

text \<open>
  A unit with one stream replaced, for stating what \<open>Update\<close> writes.
\<close>

definition withStream :: "int \<Rightarrow> syncBase \<Rightarrow> ('p, 'a) currencyPairSyncAgent \<Rightarrow> ('p, 'a) currencyPairSyncAgent" where
  "withStream syncType b u =
     (if syncType = SyncItemTicker then u\<lparr>Ticker := b\<rparr>
      else if syncType = SyncItemOrderbook then u\<lparr>Orderbook := b\<rparr>
      else u\<lparr>Trade := b\<rparr>)"

text \<open>
  A stream never uses both transports; a unit and a registry whose streams all satisfy
  this.
\<close>

definition exclusive :: "syncBase \<Rightarrow> bool" where
  "exclusive b = (\<not> (IsUsingREST b \<and> IsUsingWebsocket b))"



text \<open>
  The states of the manager that the operations produce: \<open>setupSyncManager\<close>
  makes the first one, and \<open>Start\<close>, \<open>Stop\<close>, the monitor, \<open>Update\<close> and the
  worker's handling of one pair (with any transports for the pass) lead from one to the
  next.
\<close>

inductive reachable :: "('p, 'a) syncManager \<Rightarrow> bool" where
  reach_setup: "setupSyncManager cp exchangeManager remoteConfig wsEnabled created removed = (Some m, None)
     \<Longrightarrow> reachable m"
| reach_Start: "reachable m \<Longrightarrow> Start clk em n (Some m) = Inr (err, Some m', n', gs) \<Longrightarrow> reachable m'"
| reach_Stop: "reachable m \<Longrightarrow> Stop (Some m) = Inr (err, Some m') \<Longrightarrow> reachable m'"
| reach_monitor: "reachable m \<Longrightarrow> monitor m = Inr (Some m') \<Longrightarrow> reachable m'"
| reach_Update: "reachable m \<Longrightarrow> Update exchangeName p a syncType er now (Some m) = Inr (err, Some m')
     \<Longrightarrow> reachable m'"
| reach_worker: "reachable (mgr s) \<Longrightarrow> worker_pair clk e usingREST usingWebsocket a p s = Inr (fl, s')
     \<Longrightarrow> reachable (mgr s')"

text \<open>
  What may happen to a manager after a given state: the same operations, and also
  \<open>add\<close> and \<open>setProcessing\<close> on their own (as other goroutines call them
  between two of the former), in any number and order. The package variables
  \<open>createdCounter\<close> and \<open>removedCounter\<close> may be written in between by the other
  managers of the process.
\<close>

inductive later :: "('p, 'a) syncManager \<Rightarrow> ('p, 'a) syncManager \<Rightarrow> bool" where
  later_refl: "later m m"
| later_Start: "later m m1 \<Longrightarrow> Start clk em n (Some m1) = Inr (err, Some m2, n', gs) \<Longrightarrow> later m m2"
| later_Stop: "later m m1 \<Longrightarrow> Stop (Some m1) = Inr (err, Some m2) \<Longrightarrow> later m m2"
| later_monitor: "later m m1 \<Longrightarrow> monitor m1 = Inr (Some m2) \<Longrightarrow> later m m2"
| later_Update: "later m m1 \<Longrightarrow> Update exchangeName p a syncType er now (Some m1) = Inr (err, Some m2)
     \<Longrightarrow> later m m2"
| later_worker: "later m (mgr s) \<Longrightarrow> worker_pair clk e usingREST usingWebsocket a p s = Inr (fl, s')
     \<Longrightarrow> later m (mgr s')"
| later_add: "later m m1 \<Longrightarrow> later m (snd (add now u m1))"
| later_setProcessing: "later m m1 \<Longrightarrow> later m (setProcessing exchangeName p a syncType processing m1)"
| later_counters: "later m m1 \<Longrightarrow> later m (m1\<lparr>createdCounter := created, removedCounter := removed\<rparr>)"

text \<open>
  The REST requests by which the worker fetches the ticker of one pair: alone, from the
  batch already fetched, or with a new batch (whose \<open>FetchTicker\<close> is skipped when
  \<open>UpdateTickers\<close> fails).
\<close>

definition tickerRequests :: "string \<Rightarrow> 'p \<Rightarrow> 'a \<Rightarrow> ('p, 'a) call list set" where
  "tickerRequests exchangeName p a =
     {[CallUpdateTicker exchangeName p a], [CallFetchTicker exchangeName p a],
      [CallUpdateTickers exchangeName a],
      [CallUpdateTickers exchangeName a, CallFetchTicker exchangeName p a]}"

text \<open>
  Two workers in the batched ticker request of the same exchange, for the units \<open>u1\<close>
  and \<open>u2\<close>, in an order the registry lock allows: both pass lines 637 to 642, both
  evaluate line 644, then the first and the second run lines 645 to 654. The result is
  what each found at line 644, and the states after the first and after the second
  request.
\<close>

definition batch_race :: "clock \<Rightarrow> ('p, 'a) exchange \<Rightarrow> ('p, 'a) currencyPairSyncAgent
    \<Rightarrow> ('p, 'a) currencyPairSyncAgent \<Rightarrow> ('p, 'a) workerState
    \<Rightarrow> (bool \<times> bool) \<times> ('p, 'a) workerState \<times> ('p, 'a) workerState" where
  "batch_race clk e u1 u2 s =
     (case tickerBatch_read (GetName e) (mgr s) of
        (batchLastDone1, m1) \<Rightarrow>
          (case tickerBatch_read (GetName e) m1 of
             (batchLastDone2, m2) \<Rightarrow>
               (case tickerBatch_stale clk (ticks s) (config m2) batchLastDone1 of
                  (stale1, n1) \<Rightarrow>
                    (case tickerBatch_stale clk n1 (config m2) batchLastDone2 of
                       (stale2, n2) \<Rightarrow>
                         (case tickerBatch_request clk e u1 (s\<lparr>mgr := m2, ticks := n2\<rparr>) of
                            (r1, s1) \<Rightarrow>
                              (case tickerBatch_request clk e u2 s1 of
                                 (r2, s2) \<Rightarrow> ((stale1, stale2), s1, s2)))))))"

text \<open>
  For the proofs: what \<open>Start\<close>'s enumeration leaves unchanged, and the transports
  of the units of a registry, which most operations keep.
\<close>

definition steady :: "('p, 'a) syncManager \<Rightarrow> ('p, 'a) syncManager \<Rightarrow> bool" where
  "steady m m' = (initSyncCompleted m' = initSyncCompleted m \<and> config m' = config m
     \<and> started m' = started m \<and> initSyncStarted m' = initSyncStarted m
     \<and> websocketRoutineManagerEnabled m' = websocketRoutineManagerEnabled m
     \<and> initSyncWG m \<le> initSyncWG m')"

definition transport :: "syncBase \<Rightarrow> bool \<times> bool" where
  "transport b = (IsUsingREST b, IsUsingWebsocket b)"

definition transportsOf :: "('p, 'a) currencyPairSyncAgent \<Rightarrow> (bool \<times> bool) \<times> (bool \<times> bool) \<times> (bool \<times> bool)" where
  "transportsOf u = (transport (Ticker u), transport (Orderbook u), transport (Trade u))"

definition keeps :: "('p, 'a) syncManager \<Rightarrow> ('p, 'a) syncManager \<Rightarrow> bool" where
  "keeps m m' = (map transportsOf (currencyPairs m') = map transportsOf (currencyPairs m))"

text \<open>
  A unit at a later time: the same key, and each stream that had data still has it. A
  registry at a later time: at least as long, each unit where it was.
\<close>

definition stays :: "('p, 'a) currencyPairSyncAgent \<Rightarrow> ('p, 'a) currencyPairSyncAgent \<Rightarrow> bool" where
  "stays u u' = (Exchange u' = Exchange u \<and> Pair' u' = Pair' u \<and> AssetType u' = AssetType u
     \<and> (HaveData (Ticker u) \<longrightarrow> HaveData (Ticker u'))
     \<and> (HaveData (Orderbook u) \<longrightarrow> HaveData (Orderbook u'))
     \<and> (HaveData (Trade u) \<longrightarrow> HaveData (Trade u')))"

definition grows :: "('p, 'a) syncManager \<Rightarrow> ('p, 'a) syncManager \<Rightarrow> bool" where
  "grows m m' = (length (currencyPairs m) \<le> length (currencyPairs m')
     \<and> (\<forall>i < length (currencyPairs m). stays (currencyPairs m ! i) (currencyPairs m' ! i)))"

section \<open>Example states\<close>

text \<open>
  A clock that starts at 100 s and advances by a nanosecond at each reading; a
  configuration with the three streams enabled (\<open>cfg0\<close>) and one with the ticker
  only (\<open>cfgT\<close>); exchanges: X with REST and a connected websocket (\<open>exX\<close>), X with
  REST only (\<open>exR\<close>), Z with REST and batched tickers (\<open>exZ\<close>), and W whose
  \<open>GetWebsocket\<close> returns an error (\<open>exW\<close>).
\<close>

definition clk0 :: clock where
  "clk0 n = 100000000000 + int n"

definition cfg0 :: SyncManagerConfig where
  "cfg0 = \<lparr>SynchronizeTicker = True, SynchronizeOrderbook = True, SynchronizeTrades = True,
     SynchronizeContinuously = True, TimeoutREST = 15000000000, TimeoutWebsocket = 60000000000,
     NumWorkers = 15, FiatDisplayCurrency = \<lparr>IsEmpty = False, IsFiatCurrency = True\<rparr>,
     PairFormatDisplay = Some ''-'', Verbose = False\<rparr>"

definition cfgT :: SyncManagerConfig where
  "cfgT = cfg0\<lparr>SynchronizeOrderbook := False, SynchronizeTrades := False\<rparr>"

definition restBase :: syncBase where
  "restBase = syncBase0\<lparr>IsUsingREST := True\<rparr>"

definition wsBase :: syncBase where
  "wsBase = syncBase0\<lparr>IsUsingWebsocket := True\<rparr>"

definition exX :: "(string, string) exchange" where
  "exX = \<lparr>GetName = ''X'', SupportsWebsocket = True, SupportsREST = True, IsWebsocketEnabled = True,
     SupportsRESTTickerBatchUpdates = False,
     GetWebsocket = (Some \<lparr>IsConnected = True\<rparr>, None),
     GetAssetTypes = (\<lambda>enabled. [''spot'']), IsAssetEnabled = (\<lambda>a. None),
     IsAssetWebsocketSupported = (\<lambda>a. True),
     GetEnabledPairs = (\<lambda>a. ([''BTC-USD''], None)),
     UpdateOrderbook = (\<lambda>p a. (True, None)), UpdateTicker = (\<lambda>p a. (True, None)),
     UpdateTickers = (\<lambda>a. None), FetchTicker = (\<lambda>p a. (True, None))\<rparr>"

definition exR :: "(string, string) exchange" where
  "exR = exX\<lparr>SupportsWebsocket := False, IsWebsocketEnabled := False,
     GetWebsocket := (None, Some (Plain (External ''not supported'')))\<rparr>"

definition exZ :: "(string, string) exchange" where
  "exZ = exX\<lparr>GetName := ''Z'', SupportsWebsocket := False, IsWebsocketEnabled := False,
     SupportsRESTTickerBatchUpdates := True, GetWebsocket := (None, Some (Plain (External ''not supported''))),
     GetEnabledPairs := (\<lambda>a. ([''BTC-USD'', ''ETH-USD''], None))\<rparr>"

definition exW :: "(string, string) exchange" where
  "exW = exX\<lparr>GetName := ''W'', GetWebsocket := (None, Some (Plain (External ''not supported'')))\<rparr>"

text \<open>
  A started manager with the barrier armed, holding a unit polled over REST
  (\<open>mgr0\<close>), and the same manager not started (\<open>mgr_stopped\<close>).
\<close>

definition unit0 :: "(string, string) currencyPairSyncAgent" where
  "unit0 = \<lparr>Created = 10, Exchange = ''X'', AssetType = ''spot'', Pair' = ''BTC-USD'',
     Ticker = restBase, Orderbook = restBase, Trade = restBase\<rparr>"

definition mgr0 :: "(string, string) syncManager" where
  "mgr0 = \<lparr>initSyncCompleted = 0, initSyncStarted = 1, started = 1, initSyncStartTime = 11,
     currencyPairs = [unit0], tickerBatchLastRequested = Map.empty,
     websocketRoutineManagerEnabled = False, websocketRPCEnabled = False,
     initSyncWG = 3, inService = 0, config = cfg0, createdCounter = 3, removedCounter = 0\<rparr>"

definition mgr_stopped :: "(string, string) syncManager" where
  "mgr_stopped = mgr0\<lparr>started := 0, initSyncStarted := 0\<rparr>"

text \<open>
  A manager as \<open>setupSyncManager\<close> returns it (\<open>mgr_new\<close>); after \<open>Start\<close> on
  exchange X (\<open>mgr_run\<close>); inside that \<open>Start\<close>, after the enumeration of line 200
  and before the barrier is armed at line 202 (\<open>mgr_mid\<close>); with the unit's websocket
  streams silent since long (\<open>mgr_ws\<close>); and stopped after the initial synchronisation,
  not synchronising continuously (\<open>mgr_done\<close>).
\<close>

definition mgr_new :: "(string, string) syncManager" where
  "mgr_new = \<lparr>initSyncCompleted = 0, initSyncStarted = 0, started = 0, initSyncStartTime = 0,
     currencyPairs = [], tickerBatchLastRequested = Map.empty,
     websocketRoutineManagerEnabled = True, websocketRPCEnabled = False,
     initSyncWG = 0, inService = 1, config = cfg0, createdCounter = 0, removedCounter = 0\<rparr>"

definition mgr_run :: "(string, string) syncManager" where
  "mgr_run = mgr_new\<lparr>initSyncStarted := 1, started := 1, initSyncStartTime := 100000000001,
     currencyPairs := [\<lparr>Created = 100000000000, Exchange = ''X'', AssetType = ''spot'', Pair' = ''BTC-USD'',
        Ticker = wsBase, Orderbook = wsBase, Trade = wsBase\<rparr>],
     initSyncWG := 3, inService := 0, createdCounter := 3\<rparr>"

definition mgr_mid :: "(string, string) syncManager" where
  "mgr_mid = mgr_run\<lparr>initSyncStarted := 0, initSyncStartTime := 0, initSyncWG := 4\<rparr>"

definition mgr_ws :: "(string, string) syncManager" where
  "mgr_ws = mgr_run\<lparr>currencyPairs := [\<lparr>Created = 10, Exchange = ''X'', AssetType = ''spot'',
        Pair' = ''BTC-USD'', Ticker = wsBase\<lparr>LastUpdated := 20\<rparr>, Orderbook = wsBase\<lparr>LastUpdated := 20\<rparr>,
        Trade = wsBase\<rparr>]\<rparr>"

definition mgr_done :: "(string, string) syncManager" where
  "mgr_done = mgr_run\<lparr>started := 0, initSyncCompleted := 1, initSyncWG := 0, inService := 1,
     config := cfg0\<lparr>SynchronizeContinuously := False\<rparr>\<rparr>"

text \<open>
  A ticker-only manager through its life: set up (\<open>mgr_t0\<close>), started on exchange X
  with one pair (\<open>mgr_t1\<close>), after the first ticker (\<open>mgr_t2\<close>), and, once the
  monitor has completed the initial synchronisation, stopped and started again with a
  second pair enabled (\<open>mgr_late\<close>).
\<close>

definition tickerUnit :: "string \<Rightarrow> time \<Rightarrow> syncBase \<Rightarrow> (string, string) currencyPairSyncAgent" where
  "tickerUnit p t b = \<lparr>Created = t, Exchange = ''X'', AssetType = ''spot'', Pair' = p,
     Ticker = b, Orderbook = syncBase0, Trade = syncBase0\<rparr>"

definition mgr_t0 :: "(string, string) syncManager" where
  "mgr_t0 = mgr_new\<lparr>config := cfgT\<rparr>"

definition mgr_t1 :: "(string, string) syncManager" where
  "mgr_t1 = mgr_t0\<lparr>started := 1, initSyncStarted := 1, initSyncStartTime := 100000000001,
     currencyPairs := [tickerUnit ''BTC-USD'' 100000000000 restBase],
     initSyncWG := 1, inService := 0, createdCounter := 1\<rparr>"

definition mgr_t2 :: "(string, string) syncManager" where
  "mgr_t2 = mgr_t1\<lparr>currencyPairs :=
       [tickerUnit ''BTC-USD'' 100000000000 (restBase\<lparr>LastUpdated := 100000000002, HaveData := True\<rparr>)],
     initSyncWG := 0, removedCounter := 1\<rparr>"

definition mgr_late :: "(string, string) syncManager" where
  "mgr_late = mgr_t2\<lparr>initSyncCompleted := 1, currencyPairs :=
       [tickerUnit ''BTC-USD'' 100000000000 (restBase\<lparr>LastUpdated := 100000000002, HaveData := True\<rparr>),
        tickerUnit ''ETH-USD'' 100000000003 restBase]\<rparr>"

text \<open>
  Workers: on the silent websocket unit (\<open>worker_ws\<close>), on two units of exchange Z
  (\<open>worker_z\<close>), and on a started manager (\<open>worker_w\<close>).
\<close>

definition worker_ws :: "(string, string) workerState" where
  "worker_ws = \<lparr>mgr = mgr_ws, ticks = 0, calls = [], c = InRegistry 0, switchedToRest = False\<rparr>"

definition unitZ :: "string \<Rightarrow> (string, string) currencyPairSyncAgent" where
  "unitZ p = \<lparr>Created = 10, Exchange = ''Z'', AssetType = ''spot'', Pair' = p,
     Ticker = restBase, Orderbook = restBase, Trade = restBase\<rparr>"

definition worker_z :: "(string, string) workerState" where
  "worker_z = \<lparr>mgr = mgr_run\<lparr>currencyPairs := [unitZ ''BTC-USD'', unitZ ''ETH-USD'']\<rparr>,
     ticks = 0, calls = [], c = InRegistry 0, switchedToRest = False\<rparr>"

definition worker_w :: "(string, string) workerState" where
  "worker_w = \<lparr>mgr = mgr_run, ticks = 0, calls = [], c = InRegistry 0, switchedToRest = False\<rparr>"




lemmas fixture_defs = mgr_ws_def mgr_run_def mgr_new_def cfg0_def wsBase_def syncBase0_def exX_def
  clk0_def worker_ws_def

lemmas late_defs = mgr_late_def mgr_t2_def mgr_t1_def mgr_t0_def mgr_new_def cfgT_def cfg0_def
  tickerUnit_def restBase_def syncBase0_def exR_def exX_def clk0_def

lemmas worker_defs = worker_orderbook_def worker_ticker_def fetch_orderbook_def fetch_ticker_def
  demote_orderbook_def demote_ticker_def markProcessing_def assign_def deref_def report_def
  request_ticker_def stream_due_def isProcessing_def setProcessing_def setProcessing_unit_def
  PrintOrderbookSummary_def PrintTickerSummary_def time_Since_def time_IsZero_def sameKey_def
  Update_def release_def finalise_def WaitGroup_Done_def WaitGroup_Add_def
  SyncItemTicker_def SyncItemOrderbook_def SyncItemTrade_def

section \<open>The registry and Update\<close>

subsection \<open>Scanning the registry\<close>

lemma scan_Some:
  "scan e p a x0 us = Some x \<Longrightarrow> x0 \<le> x \<and> x - x0 < length us \<and> sameKey e p a (us ! (x - x0))"
proof (induction us arbitrary: x0)
  case Nil
  then show ?case by simp
next
  case (Cons u us)
  show ?case
  proof (cases "sameKey e p a u")
    case True
    with Cons.prems show ?thesis by simp
  next
    case False
    with Cons.prems have s: "scan e p a (Suc x0) us = Some x" by simp
    from Cons.IH [OF s] have "Suc x0 \<le> x" "x - Suc x0 < length us" "sameKey e p a (us ! (x - Suc x0))"
      by simp_all
    moreover have "x - x0 = Suc (x - Suc x0)" using \<open>Suc x0 \<le> x\<close> by simp
    ultimately show ?thesis by simp
  qed
qed

lemma scan_Some0:
  "scan e p a 0 us = Some x \<Longrightarrow> x < length us \<and> sameKey e p a (us ! x)"
  using scan_Some [of e p a 0 us x] by simp

lemma scan_None:
  "scan e p a x0 us = None \<longleftrightarrow> (\<forall>u \<in> set us. \<not> sameKey e p a u)"
  by (induction us arbitrary: x0) auto

lemma scan_keys:
  "map (sameKey e p a) us' = map (sameKey e p a) us \<Longrightarrow> scan e p a x0 us' = scan e p a x0 us"
proof (induction us arbitrary: us' x0)
  case Nil
  then show ?case by simp
next
  case (Cons u us)
  from Cons.prems obtain v vs where us': "us' = v # vs" by (cases us') simp_all
  from Cons.prems us' have k: "sameKey e p a v = sameKey e p a u"
    and r: "map (sameKey e p a) vs = map (sameKey e p a) us" by simp_all
  from Cons.IH [OF r] have "scan e p a (Suc x0) vs = scan e p a (Suc x0) us" .
  with us' k show ?case by simp
qed

lemma scan_list_update:
  "sameKey e p a v = sameKey e p a (us ! i) \<Longrightarrow> scan e p a x0 (us[i := v]) = scan e p a x0 us"
proof (cases "i < length us")
  case True
  assume k: "sameKey e p a v = sameKey e p a (us ! i)"
  have "map (sameKey e p a) (us[i := v]) = map (sameKey e p a) us"
    using True k by (simp add: map_update list_update_same_conv)
  then show ?thesis by (rule scan_keys)
next
  case False
  then show ?thesis by (simp add: list_update_beyond not_less)
qed

lemma get_scan: "get m e p a = (Some x, r) \<longleftrightarrow> scan e p a 0 (currencyPairs m) = Some x \<and> r = None"
  by (auto simp add: get_def split: option.splits)

lemma exists_scan: "exists m e p a \<longleftrightarrow> scan e p a 0 (currencyPairs m) \<noteq> None"
  by (simp add: exists_def split: option.splits)

subsection \<open>What Update writes\<close>

lemma SyncItem_distinct:
  "SyncItemTicker \<noteq> SyncItemOrderbook" "SyncItemTicker \<noteq> SyncItemTrade"
  "SyncItemOrderbook \<noteq> SyncItemTrade" "SyncItemOrderbook \<noteq> SyncItemTicker"
  "SyncItemTrade \<noteq> SyncItemTicker" "SyncItemTrade \<noteq> SyncItemOrderbook"
  by (simp_all add: SyncItemTicker_def SyncItemOrderbook_def SyncItemTrade_def)

lemma sameKey_withStream [simp]: "sameKey e p a (withStream ty b u) = sameKey e p a u"
  by (simp add: sameKey_def withStream_def)

lemma streamOf_withStream [simp]: "streamOf ty (withStream ty b u) = b"
  by (simp add: streamOf_def withStream_def SyncItem_distinct)

lemma nth_list_update_streamOf:
  "x < length us \<Longrightarrow> streamOf ty ((us[x := withStream ty b u]) ! x) = b"
  by simp

lemma Update_hit:
  assumes "started m \<noteq> 0" and "initSyncStarted m = 1" and "enabledItem (config m) ty"
    and "scan e p a 0 (currencyPairs m) = Some x"
  shows "Update e p a ty err now (Some m) =
     release (HaveData (streamOf ty (currencyPairs m ! x)))
       (m\<lparr>currencyPairs := (currencyPairs m)
           [x := withStream ty (finalise err now (streamOf ty (currencyPairs m ! x))) (currencyPairs m ! x)]\<rparr>)"
  using assms
  by (auto simp add: Update_def enabledItem_def streamOf_def withStream_def SyncItem_distinct Let_def)

lemma release_Inr:
  assumes "release h m = Inr (r, mp)"
  shows "r = None \<and> (\<exists>m'. mp = Some m' \<and> currencyPairs m' = currencyPairs m \<and> config m' = config m
     \<and> started m' = started m \<and> initSyncStarted m' = initSyncStarted m
     \<and> initSyncCompleted m' = initSyncCompleted m
     \<and> createdCounter m' = createdCounter m
     \<and> removedCounter m' = removedCounter m + (if initSyncCompleted m \<noteq> 1 \<and> \<not> h then 1 else 0)
     \<and> initSyncWG m' = initSyncWG m - (if initSyncCompleted m \<noteq> 1 \<and> \<not> h then 1 else 0))"
  using assms
  by (auto simp add: release_def WaitGroup_Done_def WaitGroup_Add_def Let_def split: if_splits)

lemma release_Inr_fields:
  assumes "release h m = Inr (r, mp)"
  shows "\<exists>m'. mp = Some m' \<and> currencyPairs m' = currencyPairs m \<and> config m' = config m
     \<and> started m' = started m \<and> tickerBatchLastRequested m' = tickerBatchLastRequested m"
  using assms
  by (auto simp add: release_def WaitGroup_Done_def WaitGroup_Add_def Let_def split: if_splits)

lemma release_not_error: "release h m \<noteq> Inr (Some er, mp)"
  by (simp add: release_def WaitGroup_Done_def WaitGroup_Add_def Let_def)

lemma Update_started:
  "Update e p a ty err now (Some m) = Inr (None, r) \<Longrightarrow> started m \<noteq> 0"
  by (auto simp add: Update_def)

lemma Update_seen:
  "HaveData (streamOf ty (currencyPairs m ! x)) \<Longrightarrow> started m \<noteq> 0 \<Longrightarrow> initSyncStarted m = 1
    \<Longrightarrow> enabledItem (config m) ty \<Longrightarrow> scan e p a 0 (currencyPairs m) = Some x
    \<Longrightarrow> \<exists>m'. Update e p a ty err now (Some m) = Inr (None, Some m')
          \<and> createdCounter m' = createdCounter m \<and> removedCounter m' = removedCounter m
          \<and> initSyncWG m' = initSyncWG m"
  by (simp add: Update_hit release_def)

lemma Update_result:
  assumes "Update e p a ty err now (Some m) = Inr (r, mp)"
  shows "\<exists>m'. mp = Some m' \<and> config m' = config m \<and> started m' = started m
     \<and> tickerBatchLastRequested m' = tickerBatchLastRequested m
     \<and> (currencyPairs m' = currencyPairs m
        \<or> (\<exists>x. scan e p a 0 (currencyPairs m) = Some x \<and> enabledItem (config m) ty \<and> currencyPairs m' = (currencyPairs m)
              [x := withStream ty (finalise err now (streamOf ty (currencyPairs m ! x))) (currencyPairs m ! x)]))"
proof (cases "started m \<noteq> 0 \<and> initSyncStarted m = 1 \<and> enabledItem (config m) ty")
  case False
  with assms show ?thesis
    by (auto simp add: Update_def enabledItem_def split: if_splits option.splits)
next
  case True
  then have st: "started m \<noteq> 0" and ar: "initSyncStarted m = 1" and en: "enabledItem (config m) ty"
    by simp_all
  show ?thesis
  proof (cases "scan e p a 0 (currencyPairs m)")
    case None
    with assms st ar en show ?thesis
      by (auto simp add: Update_def enabledItem_def SyncItem_distinct split: if_splits)
  next
    case (Some x)
    from assms Update_hit [OF st ar en Some]
    have "release (HaveData (streamOf ty (currencyPairs m ! x)))
       (m\<lparr>currencyPairs := (currencyPairs m)
           [x := withStream ty (finalise err now (streamOf ty (currencyPairs m ! x))) (currencyPairs m ! x)]\<rparr>)
       = Inr (r, mp)" by simp
    from release_Inr_fields [OF this] Some en show ?thesis by auto
  qed
qed

lemma HaveData_withStream:
  "HaveData b \<Longrightarrow> HaveData (streamOf k u) \<Longrightarrow> HaveData (streamOf k (withStream ty b u))"
  by (auto simp add: streamOf_def withStream_def SyncItem_distinct split: if_splits)

lemma HaveData_list_update:
  assumes "HaveData b" and "i < length us" and "HaveData (streamOf k (us ! i))"
  shows "HaveData (streamOf k ((us[x := withStream ty b (us ! x)]) ! i))"
proof (cases "i = x")
  case True
  with assms show ?thesis by (simp add: HaveData_withStream)
next
  case False
  with assms show ?thesis by simp
qed

lemma setProcessing_HaveData:
  "i < length (currencyPairs m) \<Longrightarrow>
     HaveData (streamOf k (currencyPairs (setProcessing e p a ty v m) ! i))
       = HaveData (streamOf k (currencyPairs m ! i))"
  by (simp add: setProcessing_def setProcessing_unit_def streamOf_def)

lemma add_keeps:
  "i < length (currencyPairs m) \<Longrightarrow> currencyPairs (snd (add t u m)) ! i = currencyPairs m ! i"
  by (simp add: add_def add_stream_def Let_def nth_append)

subsection \<open>The states of the examples\<close>

lemma mono_clk0: "mono clk0"
  by (rule monoI) (simp add: clk0_def)



lemma reachable_mgr_late: "reachable mgr_late"
proof -
  have "setupSyncManager (Some cfgT) (Some \<lparr>GetExchanges = ([exR], None)\<rparr>)
     (Some \<lparr>WebsocketRPC_Enabled = False\<rparr>) True 0 0 = (Some mgr_t0, None)"
    by (simp add: setupSyncManager_def late_defs Let_def)
  then have "reachable mgr_t0" by (rule reach_setup)
  moreover have "Start clk0 \<lparr>GetExchanges = ([exR], None)\<rparr> 0 (Some mgr_t0)
     = Inr (None, Some mgr_t1, 2, MonitorRoutine # replicate 15 WorkerRoutine)"
    by (simp add: Start_def Start_enumerate_def Start_spawn_def late_defs
      WaitGroup_Add_def WaitGroup_Done_def Let_def exists_def add_def add_stream_def newAgent_def)
  ultimately have "reachable mgr_t1" by (rule reach_Start)
  moreover have "Update ''X'' ''BTC-USD'' ''spot'' SyncItemTicker None 100000000002 (Some mgr_t1)
     = Inr (None, Some mgr_t2)"
    by (simp add: Update_def late_defs sameKey_def SyncItemOrderbook_def SyncItemTicker_def
        SyncItemTrade_def release_def finalise_def WaitGroup_Done_def WaitGroup_Add_def)
  ultimately have "reachable mgr_t2" by (rule reach_Update)
  moreover have "monitor mgr_t2 = Inr (Some (mgr_t2\<lparr>initSyncCompleted := 1\<rparr>))"
    by (simp add: monitor_def late_defs)
  ultimately have "reachable (mgr_t2\<lparr>initSyncCompleted := 1\<rparr>)" by (rule reach_monitor)
  moreover have "Stop (Some (mgr_t2\<lparr>initSyncCompleted := 1\<rparr>))
     = Inr (None, Some (mgr_t2\<lparr>initSyncCompleted := 1, started := 0, inService := 1\<rparr>))"
    by (simp add: Stop_def late_defs WaitGroup_Add_def)
  ultimately have "reachable (mgr_t2\<lparr>initSyncCompleted := 1, started := 0, inService := 1\<rparr>)"
    by (rule reach_Stop)
  moreover have "Start clk0 \<lparr>GetExchanges = ([exR\<lparr>GetEnabledPairs := (\<lambda>a. ([''BTC-USD'', ''ETH-USD''], None))\<rparr>], None)\<rparr> 3
       (Some (mgr_t2\<lparr>initSyncCompleted := 1, started := 0, inService := 1\<rparr>))
     = Inr (None, Some mgr_late, 4, MonitorRoutine # replicate 15 WorkerRoutine)"
    by (simp add: Start_def Start_enumerate_def Start_spawn_def late_defs sameKey_def
      WaitGroup_Add_def WaitGroup_Done_def Let_def exists_def add_def add_stream_def newAgent_def)
  ultimately show ?thesis by (rule reach_Start)
qed

subsection \<open>Claims about Update\<close>

text \<open>
  C1, as the code has it: on a manager whose barrier is armed, for a registered unit and
  an enabled stream kind, a call of \<open>Update\<close> that returns nil leaves the stream, as
  a following \<open>get\<close> on the same key sees it, with \<open>LastUpdated\<close> equal to the
  clock reading of the call (so at or after any earlier time), \<open>HaveData\<close> true,
  \<open>IsProcessing\<close> false, and \<open>NumErrors\<close> one more than before if \<open>err\<close> is not
  nil and unchanged otherwise.
\<close>

theorem Update_then_get:
  assumes upd: "Update exchangeName p a syncType err now (Some m) = Inr (None, Some m')"
    and armed: "initSyncStarted m = 1"
    and en: "enabledItem (config m) syncType"
    and reg: "get m exchangeName p a = (Some x, None)"
    and clock: "t0 \<le> now"
  shows "get m' exchangeName p a = (Some x, None)
     \<and> LastUpdated (streamOf syncType (currencyPairs m' ! x)) = now
     \<and> t0 \<le> LastUpdated (streamOf syncType (currencyPairs m' ! x))
     \<and> HaveData (streamOf syncType (currencyPairs m' ! x))
     \<and> \<not> IsProcessing (streamOf syncType (currencyPairs m' ! x))
     \<and> NumErrors (streamOf syncType (currencyPairs m' ! x)) =
         NumErrors (streamOf syncType (currencyPairs m ! x)) + (if err \<noteq> None then 1 else 0)"
proof -
  let ?u = "currencyPairs m ! x"
  let ?b = "finalise err now (streamOf syncType ?u)"
  let ?us = "(currencyPairs m)[x := withStream syncType ?b ?u]"
  from reg have sc: "scan exchangeName p a 0 (currencyPairs m) = Some x"
    by (simp add: get_scan)
  then have x: "x < length (currencyPairs m)" by (simp add: scan_Some0)
  have st: "started m \<noteq> 0"
  proof
    assume "started m = 0"
    then have "Update exchangeName p a syncType err now (Some m)
      = Inr (Some (Wrapped ErrSubSystemNotStarted), Some m)" by (simp add: Update_def)
    with upd show False by simp
  qed
  from upd Update_hit [OF st armed en sc]
  have "release (HaveData (streamOf syncType ?u)) (m\<lparr>currencyPairs := ?us\<rparr>) = Inr (None, Some m')"
    by simp
  from release_Inr [OF this] have cp: "currencyPairs m' = ?us" by auto
  have b: "streamOf syncType (currencyPairs m' ! x) = ?b"
    using x cp by simp
  have "scan exchangeName p a 0 ?us = scan exchangeName p a 0 (currencyPairs m)"
    by (rule scan_list_update) simp
  with sc cp have g: "get m' exchangeName p a = (Some x, None)"
    by (simp add: get_def)
  show ?thesis
    using g clock by (simp add: b finalise_def)
qed

theorem Update_then_get_witness:
  "Update ''X'' ''BTC-USD'' ''spot'' SyncItemOrderbook (Some (Plain (External ''timeout''))) 100 (Some mgr0)
     = Inr (None, Some (mgr0\<lparr>currencyPairs :=
          [unit0\<lparr>Orderbook := restBase\<lparr>LastUpdated := 100, NumErrors := 1, HaveData := True\<rparr>\<rparr>],
          removedCounter := 1, initSyncWG := 2\<rparr>))
   \<and> get mgr0 ''X'' ''BTC-USD'' ''spot'' = (Some 0, None)
   \<and> NumErrors (streamOf SyncItemOrderbook (currencyPairs mgr0 ! 0)) = 0
   \<and> get (mgr0\<lparr>currencyPairs :=
          [unit0\<lparr>Orderbook := restBase\<lparr>LastUpdated := 100, NumErrors := 1, HaveData := True\<rparr>\<rparr>],
          removedCounter := 1, initSyncWG := 2\<rparr>) ''X'' ''BTC-USD'' ''spot'' = (Some 0, None)
   \<and> (90 :: int) \<le> LastUpdated (streamOf SyncItemOrderbook
        (currencyPairs (mgr0\<lparr>currencyPairs :=
          [unit0\<lparr>Orderbook := restBase\<lparr>LastUpdated := 100, NumErrors := 1, HaveData := True\<rparr>\<rparr>],
          removedCounter := 1, initSyncWG := 2\<rparr>) ! 0))"
proof -
  let ?m' = "mgr0\<lparr>currencyPairs :=
          [unit0\<lparr>Orderbook := restBase\<lparr>LastUpdated := 100, NumErrors := 1, HaveData := True\<rparr>\<rparr>],
          removedCounter := 1, initSyncWG := 2\<rparr>"
  have h1: "Update ''X'' ''BTC-USD'' ''spot'' SyncItemOrderbook (Some (Plain (External ''timeout''))) 100 (Some mgr0)
     = Inr (None, Some ?m')"
    by (simp add: Update_def mgr0_def unit0_def cfg0_def restBase_def syncBase0_def sameKey_def
        SyncItemOrderbook_def SyncItemTicker_def SyncItemTrade_def release_def finalise_def
        WaitGroup_Done_def WaitGroup_Add_def)
  have h2: "initSyncStarted mgr0 = 1" by (simp add: mgr0_def)
  have h3: "enabledItem (config mgr0) SyncItemOrderbook"
    by (simp add: mgr0_def cfg0_def enabledItem_def)
  have h4: "get mgr0 ''X'' ''BTC-USD'' ''spot'' = (Some 0, None)"
    by (simp add: get_def mgr0_def unit0_def sameKey_def)
  have h5: "(90 :: int) \<le> 100" by simp
  have h6: "NumErrors (streamOf SyncItemOrderbook (currencyPairs mgr0 ! 0)) = 0"
    by (simp add: mgr0_def unit0_def restBase_def syncBase0_def streamOf_def
        SyncItemOrderbook_def SyncItemTicker_def)
  from Update_then_get [OF h1 h2 h3 h4 h5] h1 h4 h6 show ?thesis by simp
qed

text \<open>
  C1 as stated does not ask for the barrier to be armed. \<open>Start\<close> sets \<open>started\<close>
  at line 116 and arms the barrier at line 202, after the units are registered; a call
  of \<open>Update\<close> from another goroutine in between finds the state \<open>mgr_mid\<close>,
  returns nil at line 380 and writes nothing: the stream still has no data and its
  \<open>LastUpdated\<close> is the zero time.
\<close>

theorem Update_then_get_counterexample:
  "Start_exchanges clk0 [exX] (0, mgr_new\<lparr>started := 1, initSyncWG := 1, inService := 0\<rparr>) = (1, mgr_mid)
   \<and> Update ''X'' ''BTC-USD'' ''spot'' SyncItemTicker None 100000000001 (Some mgr_mid) = Inr (None, Some mgr_mid)
   \<and> enabledItem (config mgr_mid) SyncItemTicker
   \<and> get mgr_mid ''X'' ''BTC-USD'' ''spot'' = (Some 0, None)
   \<and> \<not> HaveData (streamOf SyncItemTicker (currencyPairs mgr_mid ! 0))
   \<and> LastUpdated (streamOf SyncItemTicker (currencyPairs mgr_mid ! 0)) = 0"
  by (simp add: Update_def mgr_mid_def mgr_run_def mgr_new_def cfg0_def wsBase_def syncBase0_def
      enabledItem_def get_def sameKey_def streamOf_def exX_def clk0_def Let_def exists_def
      add_def add_stream_def newAgent_def)

text \<open>
  C3: on a started manager whose barrier is armed, \<open>Update\<close> returns an error in
  exactly two cases, leaving the state as it was: the wrapped \<open>errUnknownSyncItem\<close>
  when the stream kind is none of the three, and the wrapped \<open>errCouldNotSyncNewData\<close>
  when the kind is enabled and no unit of the registry has the key. When the barrier is
  not armed, or the kind is one of the three and its flag is off, \<open>Update\<close> returns
  nil and the state is unchanged. \<open>get\<close> on a key that no unit has returns the wrapped
  \<open>errSyncPairNotFound\<close>.
\<close>

theorem Update_error_cases:
  assumes st: "started m \<noteq> 0"
  shows "(initSyncStarted m = 1 \<longrightarrow>
           (Update e p a ty err now (Some m) = Inr (Some er, mp) \<longleftrightarrow>
              mp = Some m \<and> ((\<not> knownItem ty \<and> er = Wrapped errUnknownSyncItem)
                 \<or> (enabledItem (config m) ty \<and> \<not> exists m e p a \<and> er = Wrapped errCouldNotSyncNewData))))
     \<and> (initSyncStarted m \<noteq> 1 \<or> (knownItem ty \<and> \<not> enabledItem (config m) ty) \<longrightarrow>
           Update e p a ty err now (Some m) = Inr (None, Some m))
     \<and> (\<not> exists m e p a \<longrightarrow> get m e p a = (None, Some (Wrapped errSyncPairNotFound)))"
proof (intro conjI impI)
  assume armed: "initSyncStarted m = 1"
  show "Update e p a ty err now (Some m) = Inr (Some er, mp) \<longleftrightarrow>
              mp = Some m \<and> ((\<not> knownItem ty \<and> er = Wrapped errUnknownSyncItem)
                 \<or> (enabledItem (config m) ty \<and> \<not> exists m e p a \<and> er = Wrapped errCouldNotSyncNewData))"
  proof (cases "knownItem ty")
    case False
    with st armed show ?thesis
      by (auto simp add: Update_def knownItem_def enabledItem_def)
  next
    case known: True
    show ?thesis
    proof (cases "enabledItem (config m) ty")
      case False
      with st armed known show ?thesis
        by (auto simp add: Update_def knownItem_def enabledItem_def SyncItem_distinct)
    next
      case en: True
      show ?thesis
      proof (cases "scan e p a 0 (currencyPairs m)")
        case None
        with st armed known en show ?thesis
          by (auto simp add: Update_def knownItem_def enabledItem_def exists_scan SyncItem_distinct)
      next
        case (Some x)
        with known en show ?thesis
          by (simp add: Update_hit [OF st armed en Some] release_not_error exists_scan)
      qed
    qed
  qed
next
  assume "initSyncStarted m \<noteq> 1 \<or> (knownItem ty \<and> \<not> enabledItem (config m) ty)"
  with st show "Update e p a ty err now (Some m) = Inr (None, Some m)"
    by (auto simp add: Update_def knownItem_def enabledItem_def)
next
  assume "\<not> exists m e p a"
  then show "get m e p a = (None, Some (Wrapped errSyncPairNotFound))"
    by (simp add: exists_scan get_def)
qed

theorem Update_error_cases_witness:
  "Update ''X'' ''BTC-USD'' ''spot'' 7 None 100 (Some mgr0) = Inr (Some (Wrapped errUnknownSyncItem), Some mgr0)
   \<and> Update ''Y'' ''ETH-USD'' ''spot'' SyncItemTrade None 100 (Some mgr0)
       = Inr (Some (Wrapped errCouldNotSyncNewData), Some mgr0)
   \<and> Update ''Y'' ''ETH-USD'' ''spot'' 7 None 100 (Some mgr_mid) = Inr (None, Some mgr_mid)
   \<and> get mgr0 ''Y'' ''ETH-USD'' ''spot'' = (None, Some (Wrapped errSyncPairNotFound))"
proof -
  have s0: "started mgr0 \<noteq> 0" and a0: "initSyncStarted mgr0 = 1" by (simp_all add: mgr0_def)
  have s1: "started mgr_mid \<noteq> 0" and a1: "initSyncStarted mgr_mid \<noteq> 1"
    by (simp_all add: mgr_mid_def mgr_run_def mgr_new_def)
  have k: "\<not> knownItem 7"
    by (simp add: knownItem_def SyncItemOrderbook_def SyncItemTicker_def SyncItemTrade_def)
  have en: "enabledItem (config mgr0) SyncItemTrade"
    by (simp add: mgr0_def cfg0_def enabledItem_def)
  have ne: "\<not> exists mgr0 ''Y'' ''ETH-USD'' ''spot''"
    by (simp add: exists_def mgr0_def unit0_def sameKey_def)
  from Update_error_cases [OF s0, of "''X''" "''BTC-USD''" "''spot''" 7 None 100
      "Wrapped errUnknownSyncItem" "Some mgr0"] a0 k
  have r1: "Update ''X'' ''BTC-USD'' ''spot'' 7 None 100 (Some mgr0)
      = Inr (Some (Wrapped errUnknownSyncItem), Some mgr0)" by simp
  from Update_error_cases [OF s0, of "''Y''" "''ETH-USD''" "''spot''" SyncItemTrade None 100
      "Wrapped errCouldNotSyncNewData" "Some mgr0"] a0 en ne
  have r2: "Update ''Y'' ''ETH-USD'' ''spot'' SyncItemTrade None 100 (Some mgr0)
      = Inr (Some (Wrapped errCouldNotSyncNewData), Some mgr0)" by simp
  from Update_error_cases [OF s1, of "''Y''" "''ETH-USD''" "''spot''" 7 None 100] a1
  have r3: "Update ''Y'' ''ETH-USD'' ''spot'' 7 None 100 (Some mgr_mid) = Inr (None, Some mgr_mid)"
    by simp
  from Update_error_cases [OF s0, of "''Y''" "''ETH-USD''" "''spot''"] ne
  have r4: "get mgr0 ''Y'' ''ETH-USD'' ''spot'' = (None, Some (Wrapped errSyncPairNotFound))"
    by simp
  from r1 r2 r3 r4 show ?thesis by simp
qed

text \<open>
  C10: on a manager that is not started, \<open>Update\<close> returns the wrapped
  \<open>ErrSubSystemNotStarted\<close> for every key, stream kind and \<open>err\<close>, and the state
  (registry, counters and barrier) is the one it was called on: the test comes before
  the tests of the barrier, of the stream kind and of the key.
\<close>

theorem Update_not_started:
  "started m = 0 \<Longrightarrow>
     Update exchangeName p a syncType err now (Some m) = Inr (Some (Wrapped ErrSubSystemNotStarted), Some m)"
  by (simp add: Update_def)

theorem Update_not_started_witness:
  "started mgr_stopped = 0
   \<and> initSyncStarted mgr_stopped \<noteq> 1
   \<and> Update ''Y'' ''ETH-USD'' ''futures'' 7 (Some (Plain (External ''timeout''))) 100 (Some mgr_stopped)
       = Inr (Some (Wrapped ErrSubSystemNotStarted), Some mgr_stopped)"
proof -
  have h: "started mgr_stopped = 0" by (simp add: mgr_stopped_def mgr0_def)
  have a: "initSyncStarted mgr_stopped \<noteq> 1" by (simp add: mgr_stopped_def mgr0_def)
  from Update_not_started [OF h] h a show ?thesis by simp
qed

section \<open>setupSyncManager and Start\<close>

text \<open>
  C8: with a configuration whose three \<open>Synchronize\<close> flags are off,
  \<open>setupSyncManager\<close> returns \<open>errNoSyncItemsEnabled\<close>, whatever the other
  arguments; with at least one flag on, no error it returns is
  \<open>errNoSyncItemsEnabled\<close>, and it returns a manager and no error when the other
  checks pass.
\<close>

theorem setupSyncManager_items:
  "(\<not> SynchronizeTicker cfg \<and> \<not> SynchronizeOrderbook cfg \<and> \<not> SynchronizeTrades cfg \<longrightarrow>
      setupSyncManager (Some cfg) exchangeManager remoteConfig wsEnabled created removed
        = (None, Some (Plain errNoSyncItemsEnabled)))
   \<and> (SynchronizeTicker cfg \<or> SynchronizeOrderbook cfg \<or> SynchronizeTrades cfg \<longrightarrow>
        (\<forall>err. snd (setupSyncManager (Some cfg) exchangeManager remoteConfig wsEnabled created removed) = Some err
           \<longrightarrow> \<not> errors_Is err errNoSyncItemsEnabled))
   \<and> ((SynchronizeTicker cfg \<or> SynchronizeOrderbook cfg \<or> SynchronizeTrades cfg)
        \<and> exchangeManager \<noteq> None \<and> remoteConfig \<noteq> None
        \<and> \<not> IsEmpty (FiatDisplayCurrency cfg) \<and> IsFiatCurrency (FiatDisplayCurrency cfg)
        \<and> PairFormatDisplay cfg \<noteq> None \<longrightarrow>
        (\<exists>m. setupSyncManager (Some cfg) exchangeManager remoteConfig wsEnabled created removed = (Some m, None)))"
  by (auto simp add: setupSyncManager_def Let_def split: option.splits)

theorem setupSyncManager_items_witness:
  "setupSyncManager (Some (cfg0\<lparr>SynchronizeTicker := False, SynchronizeOrderbook := False, SynchronizeTrades := False\<rparr>))
      (Some \<lparr>GetExchanges = ([exX], None)\<rparr>) (Some \<lparr>WebsocketRPC_Enabled = False\<rparr>) True 0 0
     = (None, Some (Plain errNoSyncItemsEnabled))
   \<and> setupSyncManager (Some (cfg0\<lparr>SynchronizeTicker := False, SynchronizeOrderbook := False\<rparr>))
      (None :: (string, string) iExchangeManager option) (Some \<lparr>WebsocketRPC_Enabled = False\<rparr>) True 0 0
     = ((None :: (string, string) syncManager option), Some (Plain errNilExchangeManager))
   \<and> \<not> errors_Is (Plain errNilExchangeManager) errNoSyncItemsEnabled
   \<and> (\<exists>m. setupSyncManager (Some cfg0) (Some \<lparr>GetExchanges = ([exX], None)\<rparr>)
          (Some \<lparr>WebsocketRPC_Enabled = False\<rparr>) True 0 0 = (Some m, None))"
proof -
  let ?em = "Some \<lparr>GetExchanges = ([exX], None)\<rparr>"
  let ?rc = "Some \<lparr>WebsocketRPC_Enabled = False\<rparr>"
  let ?c0 = "cfg0\<lparr>SynchronizeTicker := False, SynchronizeOrderbook := False, SynchronizeTrades := False\<rparr>"
  let ?c1 = "cfg0\<lparr>SynchronizeTicker := False, SynchronizeOrderbook := False\<rparr>"
  have a: "\<not> SynchronizeTicker ?c0 \<and> \<not> SynchronizeOrderbook ?c0 \<and> \<not> SynchronizeTrades ?c0" by simp
  have b: "SynchronizeTicker cfg0 \<or> SynchronizeOrderbook cfg0 \<or> SynchronizeTrades cfg0"
    by (simp add: cfg0_def)
  have b': "(SynchronizeTicker cfg0 \<or> SynchronizeOrderbook cfg0 \<or> SynchronizeTrades cfg0)
        \<and> ?em \<noteq> None \<and> ?rc \<noteq> None
        \<and> \<not> IsEmpty (FiatDisplayCurrency cfg0) \<and> IsFiatCurrency (FiatDisplayCurrency cfg0)
        \<and> PairFormatDisplay cfg0 \<noteq> None"
    by (simp add: cfg0_def)
  have d: "setupSyncManager (Some ?c1) (None :: (string, string) iExchangeManager option) ?rc True 0 0
     = ((None :: (string, string) syncManager option), Some (Plain errNilExchangeManager))"
    by (simp add: setupSyncManager_def cfg0_def)
  from setupSyncManager_items [of ?c0 ?em ?rc True 0 0] a
  have r1: "setupSyncManager (Some ?c0) ?em ?rc True 0 0
     = ((None :: (string, string) syncManager option), Some (Plain errNoSyncItemsEnabled))" by blast
  from setupSyncManager_items [of cfg0 ?em ?rc True 0 0] b'
  have r3: "\<exists>m :: (string, string) syncManager. setupSyncManager (Some cfg0) ?em ?rc True 0 0 = (Some m, None)"
    by blast
  from r1 d r3 show ?thesis by simp
qed

subsection \<open>What the enumeration of Start keeps\<close>

lemma add_stream_fields [simp]:
  "initSyncCompleted (add_stream b m) = initSyncCompleted m"
  "config (add_stream b m) = config m"
  "started (add_stream b m) = started m"
  "initSyncStarted (add_stream b m) = initSyncStarted m"
  "currencyPairs (add_stream b m) = currencyPairs m"
  "websocketRoutineManagerEnabled (add_stream b m) = websocketRoutineManagerEnabled m"
  "initSyncWG m \<le> initSyncWG (add_stream b m)"
  by (simp_all add: add_stream_def)

lemma add_fields [simp]:
  "initSyncCompleted (snd (add t u m)) = initSyncCompleted m"
  "config (snd (add t u m)) = config m"
  "started (snd (add t u m)) = started m"
  "initSyncStarted (snd (add t u m)) = initSyncStarted m"
  "websocketRoutineManagerEnabled (snd (add t u m)) = websocketRoutineManagerEnabled m"
  "currencyPairs (snd (add t u m)) = currencyPairs m @ [u\<lparr>Created := t\<rparr>]"
  by (simp_all add: add_def Let_def)

lemma add_WG: "initSyncWG m \<le> initSyncWG (snd (add t u m))"
proof -
  have "initSyncWG m \<le> initSyncWG (add_stream (SynchronizeTicker (config m)) m)" by simp
  also have "\<dots> \<le> initSyncWG (add_stream (SynchronizeOrderbook (config m)) (add_stream (SynchronizeTicker (config m)) m))"
    by (rule add_stream_fields)
  also have "\<dots> \<le> initSyncWG (add_stream (SynchronizeTrades (config m))
     (add_stream (SynchronizeOrderbook (config m)) (add_stream (SynchronizeTicker (config m)) m)))"
    by (rule add_stream_fields)
  finally show ?thesis by (simp add: add_def Let_def)
qed

lemma steady_refl [simp]: "steady m m" by (simp add: steady_def)

lemma steady_trans: "steady m m' \<Longrightarrow> steady m' m'' \<Longrightarrow> steady m m''"
  by (simp add: steady_def)

lemma steady_add: "steady m (snd (add t u m))"
  using add_WG [of m t u] by (simp add: steady_def)

lemma Start_pairs_steady:
  "steady m (snd (Start_pairs clk ex a r w s ps (n, m)))"
proof (induction ps arbitrary: n m)
  case Nil
  then show ?case by simp
next
  case (Cons p ps)
  show ?case
  proof (cases "exists m ex p a")
    case True
    with Cons.IH [where n = n and m = m] show ?thesis by simp
  next
    case False
    let ?m1 = "snd (add (clk n) (newAgent (config m) ex a p r w s) m)"
    have "steady m ?m1" by (rule steady_add)
    moreover have "steady ?m1 (snd (Start_pairs clk ex a r w s ps (Suc n, ?m1)))" by (rule Cons.IH)
    ultimately show ?thesis using False by (simp add: steady_trans)
  qed
qed

lemma Start_assets_steady:
  "steady (snd nm) (snd (Start_assets clk e r w as nm))"
proof (induction as arbitrary: nm)
  case Nil
  then show ?case by simp
next
  case (Cons a as)
  obtain n m where nm: "nm = (n, m)" by (cases nm)
  obtain ps er where g: "GetEnabledPairs e a = (ps, er)" by (cases "GetEnabledPairs e a")
  show ?case
  proof (cases "IsAssetEnabled e a \<noteq> None \<or> er \<noteq> None")
    case True
    with Cons.IH [of nm] g show ?thesis by (auto split: option.splits)
  next
    case False
    let ?nm1 = "Start_pairs clk (GetName e) a r w (IsAssetWebsocketSupported e a) ps (n, m)"
    have "steady m (snd ?nm1)" by (rule Start_pairs_steady)
    moreover have "steady (snd ?nm1) (snd (Start_assets clk e r w as ?nm1))" by (rule Cons.IH)
    ultimately show ?thesis using False g nm by (simp add: steady_trans)
  qed
qed

lemma Start_exchanges_steady:
  "steady (snd nm) (snd (Start_exchanges clk es nm))"
proof (induction es arbitrary: nm)
  case Nil
  then show ?case by simp
next
  case (Cons e es)
  obtain n m where nm: "nm = (n, m)" by (cases nm)
  show ?case
  proof (cases "\<not> SupportsREST e \<and> \<not> SupportsWebsocket e")
    case True
    with Cons.IH [of nm] nm show ?thesis by simp
  next
    case False
    let ?w = "websocketRoutineManagerEnabled m \<and> SupportsWebsocket e \<and> IsWebsocketEnabled e"
    let ?nm1 = "Start_assets clk e (\<not> ?w \<and> SupportsREST e) ?w (GetAssetTypes e False) (n, m)"
    have "steady m (snd ?nm1)" using Start_assets_steady [of "(n, m)"] by simp
    moreover have "steady (snd ?nm1) (snd (Start_exchanges clk es ?nm1))" by (rule Cons.IH)
    ultimately have "steady m (snd (Start_exchanges clk es ?nm1))" by (rule steady_trans)
    with False nm show ?thesis by (auto simp add: Let_def)
  qed
qed

text \<open>
  C9: when the initial synchronisation has completed and the manager does not
  synchronise continuously, the second part of \<open>Start\<close> returns nil and launches the
  monitor only; and so does \<open>Start\<close> as a whole on such a manager that is not started,
  when the exchanges are obtained without error.
\<close>

theorem Start_no_workers:
  assumes fin: "initSyncCompleted m = 1" and once: "\<not> SynchronizeContinuously (config m)"
  shows "Start_spawn m = Inr (None, Some m, [MonitorRoutine])
     \<and> (started m = 0 \<and> 0 \<le> initSyncWG m \<and> 0 < inService m \<and> snd (GetExchanges em) = None \<longrightarrow>
          (\<exists>m' n'. Start clk em n (Some m) = Inr (None, Some m', n', [MonitorRoutine])))"
proof (intro conjI impI)
  from fin once show "Start_spawn m = Inr (None, Some m, [MonitorRoutine])"
    by (simp add: Start_spawn_def)
next
  assume h: "started m = 0 \<and> 0 \<le> initSyncWG m \<and> 0 < inService m \<and> snd (GetExchanges em) = None"
  obtain es where ge: "GetExchanges em = (es, None)" using h by (cases "GetExchanges em") simp
  let ?m1 = "m\<lparr>started := 1, initSyncWG := initSyncWG m + 1, inService := inService m - 1\<rparr>"
  obtain n2 m2 where se: "Start_exchanges clk es (n, ?m1) = (n2, m2)"
    by (cases "Start_exchanges clk es (n, ?m1)")
  from Start_exchanges_steady [of "(n, ?m1)" clk es] se have st: "steady ?m1 m2" by simp
  let ?m3 = "if initSyncStarted m2 = 0 then m2\<lparr>initSyncStarted := 1, initSyncStartTime := clk n2\<rparr> else m2"
  let ?n3 = "if initSyncStarted m2 = 0 then Suc n2 else n2"
  have en: "Start_enumerate clk em n (Some m) = Inr (None, Some ?m3, ?n3)"
    using h ge se by (simp add: Start_enumerate_def WaitGroup_Add_def WaitGroup_Done_def)
  have "initSyncCompleted ?m3 = 1" "\<not> SynchronizeContinuously (config ?m3)"
    using st fin once by (simp_all add: steady_def)
  then have "Start_spawn ?m3 = Inr (None, Some ?m3, [MonitorRoutine])"
    by (simp add: Start_spawn_def)
  with en have "Start clk em n (Some m) = Inr (None, Some ?m3, ?n3, [MonitorRoutine])"
    by (simp add: Start_def)
  then show "\<exists>m' n'. Start clk em n (Some m) = Inr (None, Some m', n', [MonitorRoutine])"
    by blast
qed

theorem Start_no_workers_witness:
  "initSyncCompleted mgr_done = 1 \<and> \<not> SynchronizeContinuously (config mgr_done)
   \<and> Start_spawn mgr_done = Inr (None, Some mgr_done, [MonitorRoutine])
   \<and> (\<exists>m' n'. Start clk0 \<lparr>GetExchanges = ([exX], None)\<rparr> 0 (Some mgr_done)
         = Inr (None, Some m', n', [MonitorRoutine]))"
proof -
  have a: "initSyncCompleted mgr_done = 1" and b: "\<not> SynchronizeContinuously (config mgr_done)"
    by (simp_all add: mgr_done_def)
  have h: "started mgr_done = 0 \<and> 0 \<le> initSyncWG mgr_done \<and> 0 < inService mgr_done
      \<and> snd (GetExchanges \<lparr>GetExchanges = ([exX], None)\<rparr>) = None"
    by (simp add: mgr_done_def)
  from Start_no_workers [OF a b, of "\<lparr>GetExchanges = ([exX], None)\<rparr>" clk0 0] h a b
  show ?thesis by blast
qed

section \<open>The transports of a stream\<close>

lemma exclusive_syncBase0 [simp]: "exclusive syncBase0"
  by (simp add: exclusive_def syncBase0_def)








subsection \<open>Operations that keep the transports\<close>

lemma keeps_refl [simp]: "keeps m m" by (simp add: keeps_def)

lemma keeps_trans: "keeps m m' \<Longrightarrow> keeps m' m'' \<Longrightarrow> keeps m m''"
  by (simp add: keeps_def)




lemma keeps_length: "keeps m m' \<Longrightarrow> length (currencyPairs m') = length (currencyPairs m)"
  unfolding keeps_def by (metis length_map)

lemma keeps_nth:
  "keeps m m' \<Longrightarrow> x < length (currencyPairs m) \<Longrightarrow>
     transportsOf (currencyPairs m' ! x) = transportsOf (currencyPairs m ! x)"
  unfolding keeps_def by (metis length_map nth_map)

lemma keeps_list_update:
  assumes "transportsOf v = transportsOf (currencyPairs m ! x)"
    and "currencyPairs m' = (currencyPairs m)[x := v]"
  shows "keeps m m'"
proof (cases "x < length (currencyPairs m)")
  case True
  with assms show ?thesis
    by (simp add: keeps_def map_update list_update_same_conv)
next
  case False
  with assms show ?thesis by (simp add: keeps_def list_update_beyond not_less)
qed

lemma transportsOf_withStream_finalise [simp]:
  "transportsOf (withStream ty (finalise err now (streamOf ty u)) u) = transportsOf u"
  by (simp add: transportsOf_def withStream_def finalise_def streamOf_def transport_def SyncItem_distinct)

lemma transportsOf_setProcessing_unit [simp]:
  "transportsOf (setProcessing_unit ty v u) = transportsOf u"
  by (simp add: transportsOf_def setProcessing_unit_def transport_def)

lemma keeps_setProcessing [simp]: "keeps m (setProcessing e p a ty v m)"
  by (simp add: keeps_def setProcessing_def)

lemma Update_keeps:
  assumes "Update e p a ty err now (Some m) = Inr (r, Some m')"
  shows "keeps m m'"
proof -
  from Update_result [OF assms]
  have "currencyPairs m' = currencyPairs m
        \<or> (\<exists>x. currencyPairs m' = (currencyPairs m)
              [x := withStream ty (finalise err now (streamOf ty (currencyPairs m ! x))) (currencyPairs m ! x)])"
    by auto
  then show ?thesis
  proof
    assume "currencyPairs m' = currencyPairs m"
    then show ?thesis by (simp add: keeps_def)
  next
    assume "\<exists>x. currencyPairs m' = (currencyPairs m)
              [x := withStream ty (finalise err now (streamOf ty (currencyPairs m ! x))) (currencyPairs m ! x)]"
    then obtain x where "currencyPairs m' = (currencyPairs m)
              [x := withStream ty (finalise err now (streamOf ty (currencyPairs m ! x))) (currencyPairs m ! x)]" ..
    then show ?thesis by (intro keeps_list_update [where x = x]) simp_all
  qed
qed



lemma markProcessing_keeps [simp]: "keeps (mgr s) (mgr (markProcessing ty v s))"
  by (simp add: markProcessing_def Let_def)

lemma report_keeps: "report clk ty err s = Inr s' \<Longrightarrow> keeps (mgr s) (mgr s')"
  by (auto simp add: report_def Let_def Update_keeps split: sum.splits option.splits)

lemma request_ticker_keeps: "request_ticker clk e s = (r, s') \<Longrightarrow> keeps (mgr s) (mgr s')"
  by (auto simp add: request_ticker_def tickerBatch_read_def tickerBatch_stale_def
      tickerBatch_request_def Let_def keeps_def split: option.splits if_splits prod.splits)

lemma fetch_orderbook_keeps:
  assumes "fetch_orderbook clk e s = Inr s'"
  shows "keeps (mgr s) (mgr s')"
proof -
  let ?s1 = "markProcessing SyncItemOrderbook True s"
  obtain result err where u: "UpdateOrderbook e (Pair' (deref ?s1)) (AssetType (deref ?s1)) = (result, err)"
    by (cases "UpdateOrderbook e (Pair' (deref ?s1)) (AssetType (deref ?s1))")
  let ?s2 = "?s1\<lparr>calls := calls ?s1 @ [CallUpdateOrderbook (GetName e) (Pair' (deref ?s1)) (AssetType (deref ?s1))]\<rparr>"
  from assms u have "report clk SyncItemOrderbook err ?s2 = Inr s'"
    by (simp add: fetch_orderbook_def Let_def split: sum.splits)
  from report_keeps [OF this] have "keeps (mgr ?s1) (mgr s')" by simp
  with markProcessing_keeps [of s SyncItemOrderbook True] show ?thesis by (rule keeps_trans)
qed

lemma fetch_ticker_keeps:
  assumes "fetch_ticker clk e s = Inr s'"
  shows "keeps (mgr s) (mgr s')"
proof (cases "IsUsingREST (Ticker (deref s))")
  case False
  with assms show ?thesis by (simp add: fetch_ticker_def)
next
  case True
  let ?s1 = "markProcessing SyncItemTicker True s"
  obtain result err s2 where r: "request_ticker clk e ?s1 = ((result, err), s2)"
    by (cases "request_ticker clk e ?s1") auto
  from assms True r have "report clk SyncItemTicker err s2 = Inr s'"
    by (simp add: fetch_ticker_def split: sum.splits)
  from request_ticker_keeps [OF r] report_keeps [OF this] have "keeps (mgr ?s1) (mgr s')"
    by (rule keeps_trans)
  with markProcessing_keeps [of s SyncItemTicker True] show ?thesis by (rule keeps_trans)
qed

lemma keeps_Orderbook:
  assumes "keeps m m'" and "x < length (currencyPairs m)"
  shows "IsUsingREST (Orderbook (currencyPairs m' ! x)) = IsUsingREST (Orderbook (currencyPairs m ! x))"
    "IsUsingWebsocket (Orderbook (currencyPairs m' ! x)) = IsUsingWebsocket (Orderbook (currencyPairs m ! x))"
  using keeps_nth [OF assms] by (simp_all add: transportsOf_def transport_def)

lemma keeps_Ticker:
  assumes "keeps m m'" and "x < length (currencyPairs m)"
  shows "IsUsingREST (Ticker (currencyPairs m' ! x)) = IsUsingREST (Ticker (currencyPairs m ! x))"
    "IsUsingWebsocket (Ticker (currencyPairs m' ! x)) = IsUsingWebsocket (Ticker (currencyPairs m ! x))"
  using keeps_nth [OF assms] by (simp_all add: transportsOf_def transport_def)

subsection \<open>The worker on one pair\<close>

lemma worker_lookup_registry:
  assumes "worker_lookup clk e r w a p s = Inr (fl, s')"
  shows "(fl = Continue \<and> s' = s)
     \<or> (\<exists>x. fl = Next \<and> s' = s\<lparr>c := InRegistry x\<rparr> \<and> x < length (currencyPairs (mgr s))
           \<and> sameKey (GetName e) p a (currencyPairs (mgr s) ! x))"
proof (cases "scan (GetName e) p a 0 (currencyPairs (mgr s))")
  case None
  with assms show ?thesis by (simp add: worker_lookup_def get_def)
next
  case (Some x)
  with assms scan_Some0 [OF Some] show ?thesis by (auto simp add: worker_lookup_def get_def)
qed

lemma assign_assign: "assign f (assign g s) = assign (\<lambda>u. f (g u)) s"
proof (cases "c s")
  case (InRegistry x)
  show ?thesis
  proof (cases "x < length (currencyPairs (mgr s))")
    case True
    with InRegistry show ?thesis by (simp add: assign_def)
  next
    case False
    with InRegistry show ?thesis by (simp add: assign_def list_update_beyond not_less)
  qed
next
  case (Fresh u)
  then show ?thesis by (simp add: assign_def)
qed

















section \<open>The switch from the websocket to REST\<close>

lemma markProcessing_fields [simp]:
  "c (markProcessing ty v s) = c s"
  "ticks (markProcessing ty v s) = ticks s"
  "calls (markProcessing ty v s) = calls s"
  "switchedToRest (markProcessing ty v s) = switchedToRest s"
  "config (mgr (markProcessing ty v s)) = config (mgr s)"
  "started (mgr (markProcessing ty v s)) = started (mgr s)"
  "length (currencyPairs (mgr (markProcessing ty v s))) = length (currencyPairs (mgr s))"
  by (simp_all add: markProcessing_def setProcessing_def Let_def)

lemma deref_markProcessing:
  assumes "c s = InRegistry x" and "x < length (currencyPairs (mgr s))"
  shows "deref (markProcessing ty v s) = setProcessing_unit ty v (deref s)"
  using assms
  by (simp add: deref_def markProcessing_def setProcessing_def Let_def sameKey_def)

lemma setProcessing_unit_fields [simp]:
  "Pair' (setProcessing_unit ty v u) = Pair' u"
  "AssetType (setProcessing_unit ty v u) = AssetType u"
  "Exchange (setProcessing_unit ty v u) = Exchange u"
  "Created (setProcessing_unit ty v u) = Created u"
  by (simp_all add: setProcessing_unit_def)

lemma setProcessing_unit_transport [simp]:
  "IsUsingREST (Orderbook (setProcessing_unit ty v u)) = IsUsingREST (Orderbook u)"
  "IsUsingWebsocket (Orderbook (setProcessing_unit ty v u)) = IsUsingWebsocket (Orderbook u)"
  "IsUsingREST (Ticker (setProcessing_unit ty v u)) = IsUsingREST (Ticker u)"
  "IsUsingWebsocket (Ticker (setProcessing_unit ty v u)) = IsUsingWebsocket (Ticker u)"
  by (simp_all add: setProcessing_unit_def)

lemma deref_fields [simp]:
  "deref (s\<lparr>switchedToRest := v\<rparr>) = deref s"
  "deref (s\<lparr>ticks := k\<rparr>) = deref s"
  "deref (s\<lparr>calls := cs\<rparr>) = deref s"
  by (simp_all add: deref_def split: agentPtr.splits)

lemma deref_registry: "c s = InRegistry x \<Longrightarrow> deref s = currencyPairs (mgr s) ! x"
  by (simp add: deref_def)

lemma assign_registry:
  assumes "c s = InRegistry x" and "x < length (currencyPairs (mgr s))"
  shows "c (assign f s) = InRegistry x" "ticks (assign f s) = ticks s" "calls (assign f s) = calls s"
    "switchedToRest (assign f s) = switchedToRest s"
    "config (mgr (assign f s)) = config (mgr s)"
    "length (currencyPairs (mgr (assign f s))) = length (currencyPairs (mgr s))"
    "deref (assign f s) = f (deref s)"
  using assms by (simp_all add: assign_def deref_def)

lemma demote_orderbook_registry:
  assumes p: "c s = InRegistry x" and x: "x < length (currencyPairs (mgr s))"
  shows "c (demote_orderbook s) = InRegistry x" "ticks (demote_orderbook s) = ticks s"
    "calls (demote_orderbook s) = calls s" "switchedToRest (demote_orderbook s)"
    "config (mgr (demote_orderbook s)) = config (mgr s)"
    "length (currencyPairs (mgr (demote_orderbook s))) = length (currencyPairs (mgr s))"
    "IsUsingREST (Orderbook (deref (demote_orderbook s)))"
    "\<not> IsUsingWebsocket (Orderbook (deref (demote_orderbook s)))"
    "Pair' (deref (demote_orderbook s)) = Pair' (deref s)"
    "AssetType (deref (demote_orderbook s)) = AssetType (deref s)"
proof -
  let ?f = "\<lambda>u. (u\<lparr>Orderbook := (Orderbook u)\<lparr>IsUsingWebsocket := False\<rparr>\<rparr>)
                \<lparr>Orderbook := (Orderbook (u\<lparr>Orderbook := (Orderbook u)\<lparr>IsUsingWebsocket := False\<rparr>\<rparr>))\<lparr>IsUsingREST := True\<rparr>\<rparr>"
  let ?s1 = "markProcessing SyncItemOrderbook True s"
  let ?s4 = "(assign ?f ?s1)\<lparr>switchedToRest := True\<rparr>"
  have d: "demote_orderbook s = markProcessing SyncItemOrderbook False ?s4"
    unfolding demote_orderbook_def Let_def assign_assign ..
  have p1: "c ?s1 = InRegistry x" and x1: "x < length (currencyPairs (mgr ?s1))"
    using p x by simp_all
  note a = assign_registry [OF p1 x1]
  have p4: "c ?s4 = InRegistry x" and x4: "x < length (currencyPairs (mgr ?s4))"
    using a x by simp_all
  have d4: "deref ?s4 = ?f (deref ?s1)" by (simp add: a(7))
  have dd: "deref (demote_orderbook s) = setProcessing_unit SyncItemOrderbook False (?f (setProcessing_unit SyncItemOrderbook True (deref s)))"
    unfolding d deref_markProcessing [OF p4 x4] d4 deref_markProcessing [OF p x] ..
  show "c (demote_orderbook s) = InRegistry x" unfolding d using p4 by simp
  show "ticks (demote_orderbook s) = ticks s" unfolding d using a by simp
  show "calls (demote_orderbook s) = calls s" unfolding d using a by simp
  show "switchedToRest (demote_orderbook s)" unfolding d by simp
  show "config (mgr (demote_orderbook s)) = config (mgr s)" unfolding d using a by simp
  show "length (currencyPairs (mgr (demote_orderbook s))) = length (currencyPairs (mgr s))"
    unfolding d using a by simp
  show "IsUsingREST (Orderbook (deref (demote_orderbook s)))" unfolding dd by simp
  show "\<not> IsUsingWebsocket (Orderbook (deref (demote_orderbook s)))" unfolding dd by simp
  show "Pair' (deref (demote_orderbook s)) = Pair' (deref s)" unfolding dd by simp
  show "AssetType (deref (demote_orderbook s)) = AssetType (deref s)" unfolding dd by simp
qed

lemma demote_ticker_registry:
  assumes p: "c s = InRegistry x" and x: "x < length (currencyPairs (mgr s))"
  shows "c (demote_ticker s) = InRegistry x" "ticks (demote_ticker s) = ticks s"
    "calls (demote_ticker s) = calls s" "switchedToRest (demote_ticker s)"
    "config (mgr (demote_ticker s)) = config (mgr s)"
    "length (currencyPairs (mgr (demote_ticker s))) = length (currencyPairs (mgr s))"
    "IsUsingREST (Ticker (deref (demote_ticker s)))"
    "\<not> IsUsingWebsocket (Ticker (deref (demote_ticker s)))"
    "Pair' (deref (demote_ticker s)) = Pair' (deref s)"
    "AssetType (deref (demote_ticker s)) = AssetType (deref s)"
proof -
  let ?f = "\<lambda>u. (u\<lparr>Ticker := (Ticker u)\<lparr>IsUsingWebsocket := False\<rparr>\<rparr>)
                \<lparr>Ticker := (Ticker (u\<lparr>Ticker := (Ticker u)\<lparr>IsUsingWebsocket := False\<rparr>\<rparr>))\<lparr>IsUsingREST := True\<rparr>\<rparr>"
  let ?s1 = "markProcessing SyncItemTicker True s"
  let ?s4 = "(assign ?f ?s1)\<lparr>switchedToRest := True\<rparr>"
  have d: "demote_ticker s = markProcessing SyncItemTicker False ?s4"
    unfolding demote_ticker_def Let_def assign_assign ..
  have p1: "c ?s1 = InRegistry x" and x1: "x < length (currencyPairs (mgr ?s1))"
    using p x by simp_all
  note a = assign_registry [OF p1 x1]
  have p4: "c ?s4 = InRegistry x" and x4: "x < length (currencyPairs (mgr ?s4))"
    using a x by simp_all
  have d4: "deref ?s4 = ?f (deref ?s1)" by (simp add: a(7))
  have dd: "deref (demote_ticker s) = setProcessing_unit SyncItemTicker False (?f (setProcessing_unit SyncItemTicker True (deref s)))"
    unfolding d deref_markProcessing [OF p4 x4] d4 deref_markProcessing [OF p x] ..
  show "c (demote_ticker s) = InRegistry x" unfolding d using p4 by simp
  show "ticks (demote_ticker s) = ticks s" unfolding d using a by simp
  show "calls (demote_ticker s) = calls s" unfolding d using a by simp
  show "switchedToRest (demote_ticker s)" unfolding d by simp
  show "config (mgr (demote_ticker s)) = config (mgr s)" unfolding d using a by simp
  show "length (currencyPairs (mgr (demote_ticker s))) = length (currencyPairs (mgr s))"
    unfolding d using a by simp
  show "IsUsingREST (Ticker (deref (demote_ticker s)))" unfolding dd by simp
  show "\<not> IsUsingWebsocket (Ticker (deref (demote_ticker s)))" unfolding dd by simp
  show "Pair' (deref (demote_ticker s)) = Pair' (deref s)" unfolding dd by simp
  show "AssetType (deref (demote_ticker s)) = AssetType (deref s)" unfolding dd by simp
qed

lemma report_fields:
  assumes "report clk ty err s = Inr s'"
  shows "c s' = c s" "calls s' = calls s" "switchedToRest s' = switchedToRest s"
  using assms by (auto simp add: report_def Let_def split: sum.splits option.splits)

lemma fetch_orderbook_fields:
  assumes f: "fetch_orderbook clk e s = Inr s'"
    and p: "c s = InRegistry x" and x: "x < length (currencyPairs (mgr s))"
  shows "c s' = c s" "switchedToRest s' = switchedToRest s"
    "calls s' = calls s @ [CallUpdateOrderbook (GetName e) (Pair' (deref s)) (AssetType (deref s))]"
proof -
  let ?s1 = "markProcessing SyncItemOrderbook True s"
  have k: "Pair' (deref ?s1) = Pair' (deref s)" "AssetType (deref ?s1) = AssetType (deref s)"
    by (simp_all add: deref_markProcessing [OF p x])
  obtain result err where u: "UpdateOrderbook e (Pair' (deref s)) (AssetType (deref s)) = (result, err)"
    by (cases "UpdateOrderbook e (Pair' (deref s)) (AssetType (deref s))")
  let ?s2 = "?s1\<lparr>calls := calls ?s1 @ [CallUpdateOrderbook (GetName e) (Pair' (deref s)) (AssetType (deref s))]\<rparr>"
  from f u k have r: "report clk SyncItemOrderbook err ?s2 = Inr s'"
    by (simp add: fetch_orderbook_def Let_def split: sum.splits)
  from report_fields [OF r] show "c s' = c s" "switchedToRest s' = switchedToRest s"
    "calls s' = calls s @ [CallUpdateOrderbook (GetName e) (Pair' (deref s)) (AssetType (deref s))]"
    by simp_all
qed

lemma request_ticker_fields:
  assumes "request_ticker clk e s = (r, s')"
  shows "c s' = c s" "switchedToRest s' = switchedToRest s"
    "\<exists>cs \<in> tickerRequests (GetName e) (Pair' (deref s)) (AssetType (deref s)). calls s' = calls s @ cs"
  using assms
  by (auto simp add: request_ticker_def tickerBatch_read_def tickerBatch_stale_def
      tickerBatch_request_def tickerRequests_def Let_def
      split: option.splits if_splits prod.splits)

lemma fetch_ticker_fields:
  assumes f: "fetch_ticker clk e s = Inr s'" and r: "IsUsingREST (Ticker (deref s))"
    and p: "c s = InRegistry x" and x: "x < length (currencyPairs (mgr s))"
  shows "c s' = c s" "switchedToRest s' = switchedToRest s"
    "\<exists>cs \<in> tickerRequests (GetName e) (Pair' (deref s)) (AssetType (deref s)). calls s' = calls s @ cs"
proof -
  let ?s1 = "markProcessing SyncItemTicker True s"
  have k: "Pair' (deref ?s1) = Pair' (deref s)" "AssetType (deref ?s1) = AssetType (deref s)"
    by (simp_all add: deref_markProcessing [OF p x])
  obtain result err s2 where q: "request_ticker clk e ?s1 = ((result, err), s2)"
    by (cases "request_ticker clk e ?s1") auto
  from f r q have rp: "report clk SyncItemTicker err s2 = Inr s'"
    by (simp add: fetch_ticker_def split: sum.splits)
  note rf = request_ticker_fields [OF q] and pf = report_fields [OF rp]
  from rf(1) pf(1) show "c s' = c s" by simp
  from rf(2) pf(3) show "switchedToRest s' = switchedToRest s" by simp
  from rf(3) pf(2) k
  show "\<exists>cs \<in> tickerRequests (GetName e) (Pair' (deref s)) (AssetType (deref s)). calls s' = calls s @ cs"
    by simp
qed

lemma stream_due_websocket:
  assumes "mono clk" and "IsUsingWebsocket b"
    and "TimeoutWebsocket cfg < time_Since (clk n) (LastUpdated b)"
  shows "\<exists>k. stream_due clk n cfg b = (True, k) \<and> n \<le> k"
proof -
  from assms(1) have "clk n \<le> clk (Suc n)" by (simp add: monoD)
  with assms(3) have "TimeoutWebsocket cfg < time_Since (clk (Suc n)) (LastUpdated b)"
    by (simp add: time_Since_def)
  with assms(2) show ?thesis by (simp add: stream_due_def)
qed

lemma Created_old:
  assumes "mono clk" and "n \<le> k" and "TimeoutWebsocket cfg \<le> time_Since (clk n) t"
  shows "\<not> time_Since (clk k) t < TimeoutWebsocket cfg"
proof -
  from assms(1,2) have "clk n \<le> clk k" by (rule monoD)
  with assms(3) show ?thesis by (simp add: time_Since_def)
qed

lemma worker_orderbook_demotes:
  assumes mono: "mono clk" and p: "c s = InRegistry x" and x: "x < length (currencyPairs (mgr s))"
    and rest: "SupportsREST e"
    and en: "SynchronizeOrderbook (config (mgr s))"
    and np: "\<not> isProcessing (mgr s) (GetName e) (Pair' (deref s)) (AssetType (deref s)) SyncItemOrderbook"
    and ws: "IsUsingWebsocket (Orderbook (deref s))"
    and old: "TimeoutWebsocket (config (mgr s)) \<le> time_Since (clk (ticks s)) (Created (deref s))"
    and stale: "TimeoutWebsocket (config (mgr s)) < time_Since (clk (ticks s)) (LastUpdated (Orderbook (deref s)))"
  shows "\<exists>k. worker_orderbook clk e s =
      (case fetch_orderbook clk e (demote_orderbook (s\<lparr>ticks := k\<rparr>)) of
         Inl pn \<Rightarrow> Inl pn | Inr s' \<Rightarrow> Inr (Next, s'))"
proof -
  from stream_due_websocket [OF mono ws stale] obtain k
    where d: "stream_due clk (ticks s) (config (mgr s)) (Orderbook (deref s)) = (True, k)"
      and k: "ticks s \<le> k" by blast
  from Created_old [OF mono k old]
  have "\<not> time_Since (clk k) (Created (deref s)) < TimeoutWebsocket (config (mgr s))" .
  with en np d ws rest have "worker_orderbook clk e s =
      (case fetch_orderbook clk e (demote_orderbook (s\<lparr>ticks := Suc k\<rparr>)) of
         Inl pn \<Rightarrow> Inl pn | Inr s' \<Rightarrow> Inr (Next, s'))"
    by (simp add: worker_orderbook_def)
  then show ?thesis ..
qed

lemma worker_ticker_demotes:
  assumes mono: "mono clk" and p: "c s = InRegistry x" and x: "x < length (currencyPairs (mgr s))"
    and rest: "SupportsREST e"
    and en: "SynchronizeTicker (config (mgr s))"
    and np: "\<not> isProcessing (mgr s) (GetName e) (Pair' (deref s)) (AssetType (deref s)) SyncItemTicker"
    and ws: "IsUsingWebsocket (Ticker (deref s))"
    and old: "TimeoutWebsocket (config (mgr s)) \<le> time_Since (clk (ticks s)) (Created (deref s))"
    and stale: "TimeoutWebsocket (config (mgr s)) < time_Since (clk (ticks s)) (LastUpdated (Ticker (deref s)))"
  shows "\<exists>k. worker_ticker clk e s =
      (case fetch_ticker clk e (demote_ticker (s\<lparr>ticks := k\<rparr>)) of
         Inl pn \<Rightarrow> Inl pn | Inr s' \<Rightarrow> Inr (Next, s'))"
proof -
  from stream_due_websocket [OF mono ws stale] obtain k
    where d: "stream_due clk (ticks s) (config (mgr s)) (Ticker (deref s)) = (True, k)"
      and k: "ticks s \<le> k" by blast
  from Created_old [OF mono k old]
  have "\<not> time_Since (clk k) (Created (deref s)) < TimeoutWebsocket (config (mgr s))" .
  with en np d ws rest have "worker_ticker clk e s =
      (case fetch_ticker clk e (demote_ticker (s\<lparr>ticks := Suc k\<rparr>)) of
         Inl pn \<Rightarrow> Inl pn | Inr s' \<Rightarrow> Inr (Next, s'))"
    by (simp add: worker_ticker_def)
  then show ?thesis ..
qed

lemma worker_ws_orderbook:
  "\<exists>s'. worker_orderbook clk0 exX worker_ws = Inr (Next, s')"
  by (simp add: worker_defs fixture_defs Let_def)

lemma worker_ws_ticker:
  "\<exists>s'. worker_ticker clk0 exX worker_ws = Inr (Next, s')"
  by (simp add: worker_defs fixture_defs Let_def)

text \<open>
  C5: let the worker, with a clock that never goes back, examine a unit of the registry
  on an exchange that supports REST, the unit created at least \<open>TimeoutWebsocket\<close>
  ago. If the orderbook stream is enabled, not processing, on the websocket and last
  updated more than \<open>TimeoutWebsocket\<close> ago, then the examination is the REST request
  of lines 586 to 599 made on the state in which the stream has been switched
  (\<open>IsUsingREST\<close> true, \<open>IsUsingWebsocket\<close> false), and when it returns, the unit in
  the registry has the stream on REST and not on the websocket, and \<open>UpdateOrderbook\<close>
  has been called for the pair. The same holds for the ticker stream, with the ticker
  requests of lines 631 to 678.
\<close>

theorem worker_demotes:
  assumes mono: "mono clk" and p: "c s = InRegistry x" and x: "x < length (currencyPairs (mgr s))"
    and rest: "SupportsREST e"
    and old: "TimeoutWebsocket (config (mgr s)) \<le> time_Since (clk (ticks s)) (Created (deref s))"
  shows "(SynchronizeOrderbook (config (mgr s))
       \<and> \<not> isProcessing (mgr s) (GetName e) (Pair' (deref s)) (AssetType (deref s)) SyncItemOrderbook
       \<and> IsUsingWebsocket (Orderbook (deref s))
       \<and> TimeoutWebsocket (config (mgr s)) < time_Since (clk (ticks s)) (LastUpdated (Orderbook (deref s)))
      \<longrightarrow> (\<exists>k. worker_orderbook clk e s =
              (case fetch_orderbook clk e (demote_orderbook (s\<lparr>ticks := k\<rparr>)) of
                 Inl pn \<Rightarrow> Inl pn | Inr s' \<Rightarrow> Inr (Next, s'))
            \<and> IsUsingREST (Orderbook (deref (demote_orderbook (s\<lparr>ticks := k\<rparr>))))
            \<and> \<not> IsUsingWebsocket (Orderbook (deref (demote_orderbook (s\<lparr>ticks := k\<rparr>)))))
        \<and> (\<forall>fl s'. worker_orderbook clk e s = Inr (fl, s') \<longrightarrow>
              fl = Next
              \<and> IsUsingREST (Orderbook (currencyPairs (mgr s') ! x))
              \<and> \<not> IsUsingWebsocket (Orderbook (currencyPairs (mgr s') ! x))
              \<and> calls s' = calls s @ [CallUpdateOrderbook (GetName e) (Pair' (deref s)) (AssetType (deref s))]))
   \<and> (SynchronizeTicker (config (mgr s))
       \<and> \<not> isProcessing (mgr s) (GetName e) (Pair' (deref s)) (AssetType (deref s)) SyncItemTicker
       \<and> IsUsingWebsocket (Ticker (deref s))
       \<and> TimeoutWebsocket (config (mgr s)) < time_Since (clk (ticks s)) (LastUpdated (Ticker (deref s)))
      \<longrightarrow> (\<exists>k. worker_ticker clk e s =
              (case fetch_ticker clk e (demote_ticker (s\<lparr>ticks := k\<rparr>)) of
                 Inl pn \<Rightarrow> Inl pn | Inr s' \<Rightarrow> Inr (Next, s'))
            \<and> IsUsingREST (Ticker (deref (demote_ticker (s\<lparr>ticks := k\<rparr>))))
            \<and> \<not> IsUsingWebsocket (Ticker (deref (demote_ticker (s\<lparr>ticks := k\<rparr>)))))
        \<and> (\<forall>fl s'. worker_ticker clk e s = Inr (fl, s') \<longrightarrow>
              fl = Next
              \<and> IsUsingREST (Ticker (currencyPairs (mgr s') ! x))
              \<and> \<not> IsUsingWebsocket (Ticker (currencyPairs (mgr s') ! x))
              \<and> (\<exists>cs \<in> tickerRequests (GetName e) (Pair' (deref s)) (AssetType (deref s)).
                    calls s' = calls s @ cs)))"
proof (intro conjI impI)
  assume h: "SynchronizeOrderbook (config (mgr s))
       \<and> \<not> isProcessing (mgr s) (GetName e) (Pair' (deref s)) (AssetType (deref s)) SyncItemOrderbook
       \<and> IsUsingWebsocket (Orderbook (deref s))
       \<and> TimeoutWebsocket (config (mgr s)) < time_Since (clk (ticks s)) (LastUpdated (Orderbook (deref s)))"
  then obtain k where k: "worker_orderbook clk e s =
      (case fetch_orderbook clk e (demote_orderbook (s\<lparr>ticks := k\<rparr>)) of
         Inl pn \<Rightarrow> Inl pn | Inr s' \<Rightarrow> Inr (Next, s'))"
    using worker_orderbook_demotes [OF mono p x rest _ _ _ old] by blast
  let ?d = "demote_orderbook (s\<lparr>ticks := k\<rparr>)"
  have pk: "c (s\<lparr>ticks := k\<rparr>) = InRegistry x" and xk: "x < length (currencyPairs (mgr (s\<lparr>ticks := k\<rparr>)))"
    using p x by simp_all
  note dm = demote_orderbook_registry [OF pk xk]
  from dm(7,8) k
  show "\<exists>k. worker_orderbook clk e s =
              (case fetch_orderbook clk e (demote_orderbook (s\<lparr>ticks := k\<rparr>)) of
                 Inl pn \<Rightarrow> Inl pn | Inr s' \<Rightarrow> Inr (Next, s'))
            \<and> IsUsingREST (Orderbook (deref (demote_orderbook (s\<lparr>ticks := k\<rparr>))))
            \<and> \<not> IsUsingWebsocket (Orderbook (deref (demote_orderbook (s\<lparr>ticks := k\<rparr>))))"
    by blast
  have xd: "x < length (currencyPairs (mgr ?d))" using dm(6) x by simp
  show "\<forall>fl s'. worker_orderbook clk e s = Inr (fl, s') \<longrightarrow>
              fl = Next
              \<and> IsUsingREST (Orderbook (currencyPairs (mgr s') ! x))
              \<and> \<not> IsUsingWebsocket (Orderbook (currencyPairs (mgr s') ! x))
              \<and> calls s' = calls s @ [CallUpdateOrderbook (GetName e) (Pair' (deref s)) (AssetType (deref s))]"
  proof (intro allI impI)
    fix fl s'
    assume "worker_orderbook clk e s = Inr (fl, s')"
    with k have f: "fetch_orderbook clk e ?d = Inr s'" and fl: "fl = Next"
      by (auto split: sum.splits)
    note kp = keeps_Orderbook [OF fetch_orderbook_keeps [OF f] xd]
    note ff = fetch_orderbook_fields [OF f dm(1) xd]
    from dm(7,8) have "IsUsingREST (Orderbook (currencyPairs (mgr ?d) ! x))"
      "\<not> IsUsingWebsocket (Orderbook (currencyPairs (mgr ?d) ! x))"
      by (simp_all add: deref_registry [OF dm(1)])
    with kp ff(3) dm(3,9,10) fl
    show "fl = Next
              \<and> IsUsingREST (Orderbook (currencyPairs (mgr s') ! x))
              \<and> \<not> IsUsingWebsocket (Orderbook (currencyPairs (mgr s') ! x))
              \<and> calls s' = calls s @ [CallUpdateOrderbook (GetName e) (Pair' (deref s)) (AssetType (deref s))]"
      by simp
  qed
next
  assume h: "SynchronizeTicker (config (mgr s))
       \<and> \<not> isProcessing (mgr s) (GetName e) (Pair' (deref s)) (AssetType (deref s)) SyncItemTicker
       \<and> IsUsingWebsocket (Ticker (deref s))
       \<and> TimeoutWebsocket (config (mgr s)) < time_Since (clk (ticks s)) (LastUpdated (Ticker (deref s)))"
  then obtain k where k: "worker_ticker clk e s =
      (case fetch_ticker clk e (demote_ticker (s\<lparr>ticks := k\<rparr>)) of
         Inl pn \<Rightarrow> Inl pn | Inr s' \<Rightarrow> Inr (Next, s'))"
    using worker_ticker_demotes [OF mono p x rest _ _ _ old] by blast
  let ?d = "demote_ticker (s\<lparr>ticks := k\<rparr>)"
  have pk: "c (s\<lparr>ticks := k\<rparr>) = InRegistry x" and xk: "x < length (currencyPairs (mgr (s\<lparr>ticks := k\<rparr>)))"
    using p x by simp_all
  note dm = demote_ticker_registry [OF pk xk]
  from dm(7,8) k
  show "\<exists>k. worker_ticker clk e s =
              (case fetch_ticker clk e (demote_ticker (s\<lparr>ticks := k\<rparr>)) of
                 Inl pn \<Rightarrow> Inl pn | Inr s' \<Rightarrow> Inr (Next, s'))
            \<and> IsUsingREST (Ticker (deref (demote_ticker (s\<lparr>ticks := k\<rparr>))))
            \<and> \<not> IsUsingWebsocket (Ticker (deref (demote_ticker (s\<lparr>ticks := k\<rparr>))))"
    by blast
  have xd: "x < length (currencyPairs (mgr ?d))" using dm(6) x by simp
  show "\<forall>fl s'. worker_ticker clk e s = Inr (fl, s') \<longrightarrow>
              fl = Next
              \<and> IsUsingREST (Ticker (currencyPairs (mgr s') ! x))
              \<and> \<not> IsUsingWebsocket (Ticker (currencyPairs (mgr s') ! x))
              \<and> (\<exists>cs \<in> tickerRequests (GetName e) (Pair' (deref s)) (AssetType (deref s)).
                    calls s' = calls s @ cs)"
  proof (intro allI impI)
    fix fl s'
    assume "worker_ticker clk e s = Inr (fl, s')"
    with k have f: "fetch_ticker clk e ?d = Inr s'" and fl: "fl = Next"
      by (auto split: sum.splits)
    note kp = keeps_Ticker [OF fetch_ticker_keeps [OF f] xd]
    note ff = fetch_ticker_fields [OF f dm(7) dm(1) xd]
    from dm(7,8) have "IsUsingREST (Ticker (currencyPairs (mgr ?d) ! x))"
      "\<not> IsUsingWebsocket (Ticker (currencyPairs (mgr ?d) ! x))"
      by (simp_all add: deref_registry [OF dm(1)])
    with kp ff(3) dm(3,9,10) fl
    show "fl = Next
              \<and> IsUsingREST (Ticker (currencyPairs (mgr s') ! x))
              \<and> \<not> IsUsingWebsocket (Ticker (currencyPairs (mgr s') ! x))
              \<and> (\<exists>cs \<in> tickerRequests (GetName e) (Pair' (deref s)) (AssetType (deref s)).
                    calls s' = calls s @ cs)"
      by simp
  qed
qed

theorem worker_demotes_witness:
  "mono clk0 \<and> c worker_ws = InRegistry 0 \<and> SupportsREST exX
   \<and> IsUsingWebsocket (Orderbook (deref worker_ws)) \<and> IsUsingWebsocket (Ticker (deref worker_ws))
   \<and> (\<exists>s'. worker_orderbook clk0 exX worker_ws = Inr (Next, s')
         \<and> IsUsingREST (Orderbook (currencyPairs (mgr s') ! 0))
         \<and> \<not> IsUsingWebsocket (Orderbook (currencyPairs (mgr s') ! 0))
         \<and> calls s' = [CallUpdateOrderbook ''X'' ''BTC-USD'' ''spot''])
   \<and> (\<exists>s'. worker_ticker clk0 exX worker_ws = Inr (Next, s')
         \<and> IsUsingREST (Ticker (currencyPairs (mgr s') ! 0))
         \<and> \<not> IsUsingWebsocket (Ticker (currencyPairs (mgr s') ! 0))
         \<and> calls s' = [CallUpdateTicker ''X'' ''BTC-USD'' ''spot''])"
proof -
  have p: "c worker_ws = InRegistry 0" by (simp add: worker_ws_def)
  have x: "0 < length (currencyPairs (mgr worker_ws))" by (simp add: fixture_defs)
  have rest: "SupportsREST exX" by (simp add: exX_def)
  have old: "TimeoutWebsocket (config (mgr worker_ws))
      \<le> time_Since (clk0 (ticks worker_ws)) (Created (deref worker_ws))"
    by (simp add: fixture_defs deref_def time_Since_def)
  have ho: "SynchronizeOrderbook (config (mgr worker_ws))
       \<and> \<not> isProcessing (mgr worker_ws) (GetName exX) (Pair' (deref worker_ws)) (AssetType (deref worker_ws)) SyncItemOrderbook
       \<and> IsUsingWebsocket (Orderbook (deref worker_ws))
       \<and> TimeoutWebsocket (config (mgr worker_ws))
           < time_Since (clk0 (ticks worker_ws)) (LastUpdated (Orderbook (deref worker_ws)))"
    by (simp add: fixture_defs deref_def time_Since_def isProcessing_def sameKey_def
        SyncItemTicker_def SyncItemOrderbook_def)
  have ht: "SynchronizeTicker (config (mgr worker_ws))
       \<and> \<not> isProcessing (mgr worker_ws) (GetName exX) (Pair' (deref worker_ws)) (AssetType (deref worker_ws)) SyncItemTicker
       \<and> IsUsingWebsocket (Ticker (deref worker_ws))
       \<and> TimeoutWebsocket (config (mgr worker_ws))
           < time_Since (clk0 (ticks worker_ws)) (LastUpdated (Ticker (deref worker_ws)))"
    by (simp add: fixture_defs deref_def time_Since_def isProcessing_def sameKey_def
        SyncItemTicker_def SyncItemOrderbook_def)
  have k: "GetName exX = ''X''" "Pair' (deref worker_ws) = ''BTC-USD''" "AssetType (deref worker_ws) = ''spot''"
    "calls worker_ws = []"
    by (simp_all add: fixture_defs deref_def)
  note th = worker_demotes [OF mono_clk0 p x rest old]
  from th ho have o: "\<forall>fl s'. worker_orderbook clk0 exX worker_ws = Inr (fl, s') \<longrightarrow>
              fl = Next
              \<and> IsUsingREST (Orderbook (currencyPairs (mgr s') ! 0))
              \<and> \<not> IsUsingWebsocket (Orderbook (currencyPairs (mgr s') ! 0))
              \<and> calls s' = calls worker_ws @ [CallUpdateOrderbook (GetName exX) (Pair' (deref worker_ws)) (AssetType (deref worker_ws))]"
    by blast
  from th ht have t: "\<forall>fl s'. worker_ticker clk0 exX worker_ws = Inr (fl, s') \<longrightarrow>
              fl = Next
              \<and> IsUsingREST (Ticker (currencyPairs (mgr s') ! 0))
              \<and> \<not> IsUsingWebsocket (Ticker (currencyPairs (mgr s') ! 0))
              \<and> (\<exists>cs \<in> tickerRequests (GetName exX) (Pair' (deref worker_ws)) (AssetType (deref worker_ws)).
                    calls s' = calls worker_ws @ cs)"
    by blast
  from worker_ws_orderbook obtain so where so: "worker_orderbook clk0 exX worker_ws = Inr (Next, so)" ..
  from worker_ws_ticker obtain st where st: "worker_ticker clk0 exX worker_ws = Inr (Next, st)" ..
  have ct: "calls st = [CallUpdateTicker ''X'' ''BTC-USD'' ''spot'']"
    using st by (simp add: worker_defs fixture_defs Let_def) auto
  from o so k have "IsUsingREST (Orderbook (currencyPairs (mgr so) ! 0))
         \<and> \<not> IsUsingWebsocket (Orderbook (currencyPairs (mgr so) ! 0))
         \<and> calls so = [CallUpdateOrderbook ''X'' ''BTC-USD'' ''spot'']" by simp
  with so have eo: "\<exists>s'. worker_orderbook clk0 exX worker_ws = Inr (Next, s')
         \<and> IsUsingREST (Orderbook (currencyPairs (mgr s') ! 0))
         \<and> \<not> IsUsingWebsocket (Orderbook (currencyPairs (mgr s') ! 0))
         \<and> calls s' = [CallUpdateOrderbook ''X'' ''BTC-USD'' ''spot'']" by blast
  from t st have "IsUsingREST (Ticker (currencyPairs (mgr st) ! 0))
         \<and> \<not> IsUsingWebsocket (Ticker (currencyPairs (mgr st) ! 0))" by simp
  with st ct have et: "\<exists>s'. worker_ticker clk0 exX worker_ws = Inr (Next, s')
         \<and> IsUsingREST (Ticker (currencyPairs (mgr s') ! 0))
         \<and> \<not> IsUsingWebsocket (Ticker (currencyPairs (mgr s') ! 0))
         \<and> calls s' = [CallUpdateTicker ''X'' ''BTC-USD'' ''spot'']" by blast
  from mono_clk0 p rest ho ht eo et show ?thesis by simp
qed

section \<open>Two defects of the worker\<close>

text \<open>
  One worker alone paces the batches: it calls \<open>UpdateTickers\<close> for an exchange
  that has a batch recorded only when more than \<open>TimeoutREST\<close> has passed since.
\<close>

lemma request_ticker_paced:
  assumes batch: "SupportsRESTTickerBatchUpdates e"
    and last: "tickerBatchLastRequested (mgr s) (GetName e) = Some t" and nz: "\<not> time_IsZero t"
    and req: "request_ticker clk e s = (r, s')"
    and new: "CallUpdateTickers (GetName e) (AssetType (deref s)) \<in> set (calls s') - set (calls s)"
  shows "TimeoutREST (config (mgr s)) < time_Since (clk (ticks s)) t
     \<and> tickerBatchLastRequested (mgr s') (GetName e) = Some (clk (Suc (ticks s)))"
proof (cases "TimeoutREST (config (mgr s)) < time_Since (clk (ticks s)) t")
  case True
  with batch last nz req show ?thesis
    by (auto simp add: request_ticker_def tickerBatch_read_def tickerBatch_stale_def
        tickerBatch_request_def Let_def split: option.splits prod.splits)
next
  case False
  with batch last nz req have "calls s' = calls s @ [CallFetchTicker (GetName e) (Pair' (deref s)) (AssetType (deref s))]"
    by (auto simp add: request_ticker_def tickerBatch_read_def tickerBatch_stale_def Let_def)
  with new show ?thesis by simp
qed

text \<open>
  C6 fails on the code: the time of the last batch is read under the lock (lines 637 to
  642) and tested outside it (line 644), and the batch is requested under the lock again
  (lines 645 to 654) without a second test. Two workers that both read before either
  requests both find the batch wanted and both call \<open>UpdateTickers\<close> for exchange Z;
  the times recorded for the two batches are one nanosecond apart, with \<open>TimeoutREST\<close>
  at 15 s.
\<close>

theorem ticker_batches_race:
  "fst (batch_race clk0 exZ (unitZ ''BTC-USD'') (unitZ ''ETH-USD'') worker_z) = (True, True)
   \<and> calls (snd (snd (batch_race clk0 exZ (unitZ ''BTC-USD'') (unitZ ''ETH-USD'') worker_z)))
       = [CallUpdateTickers ''Z'' ''spot'', CallFetchTicker ''Z'' ''BTC-USD'' ''spot'',
          CallUpdateTickers ''Z'' ''spot'', CallFetchTicker ''Z'' ''ETH-USD'' ''spot'']
   \<and> tickerBatchLastRequested (mgr (fst (snd (batch_race clk0 exZ (unitZ ''BTC-USD'') (unitZ ''ETH-USD'') worker_z)))) ''Z''
       = Some 100000000000
   \<and> tickerBatchLastRequested (mgr (snd (snd (batch_race clk0 exZ (unitZ ''BTC-USD'') (unitZ ''ETH-USD'') worker_z)))) ''Z''
       = Some 100000000001
   \<and> TimeoutREST (config (mgr worker_z)) = 15000000000"
  by (simp add: batch_race_def tickerBatch_read_def tickerBatch_stale_def tickerBatch_request_def
      worker_z_def unitZ_def exZ_def exX_def mgr_run_def mgr_new_def cfg0_def clk0_def
      time_IsZero_def Let_def)

text \<open>
  C7 fails on the code: when an exchange supports the websocket, has it enabled, and
  \<open>GetWebsocket\<close> returns a nil pointer with an error, the worker logs the error
  (line 490) and goes on to call \<open>IsConnected\<close> through the nil pointer (line 497):
  the worker goroutine panics.
\<close>

theorem worker_panics_on_GetWebsocket_error:
  "SupportsWebsocket exW \<and> IsWebsocketEnabled exW
   \<and> GetWebsocket exW = (None, Some (Plain (External ''not supported'')))
   \<and> worker_transport exW = Inl NilPointerDereference
   \<and> worker clk0 \<lparr>GetExchanges = ([exW], None)\<rparr> worker_w = Some (Inl NilPointerDereference)"
proof -
  have t: "worker_transport exW = Inl NilPointerDereference"
    by (simp add: worker_transport_def exW_def exX_def)
  have "worker clk0 \<lparr>GetExchanges = ([exW], None)\<rparr> worker_w = Some (Inl NilPointerDereference)"
    by (subst worker.simps) (simp add: t worker_w_def mgr_run_def mgr_new_def)
  with t show ?thesis by (simp add: exW_def exX_def)
qed

section \<open>The barrier and the data of a stream over the life of the manager\<close>

subsection \<open>What every operation keeps of the registry\<close>

lemma stays_refl [simp]: "stays u u"
  by (simp add: stays_def)

lemma stays_trans: "stays u v \<Longrightarrow> stays v w \<Longrightarrow> stays u w"
  by (simp add: stays_def)

lemma grows_refl [simp]: "grows m m"
  by (simp add: grows_def)

lemma grows_trans:
  assumes "grows m m'" and "grows m' m''"
  shows "grows m m''"
proof -
  have "stays (currencyPairs m ! i) (currencyPairs m'' ! i)" if i: "i < length (currencyPairs m)" for i
  proof -
    from assms(1) i have a: "stays (currencyPairs m ! i) (currencyPairs m' ! i)"
      and "i < length (currencyPairs m')" by (simp_all add: grows_def)
    with assms(2) have "stays (currencyPairs m' ! i) (currencyPairs m'' ! i)" by (simp add: grows_def)
    with a show ?thesis by (rule stays_trans)
  qed
  with assms show ?thesis by (simp add: grows_def)
qed

lemma grows_same: "currencyPairs m' = currencyPairs m \<Longrightarrow> grows m m'"
  by (simp add: grows_def)

lemma grows_list_update:
  assumes "stays (currencyPairs m ! x) v" and "currencyPairs m' = (currencyPairs m)[x := v]"
  shows "grows m m'"
proof -
  have "stays (currencyPairs m ! i) ((currencyPairs m)[x := v] ! i)" if "i < length (currencyPairs m)" for i
    using that assms(1) by (cases "i = x") simp_all
  with assms(2) show ?thesis by (simp add: grows_def)
qed

lemma grows_append: "currencyPairs m' = currencyPairs m @ ws \<Longrightarrow> grows m m'"
  by (simp add: grows_def nth_append)

lemma grows_map: "(\<And>u. stays u (f u)) \<Longrightarrow> currencyPairs m' = map f (currencyPairs m) \<Longrightarrow> grows m m'"
  by (simp add: grows_def)

lemma stays_withStream_finalise:
  "stays u (withStream ty (finalise err now (streamOf ty u)) u)"
  by (simp add: stays_def withStream_def finalise_def streamOf_def SyncItem_distinct)

lemma stays_setProcessing_unit: "stays u (setProcessing_unit ty v u)"
  by (simp add: stays_def setProcessing_unit_def)

lemma setProcessing_grows: "grows m (setProcessing e p a ty v m)"
  by (rule grows_map [where f = "\<lambda>u. if sameKey e p a u then setProcessing_unit ty v u else u"])
    (simp_all add: stays_setProcessing_unit setProcessing_def)

lemma add_grows: "grows m (snd (add t u m))"
  by (rule grows_append [where ws = "[u\<lparr>Created := t\<rparr>]"]) simp

lemma Update_grows:
  assumes "Update e p a ty err now (Some m) = Inr (r, Some m')"
  shows "grows m m'"
proof -
  from Update_result [OF assms]
  have "currencyPairs m' = currencyPairs m
        \<or> (\<exists>x. currencyPairs m' = (currencyPairs m)
              [x := withStream ty (finalise err now (streamOf ty (currencyPairs m ! x))) (currencyPairs m ! x)])"
    by auto
  then show ?thesis
  proof
    assume "currencyPairs m' = currencyPairs m"
    then show ?thesis by (rule grows_same)
  next
    assume "\<exists>x. currencyPairs m' = (currencyPairs m)
              [x := withStream ty (finalise err now (streamOf ty (currencyPairs m ! x))) (currencyPairs m ! x)]"
    then obtain x where "currencyPairs m' = (currencyPairs m)
              [x := withStream ty (finalise err now (streamOf ty (currencyPairs m ! x))) (currencyPairs m ! x)]" ..
    with stays_withStream_finalise show ?thesis by (rule grows_list_update)
  qed
qed

lemma Stop_grows: "Stop (Some m) = Inr (err, Some m') \<Longrightarrow> grows m m'"
  by (auto simp add: Stop_def grows_def WaitGroup_Add_def Let_def split: if_splits)

lemma monitor_grows: "monitor m = Inr (Some m') \<Longrightarrow> grows m m'"
  by (auto simp add: monitor_def Stop_def grows_def WaitGroup_Add_def Let_def split: if_splits)

lemma Start_pairs_grows:
  "grows m (snd (Start_pairs clk ex a r w s ps (n, m)))"
proof (induction ps arbitrary: n m)
  case Nil
  then show ?case by simp
next
  case (Cons p ps)
  show ?case
  proof (cases "exists m ex p a")
    case True
    with Cons.IH [where n = n and m = m] show ?thesis by simp
  next
    case False
    let ?m1 = "snd (add (clk n) (newAgent (config m) ex a p r w s) m)"
    have "grows m ?m1" by (rule add_grows)
    moreover have "grows ?m1 (snd (Start_pairs clk ex a r w s ps (Suc n, ?m1)))" by (rule Cons.IH)
    ultimately have "grows m (snd (Start_pairs clk ex a r w s ps (Suc n, ?m1)))" by (rule grows_trans)
    with False show ?thesis by simp
  qed
qed

lemma Start_assets_grows:
  "grows (snd nm) (snd (Start_assets clk e r w as nm))"
proof (induction as arbitrary: nm)
  case Nil
  then show ?case by simp
next
  case (Cons a as)
  obtain n m where nm: "nm = (n, m)" by (cases nm)
  obtain ps er where g: "GetEnabledPairs e a = (ps, er)" by (cases "GetEnabledPairs e a")
  show ?case
  proof (cases "IsAssetEnabled e a \<noteq> None \<or> er \<noteq> None")
    case True
    with Cons.IH [of nm] g show ?thesis by (auto split: option.splits)
  next
    case False
    let ?nm1 = "Start_pairs clk (GetName e) a r w (IsAssetWebsocketSupported e a) ps (n, m)"
    have "grows m (snd ?nm1)" by (rule Start_pairs_grows)
    moreover have "grows (snd ?nm1) (snd (Start_assets clk e r w as ?nm1))" by (rule Cons.IH)
    ultimately have "grows m (snd (Start_assets clk e r w as ?nm1))" by (rule grows_trans)
    with False g nm show ?thesis by simp
  qed
qed

lemma Start_exchanges_grows:
  "grows (snd nm) (snd (Start_exchanges clk es nm))"
proof (induction es arbitrary: nm)
  case Nil
  then show ?case by simp
next
  case (Cons e es)
  obtain n m where nm: "nm = (n, m)" by (cases nm)
  show ?case
  proof (cases "\<not> SupportsREST e \<and> \<not> SupportsWebsocket e")
    case True
    with Cons.IH [of nm] nm show ?thesis by simp
  next
    case False
    let ?w = "websocketRoutineManagerEnabled m \<and> SupportsWebsocket e \<and> IsWebsocketEnabled e"
    let ?nm1 = "Start_assets clk e (\<not> ?w \<and> SupportsREST e) ?w (GetAssetTypes e False) (n, m)"
    have "grows m (snd ?nm1)" using Start_assets_grows [of "(n, m)"] by simp
    moreover have "grows (snd ?nm1) (snd (Start_exchanges clk es ?nm1))" by (rule Cons.IH)
    ultimately have "grows m (snd (Start_exchanges clk es ?nm1))" by (rule grows_trans)
    with False nm show ?thesis by (auto simp add: Let_def)
  qed
qed

lemma Start_enumerate_grows:
  assumes "Start_enumerate clk em n (Some m) = Inr (err, Some m', n')"
  shows "grows m m'"
proof -
  have ex: "\<And>wg ins es n2 m2. Start_exchanges clk es (n, m\<lparr>started := 1, initSyncWG := wg, inService := ins\<rparr>) = (n2, m2)
      \<Longrightarrow> grows m m2"
  proof -
    fix wg ins es n2 m2
    assume h: "Start_exchanges clk es (n, m\<lparr>started := 1, initSyncWG := wg, inService := ins\<rparr>) = (n2, m2)"
    have "grows m (m\<lparr>started := 1, initSyncWG := wg, inService := ins\<rparr>)" by (rule grows_same) simp
    moreover from Start_exchanges_grows [of "(n, m\<lparr>started := 1, initSyncWG := wg, inService := ins\<rparr>)" clk es] h
    have "grows (m\<lparr>started := 1, initSyncWG := wg, inService := ins\<rparr>) m2" by simp
    ultimately show "grows m m2" by (rule grows_trans)
  qed
  have up: "\<And>m2 v t. grows m m2 \<Longrightarrow> grows m (m2\<lparr>initSyncStarted := v, initSyncStartTime := t\<rparr>)"
    by (simp add: grows_def)
  have base: "\<And>wg ins. grows m (m\<lparr>started := 1, initSyncWG := wg, inService := ins\<rparr>)"
    by (simp add: grows_def)
  from assms show ?thesis
    using ex up base
    by (auto simp add: Start_enumerate_def Let_def
        split: if_splits sum.splits option.splits prod.splits)
qed

lemma Start_grows:
  assumes "Start clk em n (Some m) = Inr (err, Some m', n', gs)"
  shows "grows m m'"
proof -
  from assms(1) obtain er1 mp1 n1 where en: "Start_enumerate clk em n (Some m) = Inr (er1, mp1, n1)"
    by (auto simp add: Start_def split: sum.splits)
  show ?thesis
  proof (cases er1)
    case (Some x)
    with assms(1) en have "Start_enumerate clk em n (Some m) = Inr (er1, Some m', n1)"
      by (simp add: Start_def)
    from Start_enumerate_grows [OF this] show ?thesis .
  next
    case None
    with assms(1) en obtain m1 where mp1: "mp1 = Some m1"
      by (cases mp1) (simp_all add: Start_def)
    from Start_enumerate_grows [OF en [unfolded mp1]] have i1: "grows m m1" .
    from assms(1) en None mp1 have "currencyPairs m' = currencyPairs m1"
      by (auto simp add: Start_def Start_spawn_def split: sum.splits if_splits)
    then have "grows m1 m'" by (rule grows_same)
    with i1 show ?thesis by (rule grows_trans)
  qed
qed

lemma markProcessing_grows: "grows (mgr s) (mgr (markProcessing ty v s))"
  by (simp add: markProcessing_def Let_def setProcessing_grows)

lemma assign_grows:
  assumes f: "\<And>u. stays u (f u)"
  shows "grows (mgr s) (mgr (assign f s))"
proof (cases "c s")
  case (InRegistry x)
  have "grows (mgr s) ((mgr s)\<lparr>currencyPairs := (currencyPairs (mgr s))[x := f (currencyPairs (mgr s) ! x)]\<rparr>)"
    by (rule grows_list_update [where x = x and v = "f (currencyPairs (mgr s) ! x)"]) (simp_all add: f)
  with InRegistry show ?thesis by (simp add: assign_def)
next
  case (Fresh u)
  then show ?thesis by (simp add: assign_def)
qed

lemma demote_orderbook_grows: "grows (mgr s) (mgr (demote_orderbook s))"
proof -
  let ?s1 = "markProcessing SyncItemOrderbook True s"
  let ?s2 = "assign (\<lambda>v. v\<lparr>Orderbook := (Orderbook v)\<lparr>IsUsingWebsocket := False\<rparr>\<rparr>) ?s1"
  let ?s3 = "assign (\<lambda>v. v\<lparr>Orderbook := (Orderbook v)\<lparr>IsUsingREST := True\<rparr>\<rparr>) ?s2"
  have 1: "grows (mgr s) (mgr ?s1)" by (rule markProcessing_grows)
  have 2: "grows (mgr ?s1) (mgr ?s2)" by (rule assign_grows) (simp add: stays_def)
  have 3: "grows (mgr ?s2) (mgr ?s3)" by (rule assign_grows) (simp add: stays_def)
  have 4: "grows (mgr ?s3) (mgr (markProcessing SyncItemOrderbook False (?s3\<lparr>switchedToRest := True\<rparr>)))"
    using markProcessing_grows [of "?s3\<lparr>switchedToRest := True\<rparr>" SyncItemOrderbook False] by simp
  from 1 2 have "grows (mgr s) (mgr ?s2)" by (rule grows_trans)
  from this 3 have "grows (mgr s) (mgr ?s3)" by (rule grows_trans)
  from this 4 show ?thesis unfolding demote_orderbook_def Let_def by (rule grows_trans)
qed

lemma demote_ticker_grows: "grows (mgr s) (mgr (demote_ticker s))"
proof -
  let ?s1 = "markProcessing SyncItemTicker True s"
  let ?s2 = "assign (\<lambda>v. v\<lparr>Ticker := (Ticker v)\<lparr>IsUsingWebsocket := False\<rparr>\<rparr>) ?s1"
  let ?s3 = "assign (\<lambda>v. v\<lparr>Ticker := (Ticker v)\<lparr>IsUsingREST := True\<rparr>\<rparr>) ?s2"
  have 1: "grows (mgr s) (mgr ?s1)" by (rule markProcessing_grows)
  have 2: "grows (mgr ?s1) (mgr ?s2)" by (rule assign_grows) (simp add: stays_def)
  have 3: "grows (mgr ?s2) (mgr ?s3)" by (rule assign_grows) (simp add: stays_def)
  have 4: "grows (mgr ?s3) (mgr (markProcessing SyncItemTicker False (?s3\<lparr>switchedToRest := True\<rparr>)))"
    using markProcessing_grows [of "?s3\<lparr>switchedToRest := True\<rparr>" SyncItemTicker False] by simp
  from 1 2 have "grows (mgr s) (mgr ?s2)" by (rule grows_trans)
  from this 3 have "grows (mgr s) (mgr ?s3)" by (rule grows_trans)
  from this 4 show ?thesis unfolding demote_ticker_def Let_def by (rule grows_trans)
qed

lemma report_grows: "report clk ty err s = Inr s' \<Longrightarrow> grows (mgr s) (mgr s')"
  by (auto simp add: report_def Let_def Update_grows split: sum.splits option.splits)

lemma request_ticker_grows: "request_ticker clk e s = (r, s') \<Longrightarrow> grows (mgr s) (mgr s')"
  by (auto simp add: request_ticker_def tickerBatch_read_def tickerBatch_stale_def
      tickerBatch_request_def Let_def grows_def split: option.splits if_splits prod.splits)

lemma fetch_orderbook_grows:
  assumes "fetch_orderbook clk e s = Inr s'"
  shows "grows (mgr s) (mgr s')"
proof -
  let ?s1 = "markProcessing SyncItemOrderbook True s"
  obtain result err where u: "UpdateOrderbook e (Pair' (deref ?s1)) (AssetType (deref ?s1)) = (result, err)"
    by (cases "UpdateOrderbook e (Pair' (deref ?s1)) (AssetType (deref ?s1))")
  let ?s2 = "?s1\<lparr>calls := calls ?s1 @ [CallUpdateOrderbook (GetName e) (Pair' (deref ?s1)) (AssetType (deref ?s1))]\<rparr>"
  from assms u have "report clk SyncItemOrderbook err ?s2 = Inr s'"
    by (simp add: fetch_orderbook_def Let_def split: sum.splits)
  from report_grows [OF this] have "grows (mgr ?s1) (mgr s')" by simp
  with markProcessing_grows [of s SyncItemOrderbook True] show ?thesis by (rule grows_trans)
qed

lemma fetch_ticker_grows:
  assumes "fetch_ticker clk e s = Inr s'"
  shows "grows (mgr s) (mgr s')"
proof (cases "IsUsingREST (Ticker (deref s))")
  case False
  with assms show ?thesis by (simp add: fetch_ticker_def)
next
  case True
  let ?s1 = "markProcessing SyncItemTicker True s"
  obtain result err s2 where r: "request_ticker clk e ?s1 = ((result, err), s2)"
    by (cases "request_ticker clk e ?s1") auto
  from assms True r have "report clk SyncItemTicker err s2 = Inr s'"
    by (simp add: fetch_ticker_def split: sum.splits)
  from request_ticker_grows [OF r] report_grows [OF this] have "grows (mgr ?s1) (mgr s')"
    by (rule grows_trans)
  with markProcessing_grows [of s SyncItemTicker True] show ?thesis by (rule grows_trans)
qed

lemma worker_orderbook_grows:
  assumes "worker_orderbook clk e s = Inr (fl, s')"
  shows "grows (mgr s) (mgr s')"
proof -
  have dm: "\<And>k. grows (mgr s) (mgr (demote_orderbook (s\<lparr>ticks := k\<rparr>)))"
    using demote_orderbook_grows [of "s\<lparr>ticks := k\<rparr>" for k] by simp
  have f: "\<And>t t'. fetch_orderbook clk e t = Inr t' \<Longrightarrow> grows (mgr s) (mgr t) \<Longrightarrow> grows (mgr s) (mgr t')"
    using fetch_orderbook_grows grows_trans by blast
  from assms(1) show ?thesis
    using dm f
    by (auto simp add: worker_orderbook_def split: if_splits prod.splits sum.splits)
qed

lemma worker_ticker_grows:
  assumes "worker_ticker clk e s = Inr (fl, s')"
  shows "grows (mgr s) (mgr s')"
proof -
  have dm: "\<And>k. grows (mgr s) (mgr (demote_ticker (s\<lparr>ticks := k\<rparr>)))"
    using demote_ticker_grows [of "s\<lparr>ticks := k\<rparr>" for k] by simp
  have f: "\<And>t t'. fetch_ticker clk e t = Inr t' \<Longrightarrow> grows (mgr s) (mgr t) \<Longrightarrow> grows (mgr s) (mgr t')"
    using fetch_ticker_grows grows_trans by blast
  from assms(1) show ?thesis
    using dm f
    by (auto simp add: worker_ticker_def split: if_splits prod.splits sum.splits)
qed

lemma worker_trade_grows:
  assumes "worker_trade clk e s = Inr (fl, s')"
  shows "grows (mgr s) (mgr s')"
proof -
  have R: "\<And>t. report clk SyncItemTrade None (markProcessing SyncItemTrade True t) = Inr s'
      \<Longrightarrow> grows (mgr t) (mgr s')"
  proof -
    fix t
    assume "report clk SyncItemTrade None (markProcessing SyncItemTrade True t) = Inr s'"
    from markProcessing_grows report_grows [OF this] show "grows (mgr t) (mgr s')" by (rule grows_trans)
  qed
  from assms(1) consider "mgr s' = mgr s"
    | "report clk SyncItemTrade None (markProcessing SyncItemTrade True s) = Inr s'"
    | "report clk SyncItemTrade None (markProcessing SyncItemTrade True (s\<lparr>ticks := Suc (ticks s)\<rparr>)) = Inr s'"
    by (auto simp add: worker_trade_def split: if_splits sum.splits)
  then show ?thesis
  proof cases
    case 1
    then show ?thesis by simp
  next
    case 2
    from R [OF 2] show ?thesis .
  next
    case 3
    from R [OF 3] show ?thesis by simp
  qed
qed

lemma worker_lookup_grows:
  assumes "worker_lookup clk e r w a p s = Inr (fl, s')"
  shows "grows (mgr s) (mgr s')"
proof -
  from worker_lookup_registry [OF assms] have "mgr s' = mgr s" by auto
  then show ?thesis by simp
qed

lemma worker_pair_grows:
  assumes "worker_pair clk e r w a p s = Inr (fl, s')"
  shows "grows (mgr s) (mgr s')"
proof (cases "started (mgr s) = 0")
  case True
  with assms show ?thesis by (simp add: worker_pair_def)
next
  case False
  from assms(1) False obtain f1 s1 where l: "worker_lookup clk e r w a p s = Inr (f1, s1)"
    by (auto simp add: worker_pair_def split: sum.splits)
  from worker_lookup_grows [OF l] have i1: "grows (mgr s) (mgr s1)" .
  show ?thesis
  proof (cases f1)
    case Next
    let ?s2 = "if switchedToRest s1 \<and> w then s1\<lparr>switchedToRest := False\<rparr> else s1"
    have i2: "grows (mgr s) (mgr ?s2)" using i1 by simp
    from assms(1) False l Next obtain f3 s3 where o: "worker_orderbook clk e ?s2 = Inr (f3, s3)"
      by (auto simp add: worker_pair_def Let_def split: sum.splits)
    from i2 worker_orderbook_grows [OF o] have i3: "grows (mgr s) (mgr s3)" by (rule grows_trans)
    show ?thesis
    proof (cases f3)
      case Next3: Next
      from assms(1) False l Next o Next3 obtain f4 s4 where t: "worker_ticker clk e s3 = Inr (f4, s4)"
        by (auto simp add: worker_pair_def Let_def split: sum.splits)
      from i3 worker_ticker_grows [OF t] have i4: "grows (mgr s) (mgr s4)" by (rule grows_trans)
      show ?thesis
      proof (cases f4)
        case Next4: Next
        from assms(1) False l Next o Next3 t Next4 have "worker_trade clk e s4 = Inr (fl, s')"
          by (simp add: worker_pair_def Let_def)
        from i4 worker_trade_grows [OF this] show ?thesis by (rule grows_trans)
      next
        case Continue
        with assms(1) False l Next o Next3 t i4 show ?thesis
          by (simp add: worker_pair_def Let_def)
      next
        case Return
        with assms(1) False l Next o Next3 t i4 show ?thesis
          by (simp add: worker_pair_def Let_def)
      qed
    next
      case Continue
      with assms(1) False l Next o i3 show ?thesis by (simp add: worker_pair_def Let_def)
    next
      case Return
      with assms(1) False l Next o i3 show ?thesis by (simp add: worker_pair_def Let_def)
    qed
  next
    case Continue
    with assms(1) False l i1 show ?thesis by (simp add: worker_pair_def)
  next
    case Return
    with assms(1) False l i1 show ?thesis by (simp add: worker_pair_def)
  qed
qed

lemma later_grows: "later m m' \<Longrightarrow> grows m m'"
proof (induction rule: later.induct)
  case (later_refl m)
  show ?case by simp
next
  case (later_Start m m1 clk em n err m2 n' gs)
  from later_Start.IH Start_grows [OF later_Start.hyps(2)] show ?case by (rule grows_trans)
next
  case (later_Stop m m1 err m2)
  from later_Stop.IH Stop_grows [OF later_Stop.hyps(2)] show ?case by (rule grows_trans)
next
  case (later_monitor m m1 m2)
  from later_monitor.IH monitor_grows [OF later_monitor.hyps(2)] show ?case by (rule grows_trans)
next
  case (later_Update m m1 exchangeName p a syncType er now err m2)
  from later_Update.IH Update_grows [OF later_Update.hyps(2)] show ?case by (rule grows_trans)
next
  case (later_worker m s clk e usingREST usingWebsocket a p fl s')
  from later_worker.IH worker_pair_grows [OF later_worker.hyps(2)] show ?case by (rule grows_trans)
next
  case (later_add m m1 now u)
  from later_add.IH add_grows show ?case by (rule grows_trans)
next
  case (later_setProcessing m m1 exchangeName p a syncType processing)
  from later_setProcessing.IH setProcessing_grows show ?case by (rule grows_trans)
next
  case (later_counters m m1 removed created)
  have "grows m1 (m1\<lparr>createdCounter := created, removedCounter := removed\<rparr>)" by (rule grows_same) simp
  with later_counters.IH show ?case by (rule grows_trans)
qed

lemma scan_stays:
  assumes "scan e p a x0 us = Some x" and "length us \<le> length vs"
    and "\<forall>i < length us. stays (us ! i) (vs ! i)"
  shows "scan e p a x0 vs = Some x"
  using assms
proof (induction us arbitrary: vs x0)
  case Nil
  then show ?case by simp
next
  case (Cons u us)
  from Cons.prems(2) obtain v vs' where vs: "vs = v # vs'" by (cases vs) simp_all
  from Cons.prems(3) vs have h: "stays u v" by auto
  then have k: "sameKey e p a v = sameKey e p a u" by (simp add: stays_def sameKey_def)
  have r: "\<forall>i < length us. stays (us ! i) (vs' ! i)"
  proof (intro allI impI)
    fix i assume "i < length us"
    then have "Suc i < length (u # us)" by simp
    with Cons.prems(3) have "stays ((u # us) ! Suc i) (vs ! Suc i)" by blast
    with vs show "stays (us ! i) (vs' ! i)" by simp
  qed
  from Cons.prems(2) vs have len: "length us \<le> length vs'" by simp
  show ?case
  proof (cases "sameKey e p a u")
    case True
    with Cons.prems(1) k vs show ?thesis by simp
  next
    case False
    with Cons.prems(1) have "scan e p a (Suc x0) us = Some x" by simp
    from Cons.IH [OF this len r] have "scan e p a (Suc x0) vs' = Some x" .
    with False k vs show ?thesis by simp
  qed
qed

lemma grows_scan:
  "grows m m' \<Longrightarrow> scan e p a 0 (currencyPairs m) = Some x \<Longrightarrow> scan e p a 0 (currencyPairs m') = Some x"
  using scan_stays [of e p a 0 "currencyPairs m" x "currencyPairs m'"] by (simp add: grows_def)

lemma stays_HaveData: "stays u u' \<Longrightarrow> HaveData (streamOf k u) \<Longrightarrow> HaveData (streamOf k u')"
  by (simp add: stays_def streamOf_def split: if_splits)

lemma stays_sameKey: "stays u u' \<Longrightarrow> sameKey (Exchange u) (Pair' u) (AssetType u) u'"
  by (simp add: stays_def sameKey_def)

lemma grows_nth: "grows m m' \<Longrightarrow> i < length (currencyPairs m) \<Longrightarrow>
    i < length (currencyPairs m') \<and> stays (currencyPairs m ! i) (currencyPairs m' ! i)"
  by (simp add: grows_def)

lemma Update_counts_kept:
  assumes sc: "scan e p a 0 (currencyPairs m) = Some x"
    and hd: "HaveData (streamOf ty (currencyPairs m ! x))"
    and kn: "knownItem ty"
  shows "\<exists>r m'. Update e p a ty err now (Some m) = Inr (r, Some m')
     \<and> r = (if started m = 0 then Some (Wrapped ErrSubSystemNotStarted) else None)
     \<and> createdCounter m' = createdCounter m \<and> removedCounter m' = removedCounter m
     \<and> initSyncWG m' = initSyncWG m"
proof (cases "started m \<noteq> 0 \<and> initSyncStarted m = 1 \<and> enabledItem (config m) ty")
  case False
  with kn show ?thesis
    by (auto simp add: Update_def knownItem_def enabledItem_def)
next
  case True
  then have st: "started m \<noteq> 0" and ar: "initSyncStarted m = 1" and en: "enabledItem (config m) ty"
    by simp_all
  from Update_seen [OF hd st ar en sc, of err now] st show ?thesis by auto
qed

subsection \<open>The claim\<close>

text \<open>
  C2, as the code has it: for a registered unit and an enabled stream on a manager whose
  barrier is armed, an \<open>Update\<close> that returns nil never changes \<open>createdCounter\<close>;
  it counts one removal and releases one unit of the barrier when the stream had no data
  and the initial synchronisation has not completed, and leaves \<open>removedCounter\<close> and
  the barrier as they were when the stream had data or the initial synchronisation has
  completed; the stream has data afterwards, and the next \<open>Update\<close> of the same
  stream returns nil with the three counts unchanged. In every state the manager is
  in later on, whatever \<open>Start\<close>, \<open>Stop\<close>, the monitor, \<open>Update\<close>, the worker,
  \<open>add\<close> and \<open>setProcessing\<close> have done in between, \<open>get\<close> finds the unit
  at the same index, the stream has data, and an \<open>Update\<close> of the same stream
  returns, with nil when the manager is started and with the wrapped
  \<open>ErrSubSystemNotStarted\<close> when it is stopped, leaving \<open>createdCounter\<close>,
  \<open>removedCounter\<close> and the barrier as it found them. No stream of any unit loses
  \<open>HaveData\<close> under any of these operations, and the unit keeps its place and key.
\<close>

theorem Update_barrier_once:
  assumes upd: "Update e p a ty err now (Some (m :: ('p, 'a) syncManager)) = Inr (None, Some m')"
    and armed: "initSyncStarted m = 1"
    and en: "enabledItem (config m) ty"
    and reg: "get m e p a = (Some x, None)"
  shows "createdCounter m' = createdCounter m
     \<and> (\<not> HaveData (streamOf ty (currencyPairs m ! x)) \<and> initSyncCompleted m \<noteq> 1 \<longrightarrow>
          removedCounter m' = removedCounter m + 1 \<and> initSyncWG m' = initSyncWG m - 1)
     \<and> (HaveData (streamOf ty (currencyPairs m ! x)) \<or> initSyncCompleted m = 1 \<longrightarrow>
          removedCounter m' = removedCounter m \<and> initSyncWG m' = initSyncWG m)
     \<and> HaveData (streamOf ty (currencyPairs m' ! x))
     \<and> (\<forall>i k. i < length (currencyPairs m) \<and> HaveData (streamOf k (currencyPairs m ! i)) \<longrightarrow>
          HaveData (streamOf k (currencyPairs m' ! i)))
     \<and> (\<forall>err2 now2. \<exists>m''. Update e p a ty err2 now2 (Some m') = Inr (None, Some m'')
          \<and> createdCounter m'' = createdCounter m' \<and> removedCounter m'' = removedCounter m'
          \<and> initSyncWG m'' = initSyncWG m')
     \<and> (\<forall>e2 p2 a2 ty2 v i k. i < length (currencyPairs m) \<longrightarrow>
          HaveData (streamOf k (currencyPairs (setProcessing e2 p2 a2 ty2 v m) ! i))
            = HaveData (streamOf k (currencyPairs m ! i)))
     \<and> (\<forall>t c i. i < length (currencyPairs m) \<longrightarrow>
          currencyPairs (snd (add t c m)) ! i = currencyPairs m ! i)
     \<and> (\<forall>m2. later m' m2 \<longrightarrow>
          get m2 e p a = (Some x, None)
          \<and> HaveData (streamOf ty (currencyPairs m2 ! x))
          \<and> (\<forall>err2 now2. \<exists>r m3. Update e p a ty err2 now2 (Some m2) = Inr (r, Some m3)
                \<and> r = (if started m2 = 0 then Some (Wrapped ErrSubSystemNotStarted) else None)
                \<and> createdCounter m3 = createdCounter m2 \<and> removedCounter m3 = removedCounter m2
                \<and> initSyncWG m3 = initSyncWG m2 \<and> later m' m3))
     \<and> (\<forall>(m1 :: ('p, 'a) syncManager) m2 i k. later m1 m2 \<and> i < length (currencyPairs m1)
            \<and> HaveData (streamOf k (currencyPairs m1 ! i)) \<longrightarrow>
          i < length (currencyPairs m2)
          \<and> sameKey (Exchange (currencyPairs m1 ! i)) (Pair' (currencyPairs m1 ! i))
               (AssetType (currencyPairs m1 ! i)) (currencyPairs m2 ! i)
          \<and> HaveData (streamOf k (currencyPairs m2 ! i)))"
proof -
  let ?u = "currencyPairs m ! x"
  let ?b = "finalise err now (streamOf ty ?u)"
  let ?us = "(currencyPairs m)[x := withStream ty ?b ?u]"
  from reg have sc: "scan e p a 0 (currencyPairs m) = Some x"
    by (simp add: get_scan)
  then have x: "x < length (currencyPairs m)" by (simp add: scan_Some0)
  from upd have st: "started m \<noteq> 0" by (rule Update_started)
  from upd Update_hit [OF st armed en sc]
  have "release (HaveData (streamOf ty ?u)) (m\<lparr>currencyPairs := ?us\<rparr>) = Inr (None, Some m')"
    by simp
  from release_Inr [OF this]
  have cp: "currencyPairs m' = ?us" and cf: "config m' = config m"
    and st': "started m' = started m" and ar': "initSyncStarted m' = initSyncStarted m"
    and cc: "createdCounter m' = createdCounter m"
    and rc: "removedCounter m' = removedCounter m
        + (if initSyncCompleted m \<noteq> 1 \<and> \<not> HaveData (streamOf ty ?u) then 1 else 0)"
    and wg: "initSyncWG m' = initSyncWG m
        - (if initSyncCompleted m \<noteq> 1 \<and> \<not> HaveData (streamOf ty ?u) then 1 else 0)"
    by auto
  have hb: "HaveData ?b" by (simp add: finalise_def)
  have hd: "HaveData (streamOf ty (currencyPairs m' ! x))"
    using x cp hb by simp
  have mono: "\<forall>i k. i < length (currencyPairs m) \<and> HaveData (streamOf k (currencyPairs m ! i)) \<longrightarrow>
          HaveData (streamOf k (currencyPairs m' ! i))"
    using hb cp by (simp add: HaveData_list_update)
  have "scan e p a 0 ?us = scan e p a 0 (currencyPairs m)"
    by (rule scan_list_update) simp
  with sc cp have sc': "scan e p a 0 (currencyPairs m') = Some x" by simp
  then have x': "x < length (currencyPairs m')" by (simp add: scan_Some0)
  have next_one: "\<forall>err2 now2. \<exists>m''. Update e p a ty err2 now2 (Some m') = Inr (None, Some m'')
          \<and> createdCounter m'' = createdCounter m' \<and> removedCounter m'' = removedCounter m'
          \<and> initSyncWG m'' = initSyncWG m'"
    using Update_seen [OF hd _ _ _ sc'] st st' ar' armed cf en by simp
  from en have kn: "knownItem ty" by (auto simp add: enabledItem_def knownItem_def)
  have every: "\<forall>m2. later m' m2 \<longrightarrow>
          get m2 e p a = (Some x, None)
          \<and> HaveData (streamOf ty (currencyPairs m2 ! x))
          \<and> (\<forall>err2 now2. \<exists>r m3. Update e p a ty err2 now2 (Some m2) = Inr (r, Some m3)
                \<and> r = (if started m2 = 0 then Some (Wrapped ErrSubSystemNotStarted) else None)
                \<and> createdCounter m3 = createdCounter m2 \<and> removedCounter m3 = removedCounter m2
                \<and> initSyncWG m3 = initSyncWG m2 \<and> later m' m3)"
  proof (intro allI impI)
    fix m2
    assume l: "later m' m2"
    then have g: "grows m' m2" by (rule later_grows)
    from grows_scan [OF g sc'] have sc2: "scan e p a 0 (currencyPairs m2) = Some x" .
    then have g2: "get m2 e p a = (Some x, None)" by (simp add: get_def)
    from grows_nth [OF g x'] have "stays (currencyPairs m' ! x) (currencyPairs m2 ! x)" by simp
    from stays_HaveData [OF this hd] have hd2: "HaveData (streamOf ty (currencyPairs m2 ! x))" .
    have "\<exists>r m3. Update e p a ty err2 now2 (Some m2) = Inr (r, Some m3)
                \<and> r = (if started m2 = 0 then Some (Wrapped ErrSubSystemNotStarted) else None)
                \<and> createdCounter m3 = createdCounter m2 \<and> removedCounter m3 = removedCounter m2
                \<and> initSyncWG m3 = initSyncWG m2 \<and> later m' m3" for err2 now2
    proof -
      from Update_counts_kept [OF sc2 hd2 kn, of err2 now2]
      obtain r m3 where u: "Update e p a ty err2 now2 (Some m2) = Inr (r, Some m3)"
        and rest: "r = (if started m2 = 0 then Some (Wrapped ErrSubSystemNotStarted) else None)"
          "createdCounter m3 = createdCounter m2"
          "removedCounter m3 = removedCounter m2" "initSyncWG m3 = initSyncWG m2" by blast
      from l u have "later m' m3" by (rule later_Update)
      with u rest show ?thesis by blast
    qed
    with g2 hd2 show "get m2 e p a = (Some x, None)
          \<and> HaveData (streamOf ty (currencyPairs m2 ! x))
          \<and> (\<forall>err2 now2. \<exists>r m3. Update e p a ty err2 now2 (Some m2) = Inr (r, Some m3)
                \<and> r = (if started m2 = 0 then Some (Wrapped ErrSubSystemNotStarted) else None)
                \<and> createdCounter m3 = createdCounter m2 \<and> removedCounter m3 = removedCounter m2
                \<and> initSyncWG m3 = initSyncWG m2 \<and> later m' m3)" by blast
  qed
  have never: "\<forall>(m1 :: ('p, 'a) syncManager) m2 i k. later m1 m2 \<and> i < length (currencyPairs m1)
            \<and> HaveData (streamOf k (currencyPairs m1 ! i)) \<longrightarrow>
          i < length (currencyPairs m2)
          \<and> sameKey (Exchange (currencyPairs m1 ! i)) (Pair' (currencyPairs m1 ! i))
               (AssetType (currencyPairs m1 ! i)) (currencyPairs m2 ! i)
          \<and> HaveData (streamOf k (currencyPairs m2 ! i))"
  proof (intro allI impI)
    fix m1 m2 :: "('p, 'a) syncManager" and i k
    assume h: "later m1 m2 \<and> i < length (currencyPairs m1)
            \<and> HaveData (streamOf k (currencyPairs m1 ! i))"
    then have "grows m1 m2" by (simp add: later_grows)
    from grows_nth [OF this] h have i2: "i < length (currencyPairs m2)"
      and s: "stays (currencyPairs m1 ! i) (currencyPairs m2 ! i)" by simp_all
    from i2 stays_sameKey [OF s] stays_HaveData [OF s] h
    show "i < length (currencyPairs m2)
          \<and> sameKey (Exchange (currencyPairs m1 ! i)) (Pair' (currencyPairs m1 ! i))
               (AssetType (currencyPairs m1 ! i)) (currencyPairs m2 ! i)
          \<and> HaveData (streamOf k (currencyPairs m2 ! i))" by simp
  qed
  have first: "createdCounter m' = createdCounter m
     \<and> (\<not> HaveData (streamOf ty (currencyPairs m ! x)) \<and> initSyncCompleted m \<noteq> 1 \<longrightarrow>
          removedCounter m' = removedCounter m + 1 \<and> initSyncWG m' = initSyncWG m - 1)
     \<and> (HaveData (streamOf ty (currencyPairs m ! x)) \<or> initSyncCompleted m = 1 \<longrightarrow>
          removedCounter m' = removedCounter m \<and> initSyncWG m' = initSyncWG m)"
    using cc rc wg by simp
  have regs: "(\<forall>e2 p2 a2 ty2 v i k. i < length (currencyPairs m) \<longrightarrow>
          HaveData (streamOf k (currencyPairs (setProcessing e2 p2 a2 ty2 v m) ! i))
            = HaveData (streamOf k (currencyPairs m ! i)))
     \<and> (\<forall>t c i. i < length (currencyPairs m) \<longrightarrow>
          currencyPairs (snd (add t c m)) ! i = currencyPairs m ! i)"
    by (simp add: setProcessing_HaveData add_keeps nth_append)
  from first hd mono next_one regs every never show ?thesis by blast
qed

theorem Update_barrier_once_witness:
  "Update ''X'' ''BTC-USD'' ''spot'' SyncItemTicker None 100 (Some mgr0)
     = Inr (None, Some (mgr0\<lparr>currencyPairs :=
          [unit0\<lparr>Ticker := restBase\<lparr>LastUpdated := 100, HaveData := True\<rparr>\<rparr>],
          removedCounter := 1, initSyncWG := 2\<rparr>))
   \<and> \<not> HaveData (streamOf SyncItemTicker (currencyPairs mgr0 ! 0))
   \<and> initSyncCompleted mgr0 \<noteq> 1
   \<and> removedCounter (mgr0\<lparr>currencyPairs :=
          [unit0\<lparr>Ticker := restBase\<lparr>LastUpdated := 100, HaveData := True\<rparr>\<rparr>],
          removedCounter := 1, initSyncWG := 2\<rparr>) = removedCounter mgr0 + 1
   \<and> initSyncWG (mgr0\<lparr>currencyPairs :=
          [unit0\<lparr>Ticker := restBase\<lparr>LastUpdated := 100, HaveData := True\<rparr>\<rparr>],
          removedCounter := 1, initSyncWG := 2\<rparr>) = initSyncWG mgr0 - 1
   \<and> HaveData (streamOf SyncItemTicker (currencyPairs (mgr0\<lparr>currencyPairs :=
          [unit0\<lparr>Ticker := restBase\<lparr>LastUpdated := 100, HaveData := True\<rparr>\<rparr>],
          removedCounter := 1, initSyncWG := 2\<rparr>) ! 0))
   \<and> Stop (Some (mgr0\<lparr>currencyPairs :=
          [unit0\<lparr>Ticker := restBase\<lparr>LastUpdated := 100, HaveData := True\<rparr>\<rparr>],
          removedCounter := 1, initSyncWG := 2\<rparr>))
       = Inr (None, Some (mgr0\<lparr>currencyPairs :=
          [unit0\<lparr>Ticker := restBase\<lparr>LastUpdated := 100, HaveData := True\<rparr>\<rparr>],
          removedCounter := 1, initSyncWG := 2, started := 0, inService := 1\<rparr>))
   \<and> get (mgr0\<lparr>currencyPairs :=
          [unit0\<lparr>Ticker := restBase\<lparr>LastUpdated := 100, HaveData := True\<rparr>\<rparr>],
          removedCounter := 1, initSyncWG := 2, started := 0, inService := 1\<rparr>) ''X'' ''BTC-USD'' ''spot''
       = (Some 0, None)
   \<and> (\<exists>m3. Update ''X'' ''BTC-USD'' ''spot'' SyncItemTicker None 200 (Some (mgr0\<lparr>currencyPairs :=
          [unit0\<lparr>Ticker := restBase\<lparr>LastUpdated := 100, HaveData := True\<rparr>\<rparr>],
          removedCounter := 1, initSyncWG := 2, started := 0, inService := 1\<rparr>))
         = Inr (Some (Wrapped ErrSubSystemNotStarted), Some m3)
       \<and> removedCounter m3 = 1 \<and> initSyncWG m3 = 2 \<and> createdCounter m3 = 3)"
proof -
  let ?m' = "mgr0\<lparr>currencyPairs :=
          [unit0\<lparr>Ticker := restBase\<lparr>LastUpdated := 100, HaveData := True\<rparr>\<rparr>],
          removedCounter := 1, initSyncWG := 2\<rparr>"
  let ?m2 = "mgr0\<lparr>currencyPairs :=
          [unit0\<lparr>Ticker := restBase\<lparr>LastUpdated := 100, HaveData := True\<rparr>\<rparr>],
          removedCounter := 1, initSyncWG := 2, started := 0, inService := 1\<rparr>"
  have h1: "Update ''X'' ''BTC-USD'' ''spot'' SyncItemTicker None 100 (Some mgr0) = Inr (None, Some ?m')"
    by (simp add: Update_def mgr0_def unit0_def cfg0_def restBase_def syncBase0_def sameKey_def
        SyncItemOrderbook_def SyncItemTicker_def SyncItemTrade_def release_def finalise_def
        WaitGroup_Done_def WaitGroup_Add_def)
  have h2: "initSyncStarted mgr0 = 1" by (simp add: mgr0_def)
  have h3: "enabledItem (config mgr0) SyncItemTicker"
    by (simp add: mgr0_def cfg0_def enabledItem_def)
  have h4: "get mgr0 ''X'' ''BTC-USD'' ''spot'' = (Some 0, None)"
    by (simp add: get_def mgr0_def unit0_def sameKey_def)
  have h5: "\<not> HaveData (streamOf SyncItemTicker (currencyPairs mgr0 ! 0))"
    by (simp add: mgr0_def unit0_def restBase_def syncBase0_def streamOf_def)
  have h6: "initSyncCompleted mgr0 \<noteq> 1" by (simp add: mgr0_def)
  have h7: "Stop (Some ?m') = Inr (None, Some ?m2)"
    by (simp add: Stop_def mgr0_def WaitGroup_Add_def)
  have "later ?m' ?m'" by (rule later_refl)
  then have h8: "later ?m' ?m2" using h7 by (rule later_Stop)
  have h9: "started ?m2 = 0" "removedCounter ?m2 = 1" "initSyncWG ?m2 = 2" "createdCounter ?m2 = 3"
    by (simp_all add: mgr0_def)
  note T = Update_barrier_once [OF h1 h2 h3 h4]
  from T have a: "removedCounter ?m' = removedCounter mgr0 + 1 \<and> initSyncWG ?m' = initSyncWG mgr0 - 1"
    using h5 h6 by blast
  from T have b: "HaveData (streamOf SyncItemTicker (currencyPairs ?m' ! 0))" by blast
  from T h8 have c1: "get ?m2 ''X'' ''BTC-USD'' ''spot'' = (Some 0, None)" by blast
  from T h8 have "\<exists>r m3. Update ''X'' ''BTC-USD'' ''spot'' SyncItemTicker None 200 (Some ?m2) = Inr (r, Some m3)
       \<and> r = (if started ?m2 = 0 then Some (Wrapped ErrSubSystemNotStarted) else None)
       \<and> createdCounter m3 = createdCounter ?m2 \<and> removedCounter m3 = removedCounter ?m2
       \<and> initSyncWG m3 = initSyncWG ?m2 \<and> later ?m' m3" by blast
  then obtain r m3 where u: "Update ''X'' ''BTC-USD'' ''spot'' SyncItemTicker None 200 (Some ?m2) = Inr (r, Some m3)"
    and r: "r = (if started ?m2 = 0 then Some (Wrapped ErrSubSystemNotStarted) else None)"
    and k: "createdCounter m3 = createdCounter ?m2" "removedCounter m3 = removedCounter ?m2"
      "initSyncWG m3 = initSyncWG ?m2" by blast
  from r h9(1) have "r = Some (Wrapped ErrSubSystemNotStarted)" by simp
  with u k h9 have c2: "\<exists>m3. Update ''X'' ''BTC-USD'' ''spot'' SyncItemTicker None 200 (Some ?m2)
         = Inr (Some (Wrapped ErrSubSystemNotStarted), Some m3)
       \<and> removedCounter m3 = 1 \<and> initSyncWG m3 = 2 \<and> createdCounter m3 = 3" by simp
  from h1 h5 h6 a b h7 c1 c2 show ?thesis by blast
qed

text \<open>
  C2 as stated has the barrier released on the first \<open>Update\<close> that finds the stream
  without data, whatever the state of the initial synchronisation. A unit registered
  after the initial synchronisation completed was not counted by \<open>add\<close> (line 292),
  and its first \<open>Update\<close> releases nothing (line 416). \<open>mgr_late\<close> is such a state,
  reached by a second \<open>Start\<close> with one more pair enabled.
\<close>

theorem Update_barrier_once_counterexample:
  "reachable mgr_late
   \<and> initSyncStarted mgr_late = 1
   \<and> enabledItem (config mgr_late) SyncItemTicker
   \<and> get mgr_late ''X'' ''ETH-USD'' ''spot'' = (Some 1, None)
   \<and> \<not> HaveData (streamOf SyncItemTicker (currencyPairs mgr_late ! 1))
   \<and> Update ''X'' ''ETH-USD'' ''spot'' SyncItemTicker None 100000000004 (Some mgr_late)
       = Inr (None, Some (mgr_late\<lparr>currencyPairs :=
           [tickerUnit ''BTC-USD'' 100000000000 (restBase\<lparr>LastUpdated := 100000000002, HaveData := True\<rparr>),
            tickerUnit ''ETH-USD'' 100000000003 (restBase\<lparr>LastUpdated := 100000000004, HaveData := True\<rparr>)]\<rparr>))
   \<and> removedCounter (mgr_late\<lparr>currencyPairs :=
           [tickerUnit ''BTC-USD'' 100000000000 (restBase\<lparr>LastUpdated := 100000000002, HaveData := True\<rparr>),
            tickerUnit ''ETH-USD'' 100000000003 (restBase\<lparr>LastUpdated := 100000000004, HaveData := True\<rparr>)]\<rparr>)
       = removedCounter mgr_late
   \<and> initSyncWG (mgr_late\<lparr>currencyPairs :=
           [tickerUnit ''BTC-USD'' 100000000000 (restBase\<lparr>LastUpdated := 100000000002, HaveData := True\<rparr>),
            tickerUnit ''ETH-USD'' 100000000003 (restBase\<lparr>LastUpdated := 100000000004, HaveData := True\<rparr>)]\<rparr>)
       = initSyncWG mgr_late"
  using reachable_mgr_late
  by (simp add: Update_def late_defs enabledItem_def get_def sameKey_def streamOf_def release_def
      finalise_def SyncItemOrderbook_def SyncItemTicker_def SyncItemTrade_def)

end
